theory Spec2Isabelle
  imports Complex_Main "HOL-Library.AList"
begin

section \<open>Strings and paths\<close>

text \<open>
  Python's \<^verbatim>\<open>sub in s\<close> on strings: \<open>sub\<close> occurs in \<open>s\<close> as a contiguous,
  case-sensitive block of characters.
\<close>

fun startswith :: "string \<Rightarrow> string \<Rightarrow> bool" where
  "startswith s [] = True"
| "startswith [] (p # ps) = False"
| "startswith (c # cs) (p # ps) = (c = p \<and> startswith cs ps)"

fun contains :: "string \<Rightarrow> string \<Rightarrow> bool" where
  "contains sub [] = (sub = [])"
| "contains sub (c # cs) = (startswith (c # cs) sub \<or> contains sub cs)"

text \<open>
  \<^verbatim>\<open>os.path.basename\<close> (POSIX): everything after the last slash; the whole
  string when there is no slash.
\<close>

definition basename :: "string \<Rightarrow> string" where
  "basename p = rev (takeWhile (\<lambda>c. c \<noteq> CHR ''/'') (rev p))"

section \<open>The scan-type classifier\<close>

text \<open>
  \<^verbatim>\<open>extract_scan_type\<close> (source lines 44 to 86): an \<^verbatim>\<open>if/elif\<close> chain of
  substring tests over the base name.
\<close>

definition extract_scan_type :: "string \<Rightarrow> string" where
  "extract_scan_type xml_file_path =
    (let filename = basename xml_file_path in
     if contains ''FDG'' filename then ''PET_FDG''
     else if contains ''FBB'' filename \<or> contains ''Florbetaben'' filename then ''PET_FBB''
     else if contains ''AV45'' filename \<or> contains ''florbetapir'' filename then ''PET_AV45''
     else if contains ''Tau'' filename \<or> contains ''AV1451'' filename
              \<or> contains ''FLORTAUCIPIR'' filename then ''PET_TAU''
     else if contains ''PET'' filename then ''PET_OTHER''
     else if contains ''MPR'' filename then
       (if contains ''FLAIR'' filename then ''MRI_FLAIR'' else ''MRI_MPRAGE'')
     else if contains ''FLAIR'' filename then ''MRI_FLAIR''
     else if contains ''DTI'' filename then ''MRI_DTI''
     else if contains ''rsfMRI'' filename \<or> contains ''fMRI'' filename then ''MRI_fMRI''
     else if contains ''ASL'' filename then ''MRI_ASL''
     else if contains ''T2'' filename then ''MRI_T2''
     else ''OTHER'')"

text \<open>
  The specification's classifier, written from its words: an ordered table of
  thirteen (predicate, label) entries over the base name, evaluated with
  first-match-wins. The last entry always matches.
\<close>

definition predicate_table :: "((string \<Rightarrow> bool) \<times> string) list" where
  "predicate_table =
    [(\<lambda>b. contains ''FDG'' b, ''PET_FDG''),
     (\<lambda>b. contains ''FBB'' b \<or> contains ''Florbetaben'' b, ''PET_FBB''),
     (\<lambda>b. contains ''AV45'' b \<or> contains ''florbetapir'' b, ''PET_AV45''),
     (\<lambda>b. contains ''Tau'' b \<or> contains ''AV1451'' b \<or> contains ''FLORTAUCIPIR'' b,
        ''PET_TAU''),
     (\<lambda>b. contains ''PET'' b, ''PET_OTHER''),
     (\<lambda>b. contains ''MPR'' b \<and> contains ''FLAIR'' b, ''MRI_FLAIR''),
     (\<lambda>b. contains ''MPR'' b \<and> \<not> contains ''FLAIR'' b, ''MRI_MPRAGE''),
     (\<lambda>b. contains ''FLAIR'' b \<and> \<not> contains ''MPR'' b, ''MRI_FLAIR''),
     (\<lambda>b. contains ''DTI'' b, ''MRI_DTI''),
     (\<lambda>b. contains ''rsfMRI'' b \<or> contains ''fMRI'' b, ''MRI_fMRI''),
     (\<lambda>b. contains ''ASL'' b, ''MRI_ASL''),
     (\<lambda>b. contains ''T2'' b, ''MRI_T2''),
     (\<lambda>b. True, ''OTHER'')]"

fun first_match :: "((string \<Rightarrow> bool) \<times> string) list \<Rightarrow> string \<Rightarrow> string option" where
  "first_match [] b = None"
| "first_match ((p, l) # rest) b = (if p b then Some l else first_match rest b)"

definition classify_spec :: "string \<Rightarrow> string option" where
  "classify_spec filename = first_match predicate_table (basename filename)"

definition pet_marker :: "string \<Rightarrow> bool" where
  "pet_marker b \<longleftrightarrow>
     contains ''FDG'' b \<or> contains ''FBB'' b \<or> contains ''Florbetaben'' b
     \<or> contains ''AV45'' b \<or> contains ''florbetapir'' b \<or> contains ''Tau'' b
     \<or> contains ''AV1451'' b \<or> contains ''FLORTAUCIPIR'' b \<or> contains ''PET'' b"

section \<open>XML documents\<close>

text \<open>
  An element of \<^verbatim>\<open>xml.etree.ElementTree\<close>: its tag, its attributes, its text
  (\<open>None\<close> when the element has no character data before its first child) and its
  children in document order.
\<close>

datatype xml =
  Element (tag: string) (attrib: "(string \<times> string) list") (etext: "string option")
    (children: "xml list")

text \<open>\<^verbatim>\<open>elem.iter()\<close>: the element itself, then its descendants in document order.\<close>

fun iter :: "xml \<Rightarrow> xml list" where
  "iter (Element t a x cs) = Element t a x cs # concat (map iter cs)"

text \<open>
  The path \<^verbatim>\<open>.//name\<close>: every descendant of the context element (the element
  itself excluded) with that tag, in document order. \<^verbatim>\<open>find\<close> returns the first
  one or \<open>None\<close>, \<^verbatim>\<open>findall\<close> all of them.
\<close>

definition findall_desc :: "string \<Rightarrow> xml \<Rightarrow> xml list" where
  "findall_desc name e = filter (\<lambda>x. tag x = name) (concat (map iter (children e)))"

definition first_of :: "'a list \<Rightarrow> 'a option" where
  "first_of xs = (case xs of [] \<Rightarrow> None | x # _ \<Rightarrow> Some x)"

definition find_desc :: "string \<Rightarrow> xml \<Rightarrow> xml option" where
  "find_desc name e = first_of (findall_desc name e)"

text \<open>The path \<^verbatim>\<open>.//name[@key]\<close>: the descendants that carry the attribute.\<close>

definition findall_has_attr :: "string \<Rightarrow> string \<Rightarrow> xml \<Rightarrow> xml list" where
  "findall_has_attr name key e =
     filter (\<lambda>x. map_of (attrib x) key \<noteq> None) (findall_desc name e)"

text \<open>The path \<^verbatim>\<open>.//name[@key="v"]\<close>, first match.\<close>

definition find_attr_eq :: "string \<Rightarrow> string \<Rightarrow> string \<Rightarrow> xml \<Rightarrow> xml option" where
  "find_attr_eq name key v e =
     first_of (filter (\<lambda>x. map_of (attrib x) key = Some v) (findall_desc name e))"

text \<open>The path \<^verbatim>\<open>.//outer/inner\<close>: the \<open>inner\<close> children of every \<open>outer\<close> descendant.\<close>

definition findall_child :: "string \<Rightarrow> string \<Rightarrow> xml \<Rightarrow> xml list" where
  "findall_child outer inner e =
     concat (map (\<lambda>x. filter (\<lambda>c. tag c = inner) (children x)) (findall_desc outer e))"

text \<open>
  The path \<^verbatim>\<open>.//outer//inner\<close>: the \<open>inner\<close> descendants of every \<open>outer\<close>
  descendant (ElementTree does not remove duplicates).
\<close>

definition findall_nested :: "string \<Rightarrow> string \<Rightarrow> xml \<Rightarrow> xml list" where
  "findall_nested outer inner e = concat (map (findall_desc inner) (findall_desc outer e))"

text \<open>\<^verbatim>\<open>elem.get(key, default)\<close>.\<close>

definition attr_get :: "xml \<Rightarrow> string \<Rightarrow> string \<Rightarrow> string" where
  "attr_get e key dflt = (case map_of (attrib e) key of None \<Rightarrow> dflt | Some v \<Rightarrow> v)"

section \<open>Python values and floats\<close>

text \<open>
  The values a metadata dictionary holds. A finite float is the rational it denotes;
  infinities and NaN are not represented. The dictionary is an association list in
  insertion order, written with \<^const>\<open>AList.update\<close> (an existing key keeps its place,
  a new key goes last) and read with \<^const>\<open>map_of\<close>.
\<close>

datatype pyval = PyNone | PyStr string | PyFloat rat | PyInt int

type_synonym metadata = "(string \<times> pyval) list"

datatype error = TypeError | ValueError | ParseError | ZeroDivisionError

definition bind_err :: "error + 'a \<Rightarrow> ('a \<Rightarrow> error + 'b) \<Rightarrow> error + 'b" where
  "bind_err r f = (case r of Inl e \<Rightarrow> Inl e | Inr v \<Rightarrow> f v)"

text \<open>An element's text as a value: a string, or \<^verbatim>\<open>None\<close>.\<close>

definition text_val :: "string option \<Rightarrow> pyval" where
  "text_val t = (case t of None \<Rightarrow> PyNone | Some s \<Rightarrow> PyStr s)"

text \<open>
  \<^verbatim>\<open>float(text)\<close>. Python's own conversion of a string is the parameter \<open>pf\<close>
  (\<open>None\<close> where Python raises \<^verbatim>\<open>ValueError\<close>); \<^verbatim>\<open>float(None)\<close> raises
  \<^verbatim>\<open>TypeError\<close>.
\<close>

definition py_float :: "(string \<Rightarrow> rat option) \<Rightarrow> string option \<Rightarrow> error + rat" where
  "py_float pf t =
     (case t of
        None \<Rightarrow> Inl TypeError
      | Some s \<Rightarrow> (case pf s of None \<Rightarrow> Inl ValueError | Some q \<Rightarrow> Inr q))"

text \<open>\<^verbatim>\<open>int(x)\<close> of a finite float truncates towards zero.\<close>

definition py_int :: "rat \<Rightarrow> int" where
  "py_int q = (if 0 \<le> q then \<lfloor>q\<rfloor> else \<lceil>q\<rceil>)"

text \<open>Truth value of an element's text: \<^verbatim>\<open>None\<close> and the empty string are false.\<close>

definition text_truthy :: "string option \<Rightarrow> bool" where
  "text_truthy t = (case t of None \<Rightarrow> False | Some s \<Rightarrow> s \<noteq> [])"

section \<open>The metadata record builder\<close>

text \<open>
  The two assignment patterns of \<^verbatim>\<open>parse_xml_metadata\<close>:
  \<^verbatim>\<open>metadata[key] = el.text if el is not None else 'N/A'\<close> and
  \<^verbatim>\<open>metadata[key] = float(el.text) if el is not None else None\<close>.
\<close>

definition set_text_field :: "string \<Rightarrow> xml option \<Rightarrow> metadata \<Rightarrow> metadata" where
  "set_text_field key el metadata =
     AList.update key (case el of None \<Rightarrow> PyStr ''N/A'' | Some x \<Rightarrow> text_val (etext x)) metadata"

definition set_float_field ::
  "(string \<Rightarrow> rat option) \<Rightarrow> string \<Rightarrow> xml option \<Rightarrow> metadata \<Rightarrow> error + metadata" where
  "set_float_field pf key el metadata =
     (case el of
        None \<Rightarrow> Inr (AList.update key PyNone metadata)
      | Some x \<Rightarrow> bind_err (py_float pf (etext x))
                    (\<lambda>q. Inr (AList.update key (PyFloat q) metadata)))"

text \<open>Source lines 102 to 128: file name, scan type and the subject's fields.\<close>

definition extract_subject ::
  "(string \<Rightarrow> rat option) \<Rightarrow> string \<Rightarrow> xml \<Rightarrow> error + metadata" where
  "extract_subject pf xml_file_path xroot =
    (let metadata = [];
         metadata = AList.update ''filename'' (PyStr (basename xml_file_path)) metadata;
         metadata = AList.update ''scan_type'' (PyStr (extract_scan_type xml_file_path)) metadata;
         metadata = set_text_field ''subject_id'' (find_desc ''subjectIdentifier'' xroot) metadata;
         metadata = set_text_field ''research_group'' (find_desc ''researchGroup'' xroot) metadata;
         metadata = set_text_field ''gender'' (find_desc ''subjectSex'' xroot) metadata
     in bind_err (set_float_field pf ''age'' (find_desc ''subjectAge'' xroot) metadata)
          (\<lambda>metadata. set_float_field pf ''weight_kg'' (find_desc ''weightKg'' xroot) metadata))"

text \<open>
  Source lines 130 to 137: the loop over \<^verbatim>\<open>.//subjectInfo[@item]\<close>.
  \<^verbatim>\<open>apoe.get('item')\<close> is \<^verbatim>\<open>None\<close> for an element without the attribute, and
  \<^verbatim>\<open>'APOE A1' in None\<close> raises \<^verbatim>\<open>TypeError\<close>.
\<close>

fun extract_apoe :: "xml list \<Rightarrow> metadata \<Rightarrow> error + metadata" where
  "extract_apoe [] metadata = Inr metadata"
| "extract_apoe (apoe # rest) metadata =
     (case map_of (attrib apoe) ''item'' of
        None \<Rightarrow> Inl TypeError
      | Some item \<Rightarrow>
          if contains ''APOE A1'' item
          then extract_apoe rest (AList.update ''apoe_a1'' (text_val (etext apoe)) metadata)
          else if contains ''APOE A2'' item
          then extract_apoe rest (AList.update ''apoe_a2'' (text_val (etext apoe)) metadata)
          else extract_apoe rest metadata)"

text \<open>Source lines 139 to 155: visit and scan information.\<close>

definition extract_visit_scan :: "xml \<Rightarrow> metadata \<Rightarrow> metadata" where
  "extract_visit_scan xroot metadata =
    (let metadata = set_text_field ''visit_type'' (find_desc ''visitIdentifier'' xroot) metadata;
         metadata = set_text_field ''modality'' (find_desc ''modality'' xroot) metadata;
         metadata = set_text_field ''scan_date'' (find_desc ''dateAcquired'' xroot) metadata
     in set_text_field ''series_id'' (find_desc ''seriesIdentifier'' xroot) metadata)"

text \<open>
  \<^verbatim>\<open>_extract_clinical_scores\<close> (source lines 172 to 203): one pass of the loop
  body, an \<^verbatim>\<open>if/elif\<close> chain over the assessment's name, then the loop.
\<close>

definition clinical_step ::
  "(string \<Rightarrow> rat option) \<Rightarrow> xml \<Rightarrow> metadata \<Rightarrow> error + metadata" where
  "clinical_step pf assessment metadata =
    (let name = attr_get assessment ''name'' [] in
     if contains ''MMSE'' name then
       set_float_field pf ''mmse_score''
         (find_attr_eq ''assessmentScore'' ''attribute'' ''MMSCORE'' assessment) metadata
     else if contains ''CDR'' name then
       set_float_field pf ''cdr_score''
         (find_attr_eq ''assessmentScore'' ''attribute'' ''CDGLOBAL'' assessment) metadata
     else if contains ''NPI'' name then
       set_float_field pf ''npi_score''
         (find_attr_eq ''assessmentScore'' ''attribute'' ''NPISCORE'' assessment) metadata
     else if contains ''FAQ'' name then
       set_float_field pf ''faq_score''
         (find_attr_eq ''assessmentScore'' ''attribute'' ''FAQTOTAL'' assessment) metadata
     else Inr metadata)"

fun for_each :: "('a \<Rightarrow> metadata \<Rightarrow> error + metadata) \<Rightarrow> 'a list \<Rightarrow> metadata \<Rightarrow> error + metadata"
  where
  "for_each body [] metadata = Inr metadata"
| "for_each body (x # xs) metadata = bind_err (body x metadata) (for_each body xs)"

definition extract_clinical_scores ::
  "(string \<Rightarrow> rat option) \<Rightarrow> xml \<Rightarrow> metadata \<Rightarrow> error + metadata" where
  "extract_clinical_scores pf xroot metadata =
     for_each (clinical_step pf) (findall_desc ''assessment'' xroot) metadata"

text \<open>
  \<^verbatim>\<open>_extract_imaging_protocol\<close> (source lines 205 to 262). The numeric
  assignments are \<^verbatim>\<open>float(protocol.text) if protocol.text else None\<close> and
  \<^verbatim>\<open>int(float(protocol.text)) if protocol.text else None\<close>.
\<close>

definition set_float_text ::
  "(string \<Rightarrow> rat option) \<Rightarrow> string \<Rightarrow> string option \<Rightarrow> metadata \<Rightarrow> error + metadata" where
  "set_float_text pf key t metadata =
     (if text_truthy t
      then bind_err (py_float pf t) (\<lambda>q. Inr (AList.update key (PyFloat q) metadata))
      else Inr (AList.update key PyNone metadata))"

definition set_int_text ::
  "(string \<Rightarrow> rat option) \<Rightarrow> string \<Rightarrow> string option \<Rightarrow> metadata \<Rightarrow> error + metadata" where
  "set_int_text pf key t metadata =
     (if text_truthy t
      then bind_err (py_float pf t) (\<lambda>q. Inr (AList.update key (PyInt (py_int q)) metadata))
      else Inr (AList.update key PyNone metadata))"

definition mri_protocol_step ::
  "(string \<Rightarrow> rat option) \<Rightarrow> xml \<Rightarrow> metadata \<Rightarrow> error + metadata" where
  "mri_protocol_step pf protocol metadata =
    (let term = attr_get protocol ''term'' [] in
     if term = ''TE'' then set_float_text pf ''te_ms'' (etext protocol) metadata
     else if term = ''TR'' then set_float_text pf ''tr_ms'' (etext protocol) metadata
     else if term = ''Slice Thickness''
       then set_float_text pf ''slice_thickness_mm'' (etext protocol) metadata
     else if term = ''Flip Angle'' then set_float_text pf ''flip_angle'' (etext protocol) metadata
     else if term = ''Manufacturer''
       then Inr (AList.update ''manufacturer'' (text_val (etext protocol)) metadata)
     else if term = ''Mfg Model''
       then Inr (AList.update ''device_model'' (text_val (etext protocol)) metadata)
     else if term = ''Field Strength''
       then set_float_text pf ''field_strength_t'' (etext protocol) metadata
     else Inr metadata)"

definition pet_protocol_step ::
  "(string \<Rightarrow> rat option) \<Rightarrow> xml \<Rightarrow> metadata \<Rightarrow> error + metadata" where
  "pet_protocol_step pf protocol metadata =
    (let term = attr_get protocol ''term'' [] in
     if term = ''Radiopharmaceutical''
       then Inr (AList.update ''radiopharmaceutical'' (text_val (etext protocol)) metadata)
     else if term = ''Number of Rows'' then set_int_text pf ''num_rows'' (etext protocol) metadata
     else if term = ''Number of Columns''
       then set_int_text pf ''num_columns'' (etext protocol) metadata
     else if term = ''Number of Slices''
       then set_int_text pf ''num_slices'' (etext protocol) metadata
     else if term = ''Pixel Spacing X''
       then set_float_text pf ''pixel_spacing_x'' (etext protocol) metadata
     else if term = ''Pixel Spacing Y''
       then set_float_text pf ''pixel_spacing_y'' (etext protocol) metadata
     else if term = ''Reconstruction''
       then Inr (AList.update ''reconstruction_method'' (text_val (etext protocol)) metadata)
     else Inr metadata)"

definition extract_imaging_protocol ::
  "(string \<Rightarrow> rat option) \<Rightarrow> xml \<Rightarrow> metadata \<Rightarrow> error + metadata" where
  "extract_imaging_protocol pf xroot metadata =
     bind_err
       (for_each (mri_protocol_step pf) (findall_child ''protocolTerm'' ''protocol'' xroot) metadata)
       (for_each (pet_protocol_step pf) (findall_nested ''imagingProtocol'' ''protocol'' xroot))"

text \<open>
  \<^verbatim>\<open>_extract_processing_info\<close> (source lines 264 to 288). An f-string prints a
  missing text as \<^verbatim>\<open>None\<close>.
\<close>

definition fmt_text :: "string option \<Rightarrow> string" where
  "fmt_text t = (case t of None \<Rightarrow> ''None'' | Some s \<Rightarrow> s)"

fun join :: "string \<Rightarrow> string list \<Rightarrow> string" where
  "join sep [] = []"
| "join sep [x] = x"
| "join sep (x # y # ys) = x @ sep @ join sep (y # ys)"

fun provenance_steps :: "xml list \<Rightarrow> string list" where
  "provenance_steps [] = []"
| "provenance_steps (detail # rest) =
     (case find_desc ''process'' detail of
        None \<Rightarrow> provenance_steps rest
      | Some process \<Rightarrow>
          (case find_desc ''program'' detail of
             None \<Rightarrow> provenance_steps rest
           | Some program \<Rightarrow>
               (fmt_text (etext process) @ ''('' @ fmt_text (etext program) @ '')'')
                 # provenance_steps rest))"

definition extract_processing_info :: "xml \<Rightarrow> metadata \<Rightarrow> metadata" where
  "extract_processing_info xroot metadata =
    (let metadata =
           (case find_desc ''processedDataLabel'' xroot of
              None \<Rightarrow> metadata
            | Some processed_label \<Rightarrow>
                AList.update ''processing_label'' (text_val (etext processed_label)) metadata);
         processing_steps = provenance_steps (findall_desc ''provenanceDetail'' xroot)
     in AList.update ''processing_steps''
          (if processing_steps \<noteq> [] then PyStr (join ''; '' processing_steps) else PyStr ''N/A'')
          metadata)"

text \<open>
  \<^verbatim>\<open>parse_xml_metadata\<close> (source lines 88 to 170). \<open>build_metadata\<close> is the body of
  the \<^verbatim>\<open>try\<close> block once the document is parsed; the \<^verbatim>\<open>except Exception\<close> clause
  turns every error into the result \<^verbatim>\<open>None\<close>. The document is \<open>None\<close> when
  \<^verbatim>\<open>ET.parse\<close> raises (a file that is not well-formed XML).
\<close>

definition build_metadata ::
  "(string \<Rightarrow> rat option) \<Rightarrow> string \<Rightarrow> xml \<Rightarrow> error + metadata" where
  "build_metadata pf xml_file_path xroot =
     bind_err (extract_subject pf xml_file_path xroot) (\<lambda>metadata.
     bind_err (extract_apoe (findall_has_attr ''subjectInfo'' ''item'' xroot) metadata) (\<lambda>metadata.
     bind_err (extract_clinical_scores pf xroot (extract_visit_scan xroot metadata)) (\<lambda>metadata.
     bind_err (extract_imaging_protocol pf xroot metadata) (\<lambda>metadata.
     Inr (extract_processing_info xroot metadata)))))"

definition parse_xml_metadata ::
  "(string \<Rightarrow> rat option) \<Rightarrow> string \<Rightarrow> xml option \<Rightarrow> metadata option" where
  "parse_xml_metadata pf xml_file_path doc =
     (case doc of
        None \<Rightarrow> None
      | Some xroot \<Rightarrow>
          (case build_metadata pf xml_file_path xroot of
             Inl e \<Rightarrow> None
           | Inr metadata \<Rightarrow> Some metadata))"

section \<open>Processing the folders\<close>

text \<open>
  The processing loop of \<^verbatim>\<open>process_metadata_folders\<close> (source lines 447 to 482),
  over the list \<^verbatim>\<open>folders_to_process\<close>. A folder is whether it exists and the files
  \<^verbatim>\<open>folder.glob("*.xml")\<close> lists; a file is its path and its document. The state is
  the bucket collection \<^verbatim>\<open>self.scan_type_data\<close> (a \<^verbatim>\<open>defaultdict(list)\<close>) and the
  counter \<^verbatim>\<open>processed_count\<close>; \<^verbatim>\<open>type_counts\<close> is a \<^verbatim>\<open>defaultdict(int)\<close>.
\<close>

record xml_file =
  path :: string
  content :: "xml option"

record folder =
  folder_exists :: bool
  xml_files :: "xml_file list"

record run_state =
  scan_type_data :: "(string \<times> metadata list) list"
  processed_count :: int

definition bucket :: "(string \<times> metadata list) list \<Rightarrow> string \<Rightarrow> metadata list" where
  "bucket d k = (case map_of d k of None \<Rightarrow> [] | Some l \<Rightarrow> l)"

definition bucket_append ::
  "(string \<times> metadata list) list \<Rightarrow> string \<Rightarrow> metadata \<Rightarrow> (string \<times> metadata list) list" where
  "bucket_append d k metadata = AList.update k (bucket d k @ [metadata]) d"

text \<open>
  The inner loop over one folder's files. \<^verbatim>\<open>break\<close> returns the state,
  \<^verbatim>\<open>continue\<close> goes on with the remaining files.
\<close>

fun process_files ::
  "(string \<Rightarrow> rat option) \<Rightarrow> int option \<Rightarrow> xml_file list \<Rightarrow> (string \<Rightarrow> int) \<Rightarrow> run_state
     \<Rightarrow> run_state" where
  "process_files pf max_files_per_type [] type_counts st = st"
| "process_files pf max_files_per_type (f # rest) type_counts st =
    (if (case max_files_per_type of None \<Rightarrow> False | Some m \<Rightarrow> processed_count st \<ge> m * 10)
     then st
     else
       (let scan_type = extract_scan_type (path f) in
        if (case max_files_per_type of None \<Rightarrow> False | Some m \<Rightarrow> type_counts scan_type \<ge> m)
        then process_files pf max_files_per_type rest type_counts st
        else
          (case parse_xml_metadata pf (path f) (content f) of
             None \<Rightarrow> process_files pf max_files_per_type rest type_counts st
           | Some metadata \<Rightarrow>
               if metadata = [] then process_files pf max_files_per_type rest type_counts st
               else process_files pf max_files_per_type rest
                      (type_counts(scan_type := type_counts scan_type + 1))
                      (st\<lparr>scan_type_data := bucket_append (scan_type_data st) scan_type metadata,
                          processed_count := processed_count st + 1\<rparr>))))"

text \<open>The outer loop: \<^verbatim>\<open>type_counts\<close> is created anew for every folder.\<close>

fun process_folders ::
  "(string \<Rightarrow> rat option) \<Rightarrow> int option \<Rightarrow> folder list \<Rightarrow> run_state \<Rightarrow> run_state" where
  "process_folders pf max_files_per_type [] st = st"
| "process_folders pf max_files_per_type (fd # rest) st =
    (if \<not> folder_exists fd then process_folders pf max_files_per_type rest st
     else process_folders pf max_files_per_type rest
            (process_files pf max_files_per_type (xml_files fd) (\<lambda>k. 0) st))"

definition process_metadata_folders ::
  "(string \<Rightarrow> rat option) \<Rightarrow> int option \<Rightarrow> folder list \<Rightarrow> run_state" where
  "process_metadata_folders pf max_files_per_type folders_to_process =
     process_folders pf max_files_per_type folders_to_process
       \<lparr>scan_type_data = [], processed_count = 0\<rparr>"

section \<open>Float arithmetic and the summary sheet\<close>

text \<open>
  A Python float is an IEEE binary64 number. \<open>fl\<close> rounds a rational to the nearest
  number with a 53-bit significand, ties to even (the exponent range is taken as
  unbounded: no overflow, no subnormal numbers). Every float operation is the exact
  operation followed by \<open>fl\<close>.
\<close>

fun bitlen :: "nat \<Rightarrow> nat" where
  "bitlen n = (if n = 0 then 0 else Suc (bitlen (n div 2)))"

declare bitlen.simps [simp del]

definition pow2 :: "int \<Rightarrow> rat" where
  "pow2 e = (if 0 \<le> e then 2 ^ nat e else 1 / 2 ^ nat (- e))"

text \<open>For \<open>q > 0\<close>, the exponent \<open>e\<close> with \<open>2 ^ e \<le> q < 2 ^ (e + 1)\<close>.\<close>

definition ilog2 :: "rat \<Rightarrow> int" where
  "ilog2 q =
     (if 1 \<le> q then int (bitlen (nat \<lfloor>q\<rfloor>)) - 1
      else - int (bitlen (nat (\<lceil>1 / q\<rceil> - 1))))"

definition round_half_even :: "rat \<Rightarrow> int" where
  "round_half_even q =
     (let f = \<lfloor>q\<rfloor>; d = q - of_int f in
      if d < 1 / 2 then f
      else if 1 / 2 < d then f + 1
      else if even f then f else f + 1)"

definition fl :: "rat \<Rightarrow> rat" where
  "fl q =
     (if q = 0 then 0
      else (let u = pow2 (ilog2 \<bar>q\<bar> - 52) in of_int (round_half_even (q / u)) * u))"

text \<open>
  The operations the summary uses, on the values they can meet: \<^verbatim>\<open>+\<close> (inside
  \<^verbatim>\<open>sum\<close>, which starts from the integer 0), true division \<^verbatim>\<open>/\<close>, \<^verbatim>\<open>*\<close>,
  \<^verbatim>\<open>round(x, 1)\<close>, truth value, and \<^verbatim>\<open>dict.get\<close>. An operand that is neither an
  integer nor a float raises \<^verbatim>\<open>TypeError\<close>.
\<close>

fun py_add :: "pyval \<Rightarrow> pyval \<Rightarrow> error + pyval" where
  "py_add (PyInt a) (PyInt b) = Inr (PyInt (a + b))"
| "py_add (PyInt a) (PyFloat y) = Inr (PyFloat (fl (fl (of_int a) + y)))"
| "py_add (PyFloat x) (PyInt b) = Inr (PyFloat (fl (x + fl (of_int b))))"
| "py_add (PyFloat x) (PyFloat y) = Inr (PyFloat (fl (x + y)))"
| "py_add _ _ = Inl TypeError"

fun py_sum :: "pyval \<Rightarrow> pyval list \<Rightarrow> error + pyval" where
  "py_sum acc [] = Inr acc"
| "py_sum acc (v # vs) = bind_err (py_add acc v) (\<lambda>acc. py_sum acc vs)"

fun py_truediv :: "pyval \<Rightarrow> pyval \<Rightarrow> error + pyval" where
  "py_truediv (PyInt a) (PyInt b) =
     (if b = 0 then Inl ZeroDivisionError else Inr (PyFloat (fl (of_int a / of_int b))))"
| "py_truediv (PyFloat x) (PyInt b) =
     (if b = 0 then Inl ZeroDivisionError else Inr (PyFloat (fl (x / fl (of_int b)))))"
| "py_truediv (PyInt a) (PyFloat y) =
     (if y = 0 then Inl ZeroDivisionError else Inr (PyFloat (fl (fl (of_int a) / y))))"
| "py_truediv (PyFloat x) (PyFloat y) =
     (if y = 0 then Inl ZeroDivisionError else Inr (PyFloat (fl (x / y))))"
| "py_truediv _ _ = Inl TypeError"

fun py_mul_int :: "pyval \<Rightarrow> int \<Rightarrow> error + pyval" where
  "py_mul_int (PyInt a) b = Inr (PyInt (a * b))"
| "py_mul_int (PyFloat x) b = Inr (PyFloat (fl (x * fl (of_int b))))"
| "py_mul_int _ b = Inl TypeError"

text \<open>
  \<^verbatim>\<open>round(x, 1)\<close>: a float goes to the float nearest to its value rounded to one
  decimal, ties to even; an integer is returned as it is.
\<close>

fun py_round1 :: "pyval \<Rightarrow> error + pyval" where
  "py_round1 (PyFloat x) = Inr (PyFloat (fl (of_int (round_half_even (x * 10)) / 10)))"
| "py_round1 (PyInt a) = Inr (PyInt a)"
| "py_round1 _ = Inl TypeError"

fun py_truthy :: "pyval \<Rightarrow> bool" where
  "py_truthy PyNone = False"
| "py_truthy (PyStr s) = (s \<noteq> [])"
| "py_truthy (PyFloat x) = (x \<noteq> 0)"
| "py_truthy (PyInt a) = (a \<noteq> 0)"

definition dict_get :: "metadata \<Rightarrow> string \<Rightarrow> pyval" where
  "dict_get d k = (case map_of d k of None \<Rightarrow> PyNone | Some v \<Rightarrow> v)"

text \<open>The format \<^verbatim>\<open>:.1f\<close> of a float: its value rounded to one decimal, ties to even.\<close>

fun digits_of :: "nat \<Rightarrow> string" where
  "digits_of n =
     (if n < 10 then [''0123456789'' ! n]
      else digits_of (n div 10) @ [''0123456789'' ! (n mod 10)])"

declare digits_of.simps [simp del]

definition fmt_1f :: "rat \<Rightarrow> string" where
  "fmt_1f x =
     (let n = nat (round_half_even (\<bar>x\<bar> * 10)) in
      (if x < 0 then ''-'' else []) @ digits_of (n div 10) @ ''.'' @ digits_of (n mod 10))"

fun py_format_1f :: "pyval \<Rightarrow> error + string" where
  "py_format_1f (PyFloat x) = Inr (fmt_1f x)"
| "py_format_1f (PyInt a) = Inr (fmt_1f (fl (of_int a)))"
| "py_format_1f _ = Inl TypeError"

text \<open>
  The summary sheet of \<^verbatim>\<open>create_detailed_excel\<close> (source lines 529 to 553): one row
  per bucket. An error raised while a row is computed is caught by the method's
  \<^verbatim>\<open>except\<close> clause, and no file is produced.
\<close>

record summary_row =
  scan_type :: string
  data_count :: nat
  average_age :: pyval
  male_ratio :: string
  ad_patients :: nat
  mci_patients :: nat
  cn_patients :: nat

definition avg_age :: "metadata list \<Rightarrow> error + pyval" where
  "avg_age data_list =
    (let ages = map (\<lambda>d. dict_get d ''age'')
                  (filter (\<lambda>d. py_truthy (dict_get d ''age'')) data_list) in
     if ages \<noteq> [] then
       bind_err (py_sum (PyInt 0) ages) (\<lambda>total.
       bind_err (py_truediv total (PyInt (int (length ages)))) py_round1)
     else Inr (PyStr ''N/A''))"

definition male_ratio_of :: "metadata list \<Rightarrow> error + string" where
  "male_ratio_of data_list =
    (let male_count = length (filter (\<lambda>d. dict_get d ''gender'' = PyStr ''M'') data_list) in
     if data_list \<noteq> [] then
       bind_err (py_truediv (PyInt (int male_count)) (PyInt (int (length data_list)))) (\<lambda>r.
       bind_err (py_mul_int r 100) (\<lambda>p.
       bind_err (py_format_1f p) (\<lambda>s. Inr (s @ ''%''))))
     else Inr ''N/A'')"

definition count_group :: "string \<Rightarrow> metadata list \<Rightarrow> nat" where
  "count_group g data_list =
     length (filter (\<lambda>d. dict_get d ''research_group'' = PyStr g) data_list)"

definition summary_row_of :: "string \<Rightarrow> metadata list \<Rightarrow> error + summary_row" where
  "summary_row_of st data_list =
     bind_err (avg_age data_list) (\<lambda>avg.
     bind_err (male_ratio_of data_list) (\<lambda>ratio.
     Inr \<lparr>scan_type = st, data_count = length data_list, average_age = avg,
          male_ratio = ratio,
          ad_patients = count_group ''AD'' data_list,
          mci_patients = count_group ''MCI'' data_list,
          cn_patients = count_group ''CN'' data_list\<rparr>))"

fun summary_data :: "(string \<times> metadata list) list \<Rightarrow> error + summary_row list" where
  "summary_data [] = Inr []"
| "summary_data ((st, data_list) # rest) =
     bind_err (summary_row_of st data_list) (\<lambda>row.
     bind_err (summary_data rest) (\<lambda>rows. Inr (row # rows)))"

section \<open>Fields, keys and converted texts\<close>

text \<open>
  The fields of the two protocol loops as tables from the \<^verbatim>\<open>term\<close> attribute to the
  key written, the numeric fields apart from the text fields; and the string and
  number fields of \<^verbatim>\<open>parse_xml_metadata\<close> as tables from the element's tag to the key.
\<close>

definition string_fields :: "(string \<times> string) list" where
  "string_fields =
     [(''subjectIdentifier'', ''subject_id''), (''researchGroup'', ''research_group''),
      (''subjectSex'', ''gender''), (''visitIdentifier'', ''visit_type''),
      (''modality'', ''modality''), (''dateAcquired'', ''scan_date''),
      (''seriesIdentifier'', ''series_id'')]"

definition number_fields :: "(string \<times> string) list" where
  "number_fields = [(''subjectAge'', ''age''), (''weightKg'', ''weight_kg'')]"

text \<open>The keys each stage of \<^verbatim>\<open>parse_xml_metadata\<close> assigns.\<close>

definition subject_keys :: "string set" where
  "subject_keys = {''filename'', ''scan_type'', ''subject_id'', ''research_group'', ''gender'',
     ''age'', ''weight_kg''}"

definition apoe_keys :: "string set" where
  "apoe_keys = {''apoe_a1'', ''apoe_a2''}"

definition visit_keys :: "string set" where
  "visit_keys = {''visit_type'', ''modality'', ''scan_date'', ''series_id''}"

definition clinical_keys :: "string set" where
  "clinical_keys = {''mmse_score'', ''cdr_score'', ''npi_score'', ''faq_score''}"

definition mri_keys :: "string set" where
  "mri_keys = {''te_ms'', ''tr_ms'', ''slice_thickness_mm'', ''flip_angle'', ''manufacturer'',
     ''device_model'', ''field_strength_t''}"

definition pet_keys :: "string set" where
  "pet_keys = {''radiopharmaceutical'', ''num_rows'', ''num_columns'', ''num_slices'',
     ''pixel_spacing_x'', ''pixel_spacing_y'', ''reconstruction_method''}"

definition processing_keys :: "string set" where
  "processing_keys = {''processing_label'', ''processing_steps''}"

definition opt_list :: "'a option \<Rightarrow> 'a list" where
  "opt_list x = (case x of None \<Rightarrow> [] | Some v \<Rightarrow> [v])"

definition clinical_target :: "xml \<Rightarrow> xml option" where
  "clinical_target assessment =
    (let name = attr_get assessment ''name'' [] in
     if contains ''MMSE'' name
       then find_attr_eq ''assessmentScore'' ''attribute'' ''MMSCORE'' assessment
     else if contains ''CDR'' name
       then find_attr_eq ''assessmentScore'' ''attribute'' ''CDGLOBAL'' assessment
     else if contains ''NPI'' name
       then find_attr_eq ''assessmentScore'' ''attribute'' ''NPISCORE'' assessment
     else if contains ''FAQ'' name
       then find_attr_eq ''assessmentScore'' ''attribute'' ''FAQTOTAL'' assessment
     else None)"

definition mri_numeric_fields :: "(string \<times> string) list" where
  "mri_numeric_fields =
     [(''TE'', ''te_ms''), (''TR'', ''tr_ms''), (''Slice Thickness'', ''slice_thickness_mm''),
      (''Flip Angle'', ''flip_angle''), (''Field Strength'', ''field_strength_t'')]"

definition pet_numeric_fields :: "(string \<times> string) list" where
  "pet_numeric_fields =
     [(''Number of Rows'', ''num_rows''), (''Number of Columns'', ''num_columns''),
      (''Number of Slices'', ''num_slices''), (''Pixel Spacing X'', ''pixel_spacing_x''),
      (''Pixel Spacing Y'', ''pixel_spacing_y'')]"

definition mri_text_fields :: "(string \<times> string) list" where
  "mri_text_fields = [(''Manufacturer'', ''manufacturer''), (''Mfg Model'', ''device_model'')]"

definition pet_text_fields :: "(string \<times> string) list" where
  "pet_text_fields =
     [(''Radiopharmaceutical'', ''radiopharmaceutical''),
      (''Reconstruction'', ''reconstruction_method'')]"

definition numeric_term :: "(string \<times> string) list \<Rightarrow> xml \<Rightarrow> bool" where
  "numeric_term tbl protocol \<longleftrightarrow> map_of tbl (attr_get protocol ''term'' []) \<noteq> None"

text \<open>\<^verbatim>\<open>float(text)\<close> returns a number.\<close>

definition converts :: "(string \<Rightarrow> rat option) \<Rightarrow> string option \<Rightarrow> bool" where
  "converts pf t = (case py_float pf t of Inl e \<Rightarrow> False | Inr q \<Rightarrow> True)"

text \<open>
  The texts the builder passes to \<^verbatim>\<open>float\<close>, in the order of the conversions: the
  first \<^verbatim>\<open>subjectAge\<close> and \<^verbatim>\<open>weightKg\<close> elements, for every assessment the score
  element its name selects, and the protocol elements with a numeric term and a
  non-empty text on the two protocol paths.
\<close>

definition float_targets :: "xml \<Rightarrow> string option list" where
  "float_targets xroot =
     map etext
       (opt_list (find_desc ''subjectAge'' xroot)
        @ opt_list (find_desc ''weightKg'' xroot)
        @ concat (map (\<lambda>a. opt_list (clinical_target a)) (findall_desc ''assessment'' xroot))
        @ filter (\<lambda>p. numeric_term mri_numeric_fields p \<and> text_truthy (etext p))
            (findall_child ''protocolTerm'' ''protocol'' xroot)
        @ filter (\<lambda>p. numeric_term pet_numeric_fields p \<and> text_truthy (etext p))
            (findall_nested ''imagingProtocol'' ''protocol'' xroot))"

section \<open>A conversion for concrete documents\<close>

text \<open>
  The builder takes Python's \<^verbatim>\<open>float\<close> on strings as a parameter, and the general
  theorems hold for every such parameter. \<open>dec_float\<close> is the instance used on the
  example documents. It accepts the plain decimal literals only: an optional sign, digits,
  and an optional point followed by digits (at least one digit in all), and gives the
  literal's value rounded to binary64, as Python does for a literal within the binary64
  range. It refuses every other string. That is less than Python's \<^verbatim>\<open>float\<close> accepts:
  Python also takes white space around the literal, an exponent (\<^verbatim>\<open>1e3\<close>), underscores
  between digits, and the words \<^verbatim>\<open>inf\<close>, \<^verbatim>\<open>infinity\<close> and \<^verbatim>\<open>nan\<close> in any
  case; on those strings \<open>dec_float\<close> differs from Python, and infinities and NaN have
  no value in this model at all. The strings converted in the example documents are plain
  decimal literals, the empty string, and \<^verbatim>\<open>abc\<close>; Python refuses the last two as
  \<open>dec_float\<close> does.
\<close>

definition is_digit :: "char \<Rightarrow> bool" where
  "is_digit c \<longleftrightarrow> List.member ''0123456789'' c"

definition digits_val :: "string \<Rightarrow> nat" where
  "digits_val ds = foldl (\<lambda>a c. 10 * a + (of_char c - 48)) 0 ds"

definition dec_float :: "string \<Rightarrow> rat option" where
  "dec_float s =
    (let neg = (take 1 s = ''-'');
         body = (if take 1 s = ''-'' \<or> take 1 s = ''+'' then drop 1 s else s);
         ip = takeWhile (\<lambda>c. c \<noteq> CHR ''.'') body;
         fp = drop (Suc (length ip)) body
     in if (ip = [] \<and> fp = []) \<or> \<not> list_all is_digit ip \<or> \<not> list_all is_digit fp then None
        else (let v = of_nat (digits_val ip) + of_nat (digits_val fp) / 10 ^ length fp
              in Some (fl (if neg then - v else v))))"

section \<open>Example documents\<close>

definition assessment_both :: xml where
  "assessment_both =
     Element ''assessment'' [(''name'', ''MMSE CDR'')] None
       [Element ''component'' [(''name'', ''Scores'')] None
          [Element ''assessmentScore'' [(''attribute'', ''MMSCORE'')] (Some ''29'') [],
           Element ''assessmentScore'' [(''attribute'', ''CDGLOBAL'')] (Some ''0.5'') []]]"

definition doc_clinical_both :: xml where
  "doc_clinical_both =
     Element ''idaxs'' [] None
       [Element ''project'' [] None
          [Element ''subject'' [] None
             [Element ''subjectIdentifier'' [] (Some ''002_S_0295'') [],
              Element ''visit'' [] None [assessment_both]]]]"

definition doc_apoe_repeated :: xml where
  "doc_apoe_repeated =
     Element ''idaxs'' [] None
       [Element ''project'' [] None
          [Element ''subject'' [] None
             [Element ''subjectIdentifier'' [] (Some ''002_S_0295'') [],
              Element ''subjectInfo'' [(''item'', ''APOE A1'')] (Some ''3'') [],
              Element ''subjectInfo'' [(''item'', ''APOE A2'')] (Some ''3'') [],
              Element ''subjectInfo'' [(''item'', ''APOE A1'')] (Some ''4'') [],
              Element ''subjectInfo'' [(''item'', ''APOE A2'')] (Some ''2'') []]]]"

definition doc_apoe_both :: xml where
  "doc_apoe_both =
     Element ''idaxs'' [] None
       [Element ''project'' [] None
          [Element ''subject'' [] None
             [Element ''subjectIdentifier'' [] (Some ''002_S_0295'') [],
              Element ''subjectInfo'' [(''item'', ''APOE A2'')] (Some ''3'') [],
              Element ''subjectInfo'' [(''item'', ''APOE A1 / APOE A2'')] (Some ''4'') []]]]"

definition fdg_record_1 :: metadata where
  "fdg_record_1 = [(''filename'', PyStr ''ADNI_002_S_0295_FDG_S1.xml''), (''scan_type'', PyStr ''PET_FDG''),
     (''research_group'', PyStr ''AD''), (''gender'', PyStr ''M''), (''age'', PyFloat 60)]"


definition fdg_record_3 :: metadata where
  "fdg_record_3 = [(''filename'', PyStr ''ADNI_002_S_0559_FDG_S3.xml''), (''scan_type'', PyStr ''PET_FDG''),
     (''research_group'', PyStr ''CN''), (''gender'', PyStr ''F''), (''age'', PyFloat 80)]"

definition zero_age_record :: metadata where
  "zero_age_record = [(''filename'', PyStr ''ADNI_002_S_0295_T2_S1.xml''), (''scan_type'', PyStr ''MRI_T2''),
     (''research_group'', PyStr ''AD''), (''gender'', PyStr ''M''), (''age'', PyFloat 0)]"

definition none_age_record :: metadata where
  "none_age_record = [(''filename'', PyStr ''ADNI_002_S_0413_T2_S2.xml''), (''scan_type'', PyStr ''MRI_T2''),
     (''research_group'', PyStr ''CN''), (''gender'', PyStr ''F''), (''age'', PyNone)]"

definition no_age_record :: metadata where
  "no_age_record = [(''filename'', PyStr ''ADNI_002_S_0559_T2_S3.xml''), (''scan_type'', PyStr ''MRI_T2''),
     (''research_group'', PyStr ''CN''), (''gender'', PyStr ''F'')]"

definition doc_minimal :: xml where
  "doc_minimal =
     Element ''idaxs'' [] None
       [Element ''project'' [] None
          [Element ''subject'' [] None
             [Element ''subjectIdentifier'' [] (Some ''002_S_0295'') [],
              Element ''researchGroup'' [] (Some ''CN'') [],
              Element ''subjectSex'' [] (Some ''M'') [],
              Element ''study'' [] None
                [Element ''subjectAge'' [] (Some ''72.5'') []]]]]"

definition fdg_file :: "string \<Rightarrow> nat \<Rightarrow> xml_file" where
  "fdg_file dir i =
     \<lparr>path = dir @ ''/ADNI_002_S_0295_FDG_S'' @ digits_of i @ ''.xml'',
      content = Some doc_minimal\<rparr>"

definition fdg_folder :: "string \<Rightarrow> nat \<Rightarrow> nat \<Rightarrow> folder" where
  "fdg_folder dir i j = \<lparr>folder_exists = True, xml_files = map (fdg_file dir) [i..<j]\<rparr>"

definition eleven_folders :: "folder list" where
  "eleven_folders =
     map (\<lambda>i. fdg_folder (''ADNI_PET_metadata/ADNI'' @ digits_of i) 1 3) [1..<12]"


definition doc_empty_protocol :: xml where
  "doc_empty_protocol =
     Element ''idaxs'' [] None
       [Element ''project'' [] None
          [Element ''subject'' [] None
             [Element ''subjectIdentifier'' [] (Some ''002_S_0295'') [],
              Element ''study'' [] None
                [Element ''subjectAge'' [] (Some ''72.5'') [],
                 Element ''series'' [] None
                   [Element ''imagingProtocol'' [] None
                      [Element ''protocolTerm'' [] None
                         [Element ''protocol'' [(''term'', ''TE'')] None [],
                          Element ''protocol'' [(''term'', ''Number of Rows'')] None [],
                          Element ''protocol'' [(''term'', ''Manufacturer'')]
                            (Some ''SIEMENS'') []]]]]]]]"

definition doc_empty_age :: xml where
  "doc_empty_age =
     Element ''idaxs'' [] None
       [Element ''project'' [] None
          [Element ''subject'' [] None
             [Element ''subjectIdentifier'' [] (Some ''002_S_0295'') [],
              Element ''study'' [] None
                [Element ''subjectAge'' [] None []]]]]"

definition doc_bad_age :: xml where
  "doc_bad_age =
     Element ''idaxs'' [] None
       [Element ''project'' [] None
          [Element ''subject'' [] None
             [Element ''subjectIdentifier'' [] (Some ''002_S_0295'') [],
              Element ''study'' [] None
                [Element ''subjectAge'' [] (Some ''abc'') []]]]]"

definition doc_root_only :: xml where
  "doc_root_only = Element ''idaxs'' [] None []"

definition doc_empty_weight :: xml where
  "doc_empty_weight =
     Element ''idaxs'' [] None
       [Element ''project'' [] None
          [Element ''subject'' [] None
             [Element ''subjectIdentifier'' [] (Some ''002_S_0295'') [],
              Element ''study'' [] None
                [Element ''subjectAge'' [] (Some ''72.5'') [],
                 Element ''weightKg'' [] None []]]]]"

definition bad_age_file :: xml_file where
  "bad_age_file = \<lparr>path = ''ADNI/ADNI_002_S_0295_MPR_S13407.xml'', content = Some doc_bad_age\<rparr>"

definition good_age_file :: xml_file where
  "good_age_file = \<lparr>path = ''ADNI/ADNI_002_S_0295_MPR_S13408.xml'', content = Some doc_minimal\<rparr>"

section \<open>Properties of the classifier\<close>

lemma startswith_iff: "startswith s p \<longleftrightarrow> (\<exists>r. s = p @ r)"
  by (induction s p rule: startswith.induct) auto

lemma contains_iff: "contains sub s \<longleftrightarrow> (\<exists>pre post. s = pre @ sub @ post)"
proof (induction s)
  case Nil
  then show ?case by auto
next
  case (Cons c cs)
  show ?case
  proof
    assume "contains sub (c # cs)"
    then consider "startswith (c # cs) sub" | "contains sub cs" by auto
    then show "\<exists>pre post. c # cs = pre @ sub @ post"
    proof cases
      case 1
      then obtain r where "c # cs = sub @ r" by (auto simp: startswith_iff)
      then have "c # cs = [] @ sub @ r" by simp
      then show ?thesis by blast
    next
      case 2
      then obtain pre post where "cs = pre @ sub @ post" using Cons.IH by auto
      then have "c # cs = (c # pre) @ sub @ post" by simp
      then show ?thesis by blast
    qed
  next
    assume "\<exists>pre post. c # cs = pre @ sub @ post"
    then obtain pre post where eq: "c # cs = pre @ sub @ post" by blast
    show "contains sub (c # cs)"
    proof (cases pre)
      case Nil
      with eq have "startswith (c # cs) sub" by (auto simp: startswith_iff)
      then show ?thesis by simp
    next
      case (Cons a pre')
      with eq have "cs = pre' @ sub @ post" by simp
      then have "contains sub cs" using Cons.IH by blast
      then show ?thesis by simp
    qed
  qed
qed

text \<open>
  Claim C1. For every file name, \<^verbatim>\<open>extract_scan_type\<close> returns what the
  specification's table of thirteen ordered predicates returns on the base name, with
  first-match-wins. A base name with a PET marker gets a PET label. A base name with
  both \<^verbatim>\<open>MPR\<close> and \<^verbatim>\<open>FLAIR\<close> never gets \<^verbatim>\<open>MRI_MPRAGE\<close>, and gets
  \<^verbatim>\<open>MRI_FLAIR\<close> when it has no PET marker. When none of the twelve proper
  predicates matches, the label is \<^verbatim>\<open>OTHER\<close>.
\<close>

theorem extract_scan_type_table:
  "classify_spec p = Some (extract_scan_type p)
   \<and> (pet_marker (basename p) \<longrightarrow>
        extract_scan_type p \<in> {''PET_FDG'', ''PET_FBB'', ''PET_AV45'', ''PET_TAU'', ''PET_OTHER''})
   \<and> (contains ''MPR'' (basename p) \<and> contains ''FLAIR'' (basename p) \<longrightarrow>
        extract_scan_type p \<noteq> ''MRI_MPRAGE'')
   \<and> (contains ''MPR'' (basename p) \<and> contains ''FLAIR'' (basename p)
        \<and> \<not> pet_marker (basename p) \<longrightarrow> extract_scan_type p = ''MRI_FLAIR'')
   \<and> (first_match (butlast predicate_table) (basename p) = None \<longrightarrow>
        extract_scan_type p = ''OTHER'')"
proof -
  have table: "classify_spec p = Some (extract_scan_type p)"
    by (simp add: classify_spec_def predicate_table_def extract_scan_type_def Let_def)
  have pet: "pet_marker (basename p) \<longrightarrow>
      extract_scan_type p \<in> {''PET_FDG'', ''PET_FBB'', ''PET_AV45'', ''PET_TAU'', ''PET_OTHER''}"
    by (simp add: pet_marker_def extract_scan_type_def Let_def)
  have never: "contains ''MPR'' (basename p) \<and> contains ''FLAIR'' (basename p) \<longrightarrow>
      extract_scan_type p \<noteq> ''MRI_MPRAGE''"
    by (simp add: extract_scan_type_def Let_def)
  have flair: "contains ''MPR'' (basename p) \<and> contains ''FLAIR'' (basename p)
      \<and> \<not> pet_marker (basename p) \<longrightarrow> extract_scan_type p = ''MRI_FLAIR''"
    by (simp add: pet_marker_def extract_scan_type_def Let_def)
  have other: "first_match (butlast predicate_table) (basename p) = None \<longrightarrow>
      extract_scan_type p = ''OTHER''"
    by (simp add: predicate_table_def extract_scan_type_def Let_def split: if_splits)
  from table pet never flair other show ?thesis by blast
qed

theorem extract_scan_type_table_witness:
  "contains ''MPR'' (basename ''ADNI/ADNI_002_S_0295_MPR_FLAIR_S13408.xml'')
   \<and> contains ''FLAIR'' (basename ''ADNI/ADNI_002_S_0295_MPR_FLAIR_S13408.xml'')
   \<and> \<not> pet_marker (basename ''ADNI/ADNI_002_S_0295_MPR_FLAIR_S13408.xml'')
   \<and> extract_scan_type ''ADNI/ADNI_002_S_0295_MPR_FLAIR_S13408.xml'' = ''MRI_FLAIR''
   \<and> classify_spec ''ADNI/ADNI_002_S_0295_MPR_FLAIR_S13408.xml'' = Some ''MRI_FLAIR''
   \<and> pet_marker (basename ''ADNI/ADNI_002_S_0295_AV45_S13408.xml'')
   \<and> extract_scan_type ''ADNI/ADNI_002_S_0295_AV45_S13408.xml'' = ''PET_AV45''
   \<and> first_match (butlast predicate_table) (basename ''ADNI/ADNI_002_S_0295_S13408.xml'') = None
   \<and> extract_scan_type ''ADNI/ADNI_002_S_0295_S13408.xml'' = ''OTHER''"
proof -
  have h1: "contains ''MPR'' (basename ''ADNI/ADNI_002_S_0295_MPR_FLAIR_S13408.xml'')
      \<and> contains ''FLAIR'' (basename ''ADNI/ADNI_002_S_0295_MPR_FLAIR_S13408.xml'')
      \<and> \<not> pet_marker (basename ''ADNI/ADNI_002_S_0295_MPR_FLAIR_S13408.xml'')"
    by code_simp
  have h2: "pet_marker (basename ''ADNI/ADNI_002_S_0295_AV45_S13408.xml'')"
    by code_simp
  have h3: "first_match (butlast predicate_table) (basename ''ADNI/ADNI_002_S_0295_S13408.xml'')
      = None"
    by code_simp
  have e2: "extract_scan_type ''ADNI/ADNI_002_S_0295_AV45_S13408.xml'' = ''PET_AV45''"
    by code_simp
  from h1 h2 h3 e2
    extract_scan_type_table [of "''ADNI/ADNI_002_S_0295_MPR_FLAIR_S13408.xml''"]
    extract_scan_type_table [of "''ADNI/ADNI_002_S_0295_AV45_S13408.xml''"]
    extract_scan_type_table [of "''ADNI/ADNI_002_S_0295_S13408.xml''"]
  show ?thesis by simp
qed

text \<open>
  The file name below has both \<^verbatim>\<open>MPR\<close> and \<^verbatim>\<open>FLAIR\<close> and also the PET marker
  \<^verbatim>\<open>FDG\<close>, which is tested first: the label is \<^verbatim>\<open>PET_FDG\<close>, not \<^verbatim>\<open>MRI_FLAIR\<close>.
\<close>

theorem mpr_flair_with_pet_marker_counterexample:
  "contains ''MPR'' (basename ''ADNI/ADNI_002_S_0295_FDG_MPR_FLAIR.xml'')
   \<and> contains ''FLAIR'' (basename ''ADNI/ADNI_002_S_0295_FDG_MPR_FLAIR.xml'')
   \<and> extract_scan_type ''ADNI/ADNI_002_S_0295_FDG_MPR_FLAIR.xml'' = ''PET_FDG''
   \<and> extract_scan_type ''ADNI/ADNI_002_S_0295_FDG_MPR_FLAIR.xml'' \<noteq> ''MRI_FLAIR''"
  by code_simp

section \<open>Properties of the record builder\<close>

lemma bind_err_Inr_iff: "bind_err r f = Inr y \<longleftrightarrow> (\<exists>v. r = Inr v \<and> f v = Inr y)"
  by (cases r) (auto simp: bind_err_def)

lemma bind_err_Inl: "r = Inl e \<Longrightarrow> bind_err r f = Inl e"
  by (simp add: bind_err_def)

lemma map_of_update_other: "k \<noteq> key \<Longrightarrow> map_of (AList.update key v md) k = map_of md k"
  by (simp add: update_conv')

lemma map_of_update_same: "map_of (AList.update key v md) key = Some v"
  by (simp add: update_conv')

lemma set_text_field_other: "k \<noteq> key \<Longrightarrow> map_of (set_text_field key el md) k = map_of md k"
  by (simp add: set_text_field_def map_of_update_other)

lemma set_float_field_other:
  "set_float_field pf key el md = Inr md' \<Longrightarrow> k \<noteq> key \<Longrightarrow> map_of md' k = map_of md k"
  by (auto simp: set_float_field_def bind_err_Inr_iff map_of_update_other split: option.splits)

lemma set_float_text_other:
  "set_float_text pf key t md = Inr md' \<Longrightarrow> k \<noteq> key \<Longrightarrow> map_of md' k = map_of md k"
  by (auto simp: set_float_text_def bind_err_Inr_iff map_of_update_other split: if_splits)

lemma set_int_text_other:
  "set_int_text pf key t md = Inr md' \<Longrightarrow> k \<noteq> key \<Longrightarrow> map_of md' k = map_of md k"
  by (auto simp: set_int_text_def bind_err_Inr_iff map_of_update_other split: if_splits)

lemma for_each_frame:
  assumes "\<And>x m m'. x \<in> set xs \<Longrightarrow> body x m = Inr m' \<Longrightarrow> map_of m' k = map_of m k"
    and "for_each body xs md = Inr md'"
  shows "map_of md' k = map_of md k"
  using assms
proof (induction xs arbitrary: md)
  case Nil
  then show ?case by simp
next
  case (Cons x xs)
  from Cons.prems(2) obtain m1 where s: "body x md = Inr m1" and r: "for_each body xs m1 = Inr md'"
    by (auto simp: bind_err_Inr_iff)
  have "map_of m1 k = map_of md k" using Cons.prems(1) [of x md m1] s by simp
  moreover have "map_of md' k = map_of m1 k"
    by (rule Cons.IH [OF _ r]) (use Cons.prems(1) in auto)
  ultimately show ?case by simp
qed

lemma clinical_step_frame:
  "clinical_step pf a md = Inr md' \<Longrightarrow> k \<notin> {''mmse_score'', ''cdr_score'', ''npi_score'', ''faq_score''} \<Longrightarrow> map_of md' k = map_of md k"
  by (auto simp: clinical_step_def Let_def dest: set_float_field_other split: if_splits)

lemma mri_protocol_step_frame:
  "mri_protocol_step pf p md = Inr md' \<Longrightarrow>
   k \<notin> {''te_ms'', ''tr_ms'', ''slice_thickness_mm'', ''flip_angle'', ''manufacturer'',
         ''device_model'', ''field_strength_t''} \<Longrightarrow> map_of md' k = map_of md k"
  by (auto simp: mri_protocol_step_def Let_def map_of_update_other dest: set_float_text_other split: if_splits)

lemma pet_protocol_step_frame:
  "pet_protocol_step pf p md = Inr md' \<Longrightarrow>
   k \<notin> {''radiopharmaceutical'', ''num_rows'', ''num_columns'', ''num_slices'',
         ''pixel_spacing_x'', ''pixel_spacing_y'', ''reconstruction_method''} \<Longrightarrow>
   map_of md' k = map_of md k"
  by (auto simp: pet_protocol_step_def Let_def map_of_update_other dest: set_float_text_other set_int_text_other split: if_splits)

lemma extract_apoe_frame:
  "extract_apoe es md = Inr md' \<Longrightarrow> k \<noteq> ''apoe_a1'' \<Longrightarrow> k \<noteq> ''apoe_a2'' \<Longrightarrow>
   map_of md' k = map_of md k"
proof (induction es arbitrary: md)
  case Nil
  then show ?case by simp
next
  case (Cons e es)
  then show ?case
    by (auto simp: map_of_update_other split: option.splits if_splits)
qed

lemma extract_visit_scan_frame:
  "k \<notin> {''visit_type'', ''modality'', ''scan_date'', ''series_id''} \<Longrightarrow>
   map_of (extract_visit_scan xroot md) k = map_of md k"
  by (simp add: extract_visit_scan_def Let_def set_text_field_other)

lemma extract_processing_info_frame:
  "k \<noteq> ''processing_label'' \<Longrightarrow> k \<noteq> ''processing_steps'' \<Longrightarrow>
   map_of (extract_processing_info xroot md) k = map_of md k"
  by (simp add: extract_processing_info_def Let_def map_of_update_other split: option.splits)


lemma build_metadata_Inr:
  assumes "build_metadata pf p xroot = Inr md"
  obtains m1 m2 m3 m4 where
    "extract_subject pf p xroot = Inr m1"
    "extract_apoe (findall_has_attr ''subjectInfo'' ''item'' xroot) m1 = Inr m2"
    "extract_clinical_scores pf xroot (extract_visit_scan xroot m2) = Inr m3"
    "extract_imaging_protocol pf xroot m3 = Inr m4"
    "md = extract_processing_info xroot m4"
  using assms unfolding build_metadata_def bind_err_Inr_iff by auto

lemma parse_Some_iff:
  "parse_xml_metadata pf p doc = Some md \<longleftrightarrow> (\<exists>xroot. doc = Some xroot \<and> build_metadata pf p xroot = Inr md)"
  by (auto simp: parse_xml_metadata_def split: option.splits sum.splits)

lemma extract_clinical_scores_frame:
  "extract_clinical_scores pf xroot md = Inr md' \<Longrightarrow>
   k \<notin> {''mmse_score'', ''cdr_score'', ''npi_score'', ''faq_score''} \<Longrightarrow> map_of md' k = map_of md k"
  unfolding extract_clinical_scores_def
  by (erule for_each_frame [rotated]) (rule clinical_step_frame)

lemma extract_imaging_protocol_frame:
  assumes "extract_imaging_protocol pf xroot md = Inr md'"
    and "k \<notin> {''te_ms'', ''tr_ms'', ''slice_thickness_mm'', ''flip_angle'', ''manufacturer'',
         ''device_model'', ''field_strength_t''}"
    and "k \<notin> {''radiopharmaceutical'', ''num_rows'', ''num_columns'', ''num_slices'',
         ''pixel_spacing_x'', ''pixel_spacing_y'', ''reconstruction_method''}"
  shows "map_of md' k = map_of md k"
proof -
  from assms(1) obtain m1 where
    a: "for_each (mri_protocol_step pf) (findall_child ''protocolTerm'' ''protocol'' xroot) md = Inr m1"
    and b: "for_each (pet_protocol_step pf) (findall_nested ''imagingProtocol'' ''protocol'' xroot) m1 = Inr md'"
    by (auto simp: extract_imaging_protocol_def bind_err_Inr_iff)
  have "map_of m1 k = map_of md k"
    by (rule for_each_frame [OF _ a]) (rule mri_protocol_step_frame [OF _ assms(2)])
  moreover have "map_of md' k = map_of m1 k"
    by (rule for_each_frame [OF _ b]) (rule pet_protocol_step_frame [OF _ assms(3)])
  ultimately show ?thesis by simp
qed

lemma extract_subject_keys:
  assumes "extract_subject pf p xroot = Inr m1"
    and "k \<notin> {''filename'', ''scan_type'', ''subject_id'', ''research_group'', ''gender'',
            ''age'', ''weight_kg''}"
  shows "map_of m1 k = None"
proof -
  from assms(1) obtain m0 where
    a: "set_float_field pf ''age'' (find_desc ''subjectAge'' xroot)
          (set_text_field ''gender'' (find_desc ''subjectSex'' xroot)
            (set_text_field ''research_group'' (find_desc ''researchGroup'' xroot)
              (set_text_field ''subject_id'' (find_desc ''subjectIdentifier'' xroot)
                (AList.update ''scan_type'' (PyStr (extract_scan_type p))
                  (AList.update ''filename'' (PyStr (basename p)) []))))) = Inr m0"
    and b: "set_float_field pf ''weight_kg'' (find_desc ''weightKg'' xroot) m0 = Inr m1"
    by (auto simp: extract_subject_def Let_def bind_err_Inr_iff)
  from assms(2) have "map_of m1 k = map_of m0 k"
    using set_float_field_other [OF b, of k] by simp
  also from assms(2) have "\<dots> = None"
    using set_float_field_other [OF a, of k]
    by (simp add: set_text_field_other map_of_update_other)
  finally show ?thesis .
qed

lemma extract_apoe_last:
  assumes "extract_apoe es md = Inr md'"
  shows "map_of md' ''apoe_a1'' =
           (if filter (\<lambda>e. contains ''APOE A1'' (attr_get e ''item'' [])) es = []
            then map_of md ''apoe_a1''
            else Some (text_val (etext (last
                   (filter (\<lambda>e. contains ''APOE A1'' (attr_get e ''item'' [])) es)))))
       \<and> map_of md' ''apoe_a2'' =
           (if filter (\<lambda>e. contains ''APOE A2'' (attr_get e ''item'' [])
                            \<and> \<not> contains ''APOE A1'' (attr_get e ''item'' [])) es = []
            then map_of md ''apoe_a2''
            else Some (text_val (etext (last
                   (filter (\<lambda>e. contains ''APOE A2'' (attr_get e ''item'' [])
                            \<and> \<not> contains ''APOE A1'' (attr_get e ''item'' [])) es)))))"
  using assms
proof (induction es arbitrary: md)
  case Nil
  then show ?case by simp
next
  case (Cons e es)
  from Cons.prems obtain item where item: "map_of (attrib e) ''item'' = Some item"
    by (auto split: option.splits)
  then have ag: "attr_get e ''item'' [] = item" by (simp add: attr_get_def)
  show ?case
  proof (cases "contains ''APOE A1'' item")
    case True
    with Cons.prems item
    have r: "extract_apoe es (AList.update ''apoe_a1'' (text_val (etext e)) md) = Inr md'"
      by simp
    from Cons.IH [OF r] True ag show ?thesis
      by (simp add: map_of_update_same map_of_update_other)
  next
    case a1: False
    show ?thesis
    proof (cases "contains ''APOE A2'' item")
      case True
      with Cons.prems item a1
      have r: "extract_apoe es (AList.update ''apoe_a2'' (text_val (etext e)) md) = Inr md'"
        by simp
      from Cons.IH [OF r] True a1 ag show ?thesis
        by (simp add: map_of_update_same map_of_update_other)
    next
      case False
      with Cons.prems item a1 have r: "extract_apoe es md = Inr md'" by simp
      from Cons.IH [OF r] False a1 ag show ?thesis by simp
    qed
  qed
qed

lemma build_apoe_keys:
  assumes "build_metadata pf p xroot = Inr md"
  obtains m1 m2 where
    "extract_subject pf p xroot = Inr m1"
    "extract_apoe (findall_has_attr ''subjectInfo'' ''item'' xroot) m1 = Inr m2"
    "map_of md ''apoe_a1'' = map_of m2 ''apoe_a1''"
    "map_of md ''apoe_a2'' = map_of m2 ''apoe_a2''"
proof -
  from assms obtain m1 m2 m3 m4 where
    s: "extract_subject pf p xroot = Inr m1"
    and a: "extract_apoe (findall_has_attr ''subjectInfo'' ''item'' xroot) m1 = Inr m2"
    and c: "extract_clinical_scores pf xroot (extract_visit_scan xroot m2) = Inr m3"
    and i: "extract_imaging_protocol pf xroot m3 = Inr m4"
    and f: "md = extract_processing_info xroot m4"
    by (rule build_metadata_Inr)
  have "map_of md k = map_of m2 k" if "k = ''apoe_a1'' \<or> k = ''apoe_a2''" for k
  proof -
    have "map_of md k = map_of m4 k"
      unfolding f using that by (auto simp: extract_processing_info_frame)
    also have "\<dots> = map_of m3 k"
      using that by (auto intro!: extract_imaging_protocol_frame [OF i])
    also have "\<dots> = map_of (extract_visit_scan xroot m2) k"
      using that by (auto intro!: extract_clinical_scores_frame [OF c])
    also have "\<dots> = map_of m2 k"
      using that by (auto simp: extract_visit_scan_frame)
    finally show ?thesis .
  qed
  then show ?thesis using that s a by blast
qed

text \<open>
  Claim C7. In a built record, \<^verbatim>\<open>apoe_a1\<close> is the text of the last
  \<^verbatim>\<open>subjectInfo\<close> entry, in document order, whose \<^verbatim>\<open>item\<close> attribute contains
  \<^verbatim>\<open>APOE A1\<close>; \<^verbatim>\<open>apoe_a2\<close> is the text of the last entry whose \<^verbatim>\<open>item\<close>
  contains \<^verbatim>\<open>APOE A2\<close> and does not contain \<^verbatim>\<open>APOE A1\<close> (the \<^verbatim>\<open>elif\<close> branch).
  Without such an entry the key is missing from the record.
\<close>

theorem apoe_last_match_wins:
  assumes "parse_xml_metadata pf p (Some xroot) = Some md"
  shows "(let es = findall_has_attr ''subjectInfo'' ''item'' xroot;
              a1s = filter (\<lambda>e. contains ''APOE A1'' (attr_get e ''item'' [])) es;
              a2s = filter (\<lambda>e. contains ''APOE A2'' (attr_get e ''item'' [])
                              \<and> \<not> contains ''APOE A1'' (attr_get e ''item'' [])) es
          in (a1s \<noteq> [] \<longrightarrow> map_of md ''apoe_a1'' = Some (text_val (etext (last a1s))))
           \<and> (a1s = [] \<longrightarrow> map_of md ''apoe_a1'' = None)
           \<and> (a2s \<noteq> [] \<longrightarrow> map_of md ''apoe_a2'' = Some (text_val (etext (last a2s))))
           \<and> (a2s = [] \<longrightarrow> map_of md ''apoe_a2'' = None))"
proof -
  from assms have b: "build_metadata pf p xroot = Inr md" by (simp add: parse_Some_iff)
  then obtain m1 m2 where
    s: "extract_subject pf p xroot = Inr m1"
    and a: "extract_apoe (findall_has_attr ''subjectInfo'' ''item'' xroot) m1 = Inr m2"
    and k1: "map_of md ''apoe_a1'' = map_of m2 ''apoe_a1''"
    and k2: "map_of md ''apoe_a2'' = map_of m2 ''apoe_a2''"
    by (rule build_apoe_keys)
  have n1: "map_of m1 ''apoe_a1'' = None" and n2: "map_of m1 ''apoe_a2'' = None"
    using extract_subject_keys [OF s] by simp_all
  from extract_apoe_last [OF a] k1 k2 n1 n2 show ?thesis
    by (simp add: Let_def)
qed

theorem apoe_last_match_wins_witness:
  "parse_xml_metadata dec_float ''ADNI/ADNI_002_S_0295_MPR_S13408.xml''
        (Some doc_apoe_repeated) =
      Some [(''filename'', PyStr ''ADNI_002_S_0295_MPR_S13408.xml''),
            (''scan_type'', PyStr ''MRI_MPRAGE''), (''subject_id'', PyStr ''002_S_0295''),
            (''research_group'', PyStr ''N/A''), (''gender'', PyStr ''N/A''),
            (''age'', PyNone), (''weight_kg'', PyNone), (''apoe_a1'', PyStr ''4''),
            (''apoe_a2'', PyStr ''2''), (''visit_type'', PyStr ''N/A''),
            (''modality'', PyStr ''N/A''), (''scan_date'', PyStr ''N/A''),
            (''series_id'', PyStr ''N/A''), (''processing_steps'', PyStr ''N/A'')]
   \<and> map (\<lambda>e. (attr_get e ''item'' [], etext e))
         (findall_has_attr ''subjectInfo'' ''item'' doc_apoe_repeated) =
       [(''APOE A1'', Some ''3''), (''APOE A2'', Some ''3''),
        (''APOE A1'', Some ''4''), (''APOE A2'', Some ''2'')]
   \<and> text_val (etext (last (filter (\<lambda>e. contains ''APOE A1'' (attr_get e ''item'' []))
         (findall_has_attr ''subjectInfo'' ''item'' doc_apoe_repeated)))) = PyStr ''4''
   \<and> text_val (etext (last (filter (\<lambda>e. contains ''APOE A2'' (attr_get e ''item'' [])
                                      \<and> \<not> contains ''APOE A1'' (attr_get e ''item'' []))
         (findall_has_attr ''subjectInfo'' ''item'' doc_apoe_repeated)))) = PyStr ''2''"
proof -
  have rec: "parse_xml_metadata dec_float ''ADNI/ADNI_002_S_0295_MPR_S13408.xml''
        (Some doc_apoe_repeated) =
      Some [(''filename'', PyStr ''ADNI_002_S_0295_MPR_S13408.xml''),
            (''scan_type'', PyStr ''MRI_MPRAGE''), (''subject_id'', PyStr ''002_S_0295''),
            (''research_group'', PyStr ''N/A''), (''gender'', PyStr ''N/A''),
            (''age'', PyNone), (''weight_kg'', PyNone), (''apoe_a1'', PyStr ''4''),
            (''apoe_a2'', PyStr ''2''), (''visit_type'', PyStr ''N/A''),
            (''modality'', PyStr ''N/A''), (''scan_date'', PyStr ''N/A''),
            (''series_id'', PyStr ''N/A''), (''processing_steps'', PyStr ''N/A'')]"
    by code_simp
  have es: "map (\<lambda>e. (attr_get e ''item'' [], etext e))
         (findall_has_attr ''subjectInfo'' ''item'' doc_apoe_repeated) =
       [(''APOE A1'', Some ''3''), (''APOE A2'', Some ''3''),
        (''APOE A1'', Some ''4''), (''APOE A2'', Some ''2'')]"
    by code_simp
  have n1: "filter (\<lambda>e. contains ''APOE A1'' (attr_get e ''item'' []))
         (findall_has_attr ''subjectInfo'' ''item'' doc_apoe_repeated) \<noteq> []"
    by code_simp
  have n2: "filter (\<lambda>e. contains ''APOE A2'' (attr_get e ''item'' [])
                                      \<and> \<not> contains ''APOE A1'' (attr_get e ''item'' []))
         (findall_has_attr ''subjectInfo'' ''item'' doc_apoe_repeated) \<noteq> []"
    by code_simp
  from apoe_last_match_wins [OF rec] n1 n2 rec es show ?thesis
    by (simp add: Let_def)
qed

text \<open>
  The last entry whose \<^verbatim>\<open>item\<close> contains \<^verbatim>\<open>APOE A2\<close> has the text \<^verbatim>\<open>4\<close>, but
  its \<^verbatim>\<open>item\<close> also contains \<^verbatim>\<open>APOE A1\<close>: the record's \<^verbatim>\<open>apoe_a2\<close> is \<^verbatim>\<open>3\<close>.
\<close>

theorem apoe_both_markers_counterexample:
  "map (\<lambda>e. (attr_get e ''item'' [], etext e))
         (filter (\<lambda>e. contains ''APOE A2'' (attr_get e ''item'' []))
            (findall_has_attr ''subjectInfo'' ''item'' doc_apoe_both)) =
       [(''APOE A2'', Some ''3''), (''APOE A1 / APOE A2'', Some ''4'')]
   \<and> map_option (\<lambda>md. map_of md ''apoe_a2'')
        (parse_xml_metadata dec_float ''ADNI/ADNI_002_S_0295_MPR_S13408.xml''
           (Some doc_apoe_both)) = Some (Some (PyStr ''3''))
   \<and> PyStr ''3'' \<noteq> text_val (Some ''4'')"
  by code_simp

lemma set_float_field_same:
  "set_float_field pf key el md = Inr md' \<Longrightarrow> map_of md' key \<noteq> None"
  by (auto simp: set_float_field_def bind_err_Inr_iff map_of_update_same split: option.splits)

lemma clinical_step_first:
  assumes "clinical_step pf a m = Inr m'"
  shows "(contains ''MMSE'' (attr_get a ''name'' []) \<longrightarrow>
            map_of m' ''mmse_score'' \<noteq> None
            \<and> (\<forall>k. k \<noteq> ''mmse_score'' \<longrightarrow> map_of m' k = map_of m k))
       \<and> (\<not> contains ''MMSE'' (attr_get a ''name'' []) \<and> contains ''CDR'' (attr_get a ''name'' []) \<longrightarrow>
            map_of m' ''cdr_score'' \<noteq> None
            \<and> (\<forall>k. k \<noteq> ''cdr_score'' \<longrightarrow> map_of m' k = map_of m k))
       \<and> (\<not> contains ''MMSE'' (attr_get a ''name'' []) \<and> \<not> contains ''CDR'' (attr_get a ''name'' [])
            \<and> contains ''NPI'' (attr_get a ''name'' []) \<longrightarrow>
            map_of m' ''npi_score'' \<noteq> None
            \<and> (\<forall>k. k \<noteq> ''npi_score'' \<longrightarrow> map_of m' k = map_of m k))
       \<and> (\<not> contains ''MMSE'' (attr_get a ''name'' []) \<and> \<not> contains ''CDR'' (attr_get a ''name'' [])
            \<and> \<not> contains ''NPI'' (attr_get a ''name'' []) \<and> contains ''FAQ'' (attr_get a ''name'' []) \<longrightarrow>
            map_of m' ''faq_score'' \<noteq> None
            \<and> (\<forall>k. k \<noteq> ''faq_score'' \<longrightarrow> map_of m' k = map_of m k))"
  using assms
  by (auto simp: clinical_step_def Let_def dest: set_float_field_other set_float_field_same
      split: if_splits)

lemma build_clinical_keys:
  assumes "build_metadata pf p xroot = Inr md"
  obtains m0 m3 where
    "extract_clinical_scores pf xroot m0 = Inr m3"
    "\<And>k. k \<in> {''mmse_score'', ''cdr_score'', ''npi_score'', ''faq_score''} \<Longrightarrow>
        map_of m0 k = None \<and> map_of md k = map_of m3 k"
proof -
  from assms obtain m1 m2 m3 m4 where
    s: "extract_subject pf p xroot = Inr m1"
    and a: "extract_apoe (findall_has_attr ''subjectInfo'' ''item'' xroot) m1 = Inr m2"
    and c: "extract_clinical_scores pf xroot (extract_visit_scan xroot m2) = Inr m3"
    and i: "extract_imaging_protocol pf xroot m3 = Inr m4"
    and f: "md = extract_processing_info xroot m4"
    by (rule build_metadata_Inr)
  have "map_of (extract_visit_scan xroot m2) k = None \<and> map_of md k = map_of m3 k"
    if "k \<in> {''mmse_score'', ''cdr_score'', ''npi_score'', ''faq_score''}" for k
  proof
    have "map_of (extract_visit_scan xroot m2) k = map_of m2 k"
      using that by (auto simp: extract_visit_scan_frame)
    also have "\<dots> = map_of m1 k"
      using that by (auto intro!: extract_apoe_frame [OF a])
    also have "\<dots> = None"
      using that by (auto intro!: extract_subject_keys [OF s])
    finally show "map_of (extract_visit_scan xroot m2) k = None" .
    have "map_of md k = map_of m4 k"
      unfolding f using that by (auto simp: extract_processing_info_frame)
    also have "\<dots> = map_of m3 k"
      using that by (auto intro!: extract_imaging_protocol_frame [OF i])
    finally show "map_of md k = map_of m3 k" .
  qed
  with c show ?thesis using that by blast
qed

lemma clinical_loop_skips:
  assumes "extract_clinical_scores pf xroot m0 = Inr m3"
    and "\<And>a m m'. a \<in> set (findall_desc ''assessment'' xroot) \<Longrightarrow> clinical_step pf a m = Inr m'
            \<Longrightarrow> map_of m' k = map_of m k"
  shows "map_of m3 k = map_of m0 k"
  using assms(1) unfolding extract_clinical_scores_def
  by (rule for_each_frame [rotated]) (rule assms(2))

text \<open>
  Claim C6. The clinical-score extraction dispatches on the assessment's name with an
  \<^verbatim>\<open>if/elif\<close> chain in the order MMSE, CDR, NPI, FAQ: one pass of the loop sets the
  score field of the first marker the name contains and changes no other key. So an
  assessment whose name has several markers contributes to the first one only: when
  every assessment with \<^verbatim>\<open>CDR\<close> in its name also has \<^verbatim>\<open>MMSE\<close>, the built record has
  no \<^verbatim>\<open>cdr_score\<close>, and likewise for \<^verbatim>\<open>npi_score\<close> and \<^verbatim>\<open>faq_score\<close>.
\<close>

theorem clinical_dispatch_first_marker:
  "(clinical_step pf a m = Inr m' \<longrightarrow>
      (contains ''MMSE'' (attr_get a ''name'' []) \<longrightarrow>
         map_of m' ''mmse_score'' \<noteq> None
         \<and> (\<forall>k. k \<noteq> ''mmse_score'' \<longrightarrow> map_of m' k = map_of m k))
    \<and> (\<not> contains ''MMSE'' (attr_get a ''name'' []) \<and> contains ''CDR'' (attr_get a ''name'' []) \<longrightarrow>
         map_of m' ''cdr_score'' \<noteq> None
         \<and> (\<forall>k. k \<noteq> ''cdr_score'' \<longrightarrow> map_of m' k = map_of m k))
    \<and> (\<not> contains ''MMSE'' (attr_get a ''name'' []) \<and> \<not> contains ''CDR'' (attr_get a ''name'' [])
         \<and> contains ''NPI'' (attr_get a ''name'' []) \<longrightarrow>
         map_of m' ''npi_score'' \<noteq> None
         \<and> (\<forall>k. k \<noteq> ''npi_score'' \<longrightarrow> map_of m' k = map_of m k))
    \<and> (\<not> contains ''MMSE'' (attr_get a ''name'' []) \<and> \<not> contains ''CDR'' (attr_get a ''name'' [])
         \<and> \<not> contains ''NPI'' (attr_get a ''name'' []) \<and> contains ''FAQ'' (attr_get a ''name'' []) \<longrightarrow>
         map_of m' ''faq_score'' \<noteq> None
         \<and> (\<forall>k. k \<noteq> ''faq_score'' \<longrightarrow> map_of m' k = map_of m k)))
   \<and> (parse_xml_metadata pf p (Some xroot) = Some md \<longrightarrow>
      ((\<forall>x \<in> set (findall_desc ''assessment'' xroot).
           contains ''CDR'' (attr_get x ''name'' []) \<longrightarrow> contains ''MMSE'' (attr_get x ''name'' []))
         \<longrightarrow> map_of md ''cdr_score'' = None)
    \<and> ((\<forall>x \<in> set (findall_desc ''assessment'' xroot).
           contains ''NPI'' (attr_get x ''name'' []) \<longrightarrow>
             contains ''MMSE'' (attr_get x ''name'' []) \<or> contains ''CDR'' (attr_get x ''name'' []))
         \<longrightarrow> map_of md ''npi_score'' = None)
    \<and> ((\<forall>x \<in> set (findall_desc ''assessment'' xroot).
           contains ''FAQ'' (attr_get x ''name'' []) \<longrightarrow>
             contains ''MMSE'' (attr_get x ''name'' []) \<or> contains ''CDR'' (attr_get x ''name'' [])
             \<or> contains ''NPI'' (attr_get x ''name'' []))
         \<longrightarrow> map_of md ''faq_score'' = None))"
proof (intro conjI impI)
  assume "parse_xml_metadata pf p (Some xroot) = Some md"
  then have b: "build_metadata pf p xroot = Inr md" by (simp add: parse_Some_iff)
  then obtain m0 m3 where
    c: "extract_clinical_scores pf xroot m0 = Inr m3"
    and keys: "\<And>k. k \<in> {''mmse_score'', ''cdr_score'', ''npi_score'', ''faq_score''} \<Longrightarrow>
        map_of m0 k = None \<and> map_of md k = map_of m3 k"
    by (rule build_clinical_keys) blast
  {
    assume h: "\<forall>x \<in> set (findall_desc ''assessment'' xroot).
           contains ''CDR'' (attr_get x ''name'' []) \<longrightarrow> contains ''MMSE'' (attr_get x ''name'' [])"
    have "map_of m3 ''cdr_score'' = map_of m0 ''cdr_score''"
    proof (rule clinical_loop_skips [OF c])
      fix x m m' assume "x \<in> set (findall_desc ''assessment'' xroot)" "clinical_step pf x m = Inr m'"
      with h show "map_of m' ''cdr_score'' = map_of m ''cdr_score''"
        by (auto simp: clinical_step_def Let_def
            dest: set_float_field_other [where k = "''cdr_score''"] split: if_splits)
    qed
    with keys [of "''cdr_score''"] show "map_of md ''cdr_score'' = None" by simp
  }
  {
    assume h: "\<forall>x \<in> set (findall_desc ''assessment'' xroot).
           contains ''NPI'' (attr_get x ''name'' []) \<longrightarrow>
             contains ''MMSE'' (attr_get x ''name'' []) \<or> contains ''CDR'' (attr_get x ''name'' [])"
    have "map_of m3 ''npi_score'' = map_of m0 ''npi_score''"
    proof (rule clinical_loop_skips [OF c])
      fix x m m' assume "x \<in> set (findall_desc ''assessment'' xroot)" "clinical_step pf x m = Inr m'"
      with h show "map_of m' ''npi_score'' = map_of m ''npi_score''"
        by (auto simp: clinical_step_def Let_def
            dest: set_float_field_other [where k = "''npi_score''"] split: if_splits)
    qed
    with keys [of "''npi_score''"] show "map_of md ''npi_score'' = None" by simp
  }
  {
    assume h: "\<forall>x \<in> set (findall_desc ''assessment'' xroot).
           contains ''FAQ'' (attr_get x ''name'' []) \<longrightarrow>
             contains ''MMSE'' (attr_get x ''name'' []) \<or> contains ''CDR'' (attr_get x ''name'' [])
             \<or> contains ''NPI'' (attr_get x ''name'' [])"
    have "map_of m3 ''faq_score'' = map_of m0 ''faq_score''"
    proof (rule clinical_loop_skips [OF c])
      fix x m m' assume "x \<in> set (findall_desc ''assessment'' xroot)" "clinical_step pf x m = Inr m'"
      with h show "map_of m' ''faq_score'' = map_of m ''faq_score''"
        by (auto simp: clinical_step_def Let_def
            dest: set_float_field_other [where k = "''faq_score''"] split: if_splits)
    qed
    with keys [of "''faq_score''"] show "map_of md ''faq_score'' = None" by simp
  }
qed (use clinical_step_first in blast)+

theorem clinical_dispatch_first_marker_witness:
  "clinical_step dec_float assessment_both [] = Inr [(''mmse_score'', PyFloat 29)]
   \<and> contains ''MMSE'' (attr_get assessment_both ''name'' [])
   \<and> contains ''CDR'' (attr_get assessment_both ''name'' [])
   \<and> map_of [(''mmse_score'', PyFloat 29)] ''cdr_score'' = map_of [] ''cdr_score''
   \<and> parse_xml_metadata dec_float ''ADNI/ADNI_002_S_0295_MPR_S13408.xml''
        (Some doc_clinical_both) =
      Some [(''filename'', PyStr ''ADNI_002_S_0295_MPR_S13408.xml''),
            (''scan_type'', PyStr ''MRI_MPRAGE''), (''subject_id'', PyStr ''002_S_0295''),
            (''research_group'', PyStr ''N/A''), (''gender'', PyStr ''N/A''),
            (''age'', PyNone), (''weight_kg'', PyNone), (''visit_type'', PyStr ''N/A''),
            (''modality'', PyStr ''N/A''), (''scan_date'', PyStr ''N/A''),
            (''series_id'', PyStr ''N/A''), (''mmse_score'', PyFloat 29),
            (''processing_steps'', PyStr ''N/A'')]
   \<and> map_of [(''filename'', PyStr ''ADNI_002_S_0295_MPR_S13408.xml''),
            (''scan_type'', PyStr ''MRI_MPRAGE''), (''subject_id'', PyStr ''002_S_0295''),
            (''research_group'', PyStr ''N/A''), (''gender'', PyStr ''N/A''),
            (''age'', PyNone), (''weight_kg'', PyNone), (''visit_type'', PyStr ''N/A''),
            (''modality'', PyStr ''N/A''), (''scan_date'', PyStr ''N/A''),
            (''series_id'', PyStr ''N/A''), (''mmse_score'', PyFloat 29),
            (''processing_steps'', PyStr ''N/A'')] ''cdr_score'' = None"
proof -
  have step: "clinical_step dec_float assessment_both [] = Inr [(''mmse_score'', PyFloat 29)]"
    by code_simp
  have mm: "contains ''MMSE'' (attr_get assessment_both ''name'' [])" by code_simp
  have cd: "contains ''CDR'' (attr_get assessment_both ''name'' [])" by code_simp
  have rec: "parse_xml_metadata dec_float ''ADNI/ADNI_002_S_0295_MPR_S13408.xml''
        (Some doc_clinical_both) =
      Some [(''filename'', PyStr ''ADNI_002_S_0295_MPR_S13408.xml''),
            (''scan_type'', PyStr ''MRI_MPRAGE''), (''subject_id'', PyStr ''002_S_0295''),
            (''research_group'', PyStr ''N/A''), (''gender'', PyStr ''N/A''),
            (''age'', PyNone), (''weight_kg'', PyNone), (''visit_type'', PyStr ''N/A''),
            (''modality'', PyStr ''N/A''), (''scan_date'', PyStr ''N/A''),
            (''series_id'', PyStr ''N/A''), (''mmse_score'', PyFloat 29),
            (''processing_steps'', PyStr ''N/A'')]"
    by code_simp
  have all: "\<forall>x \<in> set (findall_desc ''assessment'' doc_clinical_both).
           contains ''CDR'' (attr_get x ''name'' []) \<longrightarrow> contains ''MMSE'' (attr_get x ''name'' [])"
    by code_simp
  from step mm cd rec all
    clinical_dispatch_first_marker [of dec_float assessment_both "[]"
      "[(''mmse_score'', PyFloat 29)]" "''ADNI/ADNI_002_S_0295_MPR_S13408.xml''"
      doc_clinical_both
      "[(''filename'', PyStr ''ADNI_002_S_0295_MPR_S13408.xml''),
            (''scan_type'', PyStr ''MRI_MPRAGE''), (''subject_id'', PyStr ''002_S_0295''),
            (''research_group'', PyStr ''N/A''), (''gender'', PyStr ''N/A''),
            (''age'', PyNone), (''weight_kg'', PyNone), (''visit_type'', PyStr ''N/A''),
            (''modality'', PyStr ''N/A''), (''scan_date'', PyStr ''N/A''),
            (''series_id'', PyStr ''N/A''), (''mmse_score'', PyFloat 29),
            (''processing_steps'', PyStr ''N/A'')]"]
  show ?thesis by simp
qed

text \<open>
  An assessment named \<^verbatim>\<open>MMSE CDR\<close> that holds both an \<^verbatim>\<open>MMSCORE\<close> and a
  \<^verbatim>\<open>CDGLOBAL\<close> score: the record gets \<^verbatim>\<open>mmse_score\<close> and no \<^verbatim>\<open>cdr_score\<close>.
\<close>

theorem clinical_independent_counterexample:
  "contains ''MMSE'' (attr_get assessment_both ''name'' [])
   \<and> contains ''CDR'' (attr_get assessment_both ''name'' [])
   \<and> find_attr_eq ''assessmentScore'' ''attribute'' ''CDGLOBAL'' assessment_both =
       Some (Element ''assessmentScore'' [(''attribute'', ''CDGLOBAL'')] (Some ''0.5'') [])
   \<and> findall_desc ''assessment'' doc_clinical_both = [assessment_both]
   \<and> extract_clinical_scores dec_float doc_clinical_both [] = Inr [(''mmse_score'', PyFloat 29)]
   \<and> map_option (\<lambda>md. (map_of md ''mmse_score'', map_of md ''cdr_score''))
        (parse_xml_metadata dec_float ''ADNI/ADNI_002_S_0295_MPR_S13408.xml''
           (Some doc_clinical_both)) =
      Some (Some (PyFloat 29), None)"
  by code_simp

section \<open>Properties of the summary sheet\<close>





lemma male_ratio_of_ok: "\<exists>s. male_ratio_of dl = Inr s"
  by (simp add: male_ratio_of_def Let_def bind_err_def)


lemma summary_row_of_ok:
  "avg_age dl = Inr a \<Longrightarrow> \<exists>row. summary_row_of st dl = Inr row \<and> average_age row = a \<and> data_count row = length dl"
  using male_ratio_of_ok [of dl] by (auto simp: summary_row_of_def bind_err_def)










lemma py_truthy_iff:
  "py_truthy (dict_get d k) \<longleftrightarrow>
     (\<exists>v. map_of d k = Some v \<and> v \<noteq> PyNone \<and> v \<noteq> PyFloat 0 \<and> v \<noteq> PyInt 0 \<and> v \<noteq> PyStr [])"
proof (cases "map_of d k")
  case None
  then show ?thesis by (simp add: dict_get_def)
next
  case (Some v)
  then show ?thesis by (cases v) (auto simp: dict_get_def)
qed

lemma avg_age_filter:
  "avg_age dl = avg_age (filter (\<lambda>d. py_truthy (dict_get d ''age'')) dl)"
  by (simp add: avg_age_def)

lemma avg_age_none:
  "filter (\<lambda>d. py_truthy (dict_get d ''age'')) dl = [] \<Longrightarrow> avg_age dl = Inr (PyStr ''N/A'')"
  by (simp add: avg_age_def)

text \<open>
  Claim C8. The average age of a bucket is computed over the records whose
  \<^verbatim>\<open>age\<close> is truthy, that is present and neither \<^verbatim>\<open>None\<close> nor zero: the other
  records do not enter the average. A bucket whose records all have age 0.0,
  \<^verbatim>\<open>None\<close> or no age gets a summary row with \<^verbatim>\<open>average_age\<close> \<^verbatim>\<open>N/A\<close>, and
  \<^verbatim>\<open>data_count\<close> still counts every record.
\<close>

theorem average_age_skips_zero_and_missing:
  "avg_age data_list = avg_age (filter (\<lambda>d. py_truthy (dict_get d ''age'')) data_list)
   \<and> (py_truthy (dict_get d ''age'') \<longleftrightarrow>
        (\<exists>v. map_of d ''age'' = Some v \<and> v \<noteq> PyNone \<and> v \<noteq> PyFloat 0 \<and> v \<noteq> PyInt 0
              \<and> v \<noteq> PyStr []))
   \<and> ((\<forall>d \<in> set data_list.
          map_of d ''age'' = None \<or> map_of d ''age'' = Some PyNone
          \<or> map_of d ''age'' = Some (PyFloat 0)) \<longrightarrow>
        (\<exists>row. summary_row_of st data_list = Inr row
               \<and> average_age row = PyStr ''N/A''
               \<and> data_count row = length data_list))"
proof (intro conjI impI)
  show "avg_age data_list = avg_age (filter (\<lambda>d. py_truthy (dict_get d ''age'')) data_list)"
    by (rule avg_age_filter)
  show "py_truthy (dict_get d ''age'') \<longleftrightarrow>
        (\<exists>v. map_of d ''age'' = Some v \<and> v \<noteq> PyNone \<and> v \<noteq> PyFloat 0 \<and> v \<noteq> PyInt 0
              \<and> v \<noteq> PyStr [])"
    by (rule py_truthy_iff)
next
  assume h: "\<forall>d \<in> set data_list.
          map_of d ''age'' = None \<or> map_of d ''age'' = Some PyNone
          \<or> map_of d ''age'' = Some (PyFloat 0)"
  have "\<not> py_truthy (dict_get d ''age'')" if "d \<in> set data_list" for d
    using h that by (auto simp: py_truthy_iff)
  then have "filter (\<lambda>d. py_truthy (dict_get d ''age'')) data_list = []"
    by (simp add: filter_empty_conv)
  then have "avg_age data_list = Inr (PyStr ''N/A'')" by (rule avg_age_none)
  then show "\<exists>row. summary_row_of st data_list = Inr row
               \<and> average_age row = PyStr ''N/A''
               \<and> data_count row = length data_list"
    by (rule summary_row_of_ok)
qed

theorem average_age_skips_zero_and_missing_witness:
  "map_of zero_age_record ''age'' = Some (PyFloat 0)
   \<and> map_of none_age_record ''age'' = Some PyNone
   \<and> map_of no_age_record ''age'' = None
   \<and> summary_row_of ''MRI_T2'' [zero_age_record, none_age_record, no_age_record] =
       Inr \<lparr>scan_type = ''MRI_T2'', data_count = 3, average_age = PyStr ''N/A'',
            male_ratio = ''33.3%'', ad_patients = 1, mci_patients = 0, cn_patients = 2\<rparr>
   \<and> avg_age [zero_age_record, fdg_record_1, none_age_record, fdg_record_3, no_age_record] =
       avg_age [fdg_record_1, fdg_record_3]
   \<and> avg_age [fdg_record_1, fdg_record_3] = Inr (PyFloat 70)
   \<and> \<not> py_truthy (dict_get zero_age_record ''age'')"
proof -
  have a: "map_of zero_age_record ''age'' = Some (PyFloat 0)"
    "map_of none_age_record ''age'' = Some PyNone"
    "map_of no_age_record ''age'' = None"
    by (simp_all add: zero_age_record_def none_age_record_def no_age_record_def)
  then have all: "\<forall>d \<in> set [zero_age_record, none_age_record, no_age_record].
          map_of d ''age'' = None \<or> map_of d ''age'' = Some PyNone
          \<or> map_of d ''age'' = Some (PyFloat 0)"
    by simp
  have row: "summary_row_of ''MRI_T2'' [zero_age_record, none_age_record, no_age_record] =
       Inr \<lparr>scan_type = ''MRI_T2'', data_count = 3, average_age = PyStr ''N/A'',
            male_ratio = ''33.3%'', ad_patients = 1, mci_patients = 0, cn_patients = 2\<rparr>"
    by code_simp
  have f: "filter (\<lambda>d. py_truthy (dict_get d ''age''))
      [zero_age_record, fdg_record_1, none_age_record, fdg_record_3, no_age_record] =
      [fdg_record_1, fdg_record_3]"
    by code_simp
  have v: "avg_age [fdg_record_1, fdg_record_3] = Inr (PyFloat 70)" by code_simp
  from a all row f v
    average_age_skips_zero_and_missing
      [of "[zero_age_record, none_age_record, no_age_record]" zero_age_record "''MRI_T2''"]
    average_age_skips_zero_and_missing
      [of "[zero_age_record, fdg_record_1, none_age_record, fdg_record_3, no_age_record]"
          zero_age_record "''MRI_T2''"]
  show ?thesis by simp
qed

section \<open>Properties of the processing loop\<close>

lemma bucket_append_same: "bucket (bucket_append d k md) k = bucket d k @ [md]"
  by (simp add: bucket_append_def bucket_def update_conv')

lemma bucket_append_other: "k' \<noteq> k \<Longrightarrow> bucket (bucket_append d k md) k' = bucket d k'"
  by (simp add: bucket_append_def bucket_def update_conv')

lemma process_files_bound:
  "int (length (bucket (scan_type_data (process_files pf (Some c) fs tc st)) t))
     \<le> int (length (bucket (scan_type_data st) t)) + max 0 (c - tc t)"
proof (induction fs arbitrary: tc st)
  case Nil
  then show ?case by simp
next
  case (Cons f fs)
  let ?s = "extract_scan_type (path f)"
  show ?case
  proof (cases "c * 10 \<le> processed_count st")
    case True
    then show ?thesis by simp
  next
    case brk: False
    show ?thesis
    proof (cases "c \<le> tc ?s")
      case True
      with brk Cons.IH [of tc st] show ?thesis by (simp add: Let_def)
    next
      case room: False
      show ?thesis
      proof (cases "parse_xml_metadata pf (path f) (content f)")
        case None
        with brk room Cons.IH [of tc st] show ?thesis by (simp add: Let_def)
      next
        case (Some md)
        show ?thesis
        proof (cases "md = []")
          case True
          with Some brk room Cons.IH [of tc st] show ?thesis by (simp add: Let_def)
        next
          case False
          let ?tc = "tc(?s := tc ?s + 1)"
          let ?st = "st\<lparr>scan_type_data := bucket_append (scan_type_data st) ?s md,
                        processed_count := processed_count st + 1\<rparr>"
          have eq: "process_files pf (Some c) (f # fs) tc st = process_files pf (Some c) fs ?tc ?st"
            using Some brk room False by (simp add: Let_def)
          have "int (length (bucket (scan_type_data ?st) t)) + max 0 (c - ?tc t)
                  \<le> int (length (bucket (scan_type_data st) t)) + max 0 (c - tc t)"
            using room by (cases "t = ?s") (simp_all add: bucket_append_same bucket_append_other)
          with Cons.IH [of ?tc ?st] show ?thesis unfolding eq by linarith
        qed
      qed
    qed
  qed
qed

lemma process_folders_bound:
  "int (length (bucket (scan_type_data (process_folders pf (Some c) fds st)) t))
     \<le> int (length (bucket (scan_type_data st) t))
        + int (length (filter folder_exists fds)) * max 0 c"
proof (induction fds arbitrary: st)
  case Nil
  then show ?case by simp
next
  case (Cons fd fds)
  show ?case
  proof (cases "folder_exists fd")
    case False
    with Cons.IH [of st] show ?thesis by simp
  next
    case True
    let ?st = "process_files pf (Some c) (xml_files fd) (\<lambda>k. 0) st"
    have "int (length (bucket (scan_type_data ?st) t))
            \<le> int (length (bucket (scan_type_data st) t)) + max 0 c"
      using process_files_bound [of pf c "xml_files fd" "\<lambda>k. 0" st t] by simp
    with Cons.IH [of ?st] True show ?thesis by (simp add: algebra_simps)
  qed
qed

lemma process_files_exact:
  assumes "\<forall>f \<in> set fs. extract_scan_type (path f) = t
             \<and> (\<exists>md. parse_xml_metadata pf (path f) (content f) = Some md \<and> md \<noteq> [])"
  shows "processed_count (process_files pf (Some c) fs tc st) =
           processed_count st
           + max 0 (min (int (length fs)) (min (c - tc t) (c * 10 - processed_count st)))
       \<and> int (length (bucket (scan_type_data (process_files pf (Some c) fs tc st)) t)) =
           int (length (bucket (scan_type_data st) t))
           + max 0 (min (int (length fs)) (min (c - tc t) (c * 10 - processed_count st)))"
  using assms
proof (induction fs arbitrary: tc st)
  case Nil
  then show ?case by simp
next
  case (Cons f fs)
  from Cons.prems have ty: "extract_scan_type (path f) = t"
    and rest: "\<forall>f \<in> set fs. extract_scan_type (path f) = t
             \<and> (\<exists>md. parse_xml_metadata pf (path f) (content f) = Some md \<and> md \<noteq> [])"
    by simp_all
  from Cons.prems obtain md where md: "parse_xml_metadata pf (path f) (content f) = Some md"
    "md \<noteq> []" by auto
  show ?case
  proof (cases "c * 10 \<le> processed_count st")
    case True
    then show ?thesis by simp
  next
    case brk: False
    show ?thesis
    proof (cases "c \<le> tc t")
      case True
      with brk ty Cons.IH [OF rest, where tc = tc and st = st] show ?thesis by (simp add: Let_def)
    next
      case room: False
      let ?tc = "tc(t := tc t + 1)"
      let ?st = "st\<lparr>scan_type_data := bucket_append (scan_type_data st) t md,
                    processed_count := processed_count st + 1\<rparr>"
      have eq: "process_files pf (Some c) (f # fs) tc st = process_files pf (Some c) fs ?tc ?st"
        using md brk room ty by (simp add: Let_def)
      have ih: "processed_count (process_files pf (Some c) fs ?tc ?st) =
           processed_count ?st
           + max 0 (min (int (length fs)) (min (c - ?tc t) (c * 10 - processed_count ?st)))
       \<and> int (length (bucket (scan_type_data (process_files pf (Some c) fs ?tc ?st)) t)) =
           int (length (bucket (scan_type_data ?st) t))
           + max 0 (min (int (length fs)) (min (c - ?tc t) (c * 10 - processed_count ?st)))"
        by (rule Cons.IH [OF rest])
      have e1: "?tc t = tc t + 1" by simp
      have e2: "processed_count ?st = processed_count st + 1" by simp
      have e3: "int (length (bucket (scan_type_data ?st) t)) =
                  int (length (bucket (scan_type_data st) t)) + 1"
        by (simp add: bucket_append_same)
      have a: "1 + max 0 (min (int (length fs))
                 (min (c - (tc t + 1)) (c * 10 - (processed_count st + 1))))
             = max 0 (min (int (length (f # fs))) (min (c - tc t) (c * 10 - processed_count st)))"
        using brk room by simp
      from ih a show ?thesis
        unfolding eq e1 e2 e3 by linarith
    qed
  qed
qed

lemma process_files_count:
  "processed_count st \<le> processed_count (process_files pf (Some c) fs tc st)
   \<and> processed_count (process_files pf (Some c) fs tc st) \<le> max (processed_count st) (c * 10)
   \<and> int (length (bucket (scan_type_data (process_files pf (Some c) fs tc st)) t))
        - int (length (bucket (scan_type_data st) t))
      \<le> processed_count (process_files pf (Some c) fs tc st) - processed_count st"
proof (induction fs arbitrary: tc st)
  case Nil
  then show ?case by simp
next
  case (Cons f fs)
  let ?s = "extract_scan_type (path f)"
  show ?case
  proof (cases "c * 10 \<le> processed_count st")
    case True
    then show ?thesis by simp
  next
    case brk: False
    show ?thesis
    proof (cases "c \<le> tc ?s")
      case True
      with brk Cons.IH [where tc = tc and st = st] show ?thesis by (simp add: Let_def)
    next
      case room: False
      show ?thesis
      proof (cases "parse_xml_metadata pf (path f) (content f)")
        case None
        with brk room Cons.IH [where tc = tc and st = st] show ?thesis by (simp add: Let_def)
      next
        case (Some md)
        show ?thesis
        proof (cases "md = []")
          case True
          with Some brk room Cons.IH [where tc = tc and st = st] show ?thesis by (simp add: Let_def)
        next
          case False
          let ?tc = "tc(?s := tc ?s + 1)"
          let ?st = "st\<lparr>scan_type_data := bucket_append (scan_type_data st) ?s md,
                        processed_count := processed_count st + 1\<rparr>"
          have eq: "process_files pf (Some c) (f # fs) tc st = process_files pf (Some c) fs ?tc ?st"
            using Some brk room False by (simp add: Let_def)
          have l: "int (length (bucket (scan_type_data ?st) t))
                     \<le> int (length (bucket (scan_type_data st) t)) + 1"
            by (cases "t = ?s") (simp_all add: bucket_append_same bucket_append_other)
          have p: "processed_count ?st = processed_count st + 1" by simp
          from Cons.IH [where tc = ?tc and st = ?st] l brk show ?thesis unfolding eq p by linarith
        qed
      qed
    qed
  qed
qed

lemma process_folders_count:
  "processed_count st \<le> processed_count (process_folders pf (Some c) fds st)
   \<and> processed_count (process_folders pf (Some c) fds st) \<le> max (processed_count st) (c * 10)
   \<and> int (length (bucket (scan_type_data (process_folders pf (Some c) fds st)) t))
        - int (length (bucket (scan_type_data st) t))
      \<le> processed_count (process_folders pf (Some c) fds st) - processed_count st"
proof (induction fds arbitrary: st)
  case Nil
  then show ?case by simp
next
  case (Cons fd fds)
  show ?case
  proof (cases "folder_exists fd")
    case False
    with Cons.IH [of st] show ?thesis by simp
  next
    case True
    let ?st = "process_files pf (Some c) (xml_files fd) (\<lambda>k. 0) st"
    have eq: "process_folders pf (Some c) (fd # fds) st = process_folders pf (Some c) fds ?st"
      using True by simp
    from process_files_count [of st pf c "xml_files fd" "\<lambda>k. 0" t] Cons.IH [of ?st]
    show ?thesis unfolding eq by linarith
  qed
qed

lemma run_ceiling:
  "int (length (bucket (scan_type_data (process_metadata_folders pf (Some c) fds)) t))
     \<le> max 0 (c * 10)"
  using process_folders_count [of "\<lparr>scan_type_data = [], processed_count = 0\<rparr>" pf c fds t]
  by (simp add: process_metadata_folders_def bucket_def)

lemma process_folders_exact:
  assumes "0 \<le> c" and "processed_count st \<le> c * 10"
    and "\<forall>fd \<in> set fds. folder_exists fd \<and> c \<le> int (length (xml_files fd))
           \<and> (\<forall>f \<in> set (xml_files fd). extract_scan_type (path f) = t
                 \<and> (\<exists>md. parse_xml_metadata pf (path f) (content f) = Some md \<and> md \<noteq> []))"
  shows "processed_count (process_folders pf (Some c) fds st) =
           min (processed_count st + int (length fds) * c) (c * 10)
       \<and> int (length (bucket (scan_type_data (process_folders pf (Some c) fds st)) t)) =
           int (length (bucket (scan_type_data st) t))
           + (min (processed_count st + int (length fds) * c) (c * 10) - processed_count st)"
  using assms(2,3)
proof (induction fds arbitrary: st)
  case Nil
  then show ?case by simp
next
  case (Cons fd fds)
  let ?st = "process_files pf (Some c) (xml_files fd) (\<lambda>k. 0) st"
  from Cons.prems(2) have ex: "folder_exists fd" and len: "c \<le> int (length (xml_files fd))"
    and files: "\<forall>f \<in> set (xml_files fd). extract_scan_type (path f) = t
                 \<and> (\<exists>md. parse_xml_metadata pf (path f) (content f) = Some md \<and> md \<noteq> [])"
    and rest: "\<forall>fd \<in> set fds. folder_exists fd \<and> c \<le> int (length (xml_files fd))
           \<and> (\<forall>f \<in> set (xml_files fd). extract_scan_type (path f) = t
                 \<and> (\<exists>md. parse_xml_metadata pf (path f) (content f) = Some md \<and> md \<noteq> []))"
    by simp_all
  have eq: "process_folders pf (Some c) (fd # fds) st = process_folders pf (Some c) fds ?st"
    using ex by simp
  have one: "processed_count ?st =
           processed_count st
           + max 0 (min (int (length (xml_files fd))) (min (c - 0) (c * 10 - processed_count st)))
       \<and> int (length (bucket (scan_type_data ?st) t)) =
           int (length (bucket (scan_type_data st) t))
           + max 0 (min (int (length (xml_files fd))) (min (c - 0) (c * 10 - processed_count st)))"
    using process_files_exact [OF files, of c "\<lambda>k. 0" st] by simp
  then have pc1: "processed_count ?st = min (processed_count st + c) (c * 10)"
    and b1: "int (length (bucket (scan_type_data ?st) t)) =
           int (length (bucket (scan_type_data st) t))
           + (min (processed_count st + c) (c * 10) - processed_count st)"
    using len assms(1) Cons.prems(1) by linarith+
  have le: "processed_count ?st \<le> c * 10" unfolding pc1 by simp
  define N where "N = int (length fds) * c"
  have N: "0 \<le> N" unfolding N_def using assms(1) by simp
  have L: "int (length (fd # fds)) * c = c + N" unfolding N_def by (simp add: algebra_simps)
  from Cons.IH [OF le rest] have ih:
    "processed_count (process_folders pf (Some c) fds ?st) = min (processed_count ?st + N) (c * 10)
     \<and> int (length (bucket (scan_type_data (process_folders pf (Some c) fds ?st)) t)) =
           int (length (bucket (scan_type_data ?st) t))
           + (min (processed_count ?st + N) (c * 10) - processed_count ?st)"
    unfolding N_def .
  from ih pc1 b1 N assms(1) Cons.prems(1) show ?case
    unfolding eq L by linarith
qed

lemma min_mult_nonneg:
  assumes "0 \<le> (c::int)"
  shows "min (a * c) (10 * c) = min a 10 * c"
proof (cases "a \<le> 10")
  case True
  then have "a * c \<le> 10 * c" using assms by (rule mult_right_mono)
  with True show ?thesis by (simp add: min_def)
next
  case False
  then have "10 * c \<le> a * c" using assms by (intro mult_right_mono) simp_all
  with False show ?thesis by (simp add: min_def)
qed

lemma run_exact:
  assumes "0 \<le> c"
    and "\<forall>fd \<in> set fds. folder_exists fd \<and> c \<le> int (length (xml_files fd))
           \<and> (\<forall>f \<in> set (xml_files fd). extract_scan_type (path f) = t
                 \<and> (\<exists>md. parse_xml_metadata pf (path f) (content f) = Some md \<and> md \<noteq> []))"
  shows "int (length (bucket (scan_type_data (process_metadata_folders pf (Some c) fds)) t)) =
           min (int (length fds)) 10 * c"
proof -
  have "int (length (bucket (scan_type_data (process_metadata_folders pf (Some c) fds)) t)) =
          min (int (length fds) * c) (c * 10)"
    using process_folders_exact [OF assms(1) _ assms(2),
        of "\<lparr>scan_type_data = [], processed_count = 0\<rparr>"] assms(1)
    by (simp add: process_metadata_folders_def bucket_def)
  also have "\<dots> = min (int (length fds)) 10 * c"
    using min_mult_nonneg [OF assms(1), of "int (length fds)"] by (simp add: mult.commute)
  finally show ?thesis .
qed

lemma run_bound:
  "int (length (bucket (scan_type_data (process_metadata_folders pf (Some c) fds)) t))
     \<le> min (int (length (filter folder_exists fds))) 10 * max 0 c"
proof -
  have a: "int (length (bucket (scan_type_data (process_metadata_folders pf (Some c) fds)) t))
        \<le> int (length (filter folder_exists fds)) * max 0 c"
    using process_folders_bound [of pf c fds "\<lparr>scan_type_data = [], processed_count = 0\<rparr>" t]
    by (simp add: process_metadata_folders_def bucket_def)
  have b: "int (length (bucket (scan_type_data (process_metadata_folders pf (Some c) fds)) t))
        \<le> 10 * max 0 c"
    using run_ceiling [of pf c fds t] by (simp add: max_def split: if_splits)
  have "min (int (length (filter folder_exists fds))) 10 * max 0 c
      = min (int (length (filter folder_exists fds)) * max 0 c) (10 * max 0 c)"
    using min_mult_nonneg [of "max 0 c" "int (length (filter folder_exists fds))"] by simp
  with a b show ?thesis by simp
qed

text \<open>
  Claim C10. With a cap set, the per-type counter starts from zero for every folder. One
  folder adds at most the cap to a scan type's bucket, whatever the earlier folders added;
  a folder whose files are all parseable and of one scan type adds exactly the cap, as far
  as its files and the run ceiling of ten times the cap on \<^verbatim>\<open>processed_count\<close> allow.
  After the run a bucket holds at most min(n, 10) times the cap, for n existing folders,
  and exactly that many records when every folder exists and holds at least cap parseable
  files, all of the bucket's scan type.
\<close>

theorem per_folder_cap_run_ceiling:
  "int (length (bucket (scan_type_data (process_files pf (Some c) fs (\<lambda>k. 0) st)) t))
     \<le> int (length (bucket (scan_type_data st) t)) + max 0 c
   \<and> ((\<forall>f \<in> set fs. extract_scan_type (path f) = t
           \<and> parse_xml_metadata pf (path f) (content f) \<notin> {None, Some []}) \<longrightarrow>
        int (length (bucket (scan_type_data (process_files pf (Some c) fs (\<lambda>k. 0) st)) t))
          = int (length (bucket (scan_type_data st) t))
            + max 0 (min (int (length fs)) (min c (c * 10 - processed_count st))))
   \<and> int (length (bucket (scan_type_data (process_metadata_folders pf (Some c) fds)) t))
        \<le> min (int (length (filter folder_exists fds))) 10 * max 0 c
   \<and> (0 \<le> c
        \<and> (\<forall>fd \<in> set fds. folder_exists fd \<and> c \<le> int (length (xml_files fd))
              \<and> (\<forall>f \<in> set (xml_files fd). extract_scan_type (path f) = t
                    \<and> parse_xml_metadata pf (path f) (content f) \<notin> {None, Some []})) \<longrightarrow>
        int (length (bucket (scan_type_data (process_metadata_folders pf (Some c) fds)) t))
          = min (int (length fds)) 10 * c)"
proof (intro conjI impI)
  show "int (length (bucket (scan_type_data (process_files pf (Some c) fs (\<lambda>k. 0) st)) t))
     \<le> int (length (bucket (scan_type_data st) t)) + max 0 c"
    using process_files_bound [of pf c fs "\<lambda>k. 0" st t] by simp
next
  assume "\<forall>f \<in> set fs. extract_scan_type (path f) = t
           \<and> parse_xml_metadata pf (path f) (content f) \<notin> {None, Some []}"
  then have good: "\<forall>f \<in> set fs. extract_scan_type (path f) = t
           \<and> (\<exists>md. parse_xml_metadata pf (path f) (content f) = Some md \<and> md \<noteq> [])"
    by auto
  from process_files_exact [OF good, of c "\<lambda>k. 0" st]
  show "int (length (bucket (scan_type_data (process_files pf (Some c) fs (\<lambda>k. 0) st)) t))
          = int (length (bucket (scan_type_data st) t))
            + max 0 (min (int (length fs)) (min c (c * 10 - processed_count st)))"
    by simp
next
  show "int (length (bucket (scan_type_data (process_metadata_folders pf (Some c) fds)) t))
        \<le> min (int (length (filter folder_exists fds))) 10 * max 0 c"
    by (rule run_bound)
next
  assume h: "0 \<le> c
        \<and> (\<forall>fd \<in> set fds. folder_exists fd \<and> c \<le> int (length (xml_files fd))
              \<and> (\<forall>f \<in> set (xml_files fd). extract_scan_type (path f) = t
                    \<and> parse_xml_metadata pf (path f) (content f) \<notin> {None, Some []}))"
  then have c: "0 \<le> c" by simp
  from h have good: "\<forall>fd \<in> set fds. folder_exists fd \<and> c \<le> int (length (xml_files fd))
           \<and> (\<forall>f \<in> set (xml_files fd). extract_scan_type (path f) = t
                 \<and> (\<exists>md. parse_xml_metadata pf (path f) (content f) = Some md \<and> md \<noteq> []))"
    by auto
  show "int (length (bucket (scan_type_data (process_metadata_folders pf (Some c) fds)) t))
          = min (int (length fds)) 10 * c"
    using c good by (rule run_exact)
qed

theorem per_folder_cap_run_ceiling_witness:
  "length (xml_files (fdg_folder ''ADNI_PET_metadata/ADNI2'' 4 7)) = 3
   \<and> length (bucket (scan_type_data
       (process_files dec_float (Some 2) (xml_files (fdg_folder ''ADNI_PET_metadata/ADNI1'' 1 4))
            (\<lambda>k. 0) \<lparr>scan_type_data = [], processed_count = 0\<rparr>)) ''PET_FDG'') = 2
   \<and> processed_count
       (process_files dec_float (Some 2) (xml_files (fdg_folder ''ADNI_PET_metadata/ADNI1'' 1 4))
            (\<lambda>k. 0) \<lparr>scan_type_data = [], processed_count = 0\<rparr>) = 2
   \<and> length (bucket (scan_type_data
       (process_files dec_float (Some 2) (xml_files (fdg_folder ''ADNI_PET_metadata/ADNI2'' 4 7)) (\<lambda>k. 0)
         (process_files dec_float (Some 2) (xml_files (fdg_folder ''ADNI_PET_metadata/ADNI1'' 1 4))
            (\<lambda>k. 0) \<lparr>scan_type_data = [], processed_count = 0\<rparr>))) ''PET_FDG'') = 4
   \<and> length (bucket (scan_type_data
       (process_metadata_folders dec_float (Some 2)
         [fdg_folder ''ADNI_PET_metadata/ADNI1'' 1 4, fdg_folder ''ADNI_PET_metadata/ADNI2'' 4 7])) ''PET_FDG'') = 4"
proof -
  have n: "length (xml_files (fdg_folder ''ADNI_PET_metadata/ADNI2'' 4 7)) = 3"
    by (simp add: fdg_folder_def)
  have a: "length (bucket (scan_type_data
       (process_files dec_float (Some 2) (xml_files (fdg_folder ''ADNI_PET_metadata/ADNI1'' 1 4))
            (\<lambda>k. 0) \<lparr>scan_type_data = [], processed_count = 0\<rparr>)) ''PET_FDG'') = 2"
    by code_simp
  have p: "processed_count
       (process_files dec_float (Some 2) (xml_files (fdg_folder ''ADNI_PET_metadata/ADNI1'' 1 4))
            (\<lambda>k. 0) \<lparr>scan_type_data = [], processed_count = 0\<rparr>) = 2"
    by code_simp
  have h2: "\<forall>f \<in> set (xml_files (fdg_folder ''ADNI_PET_metadata/ADNI2'' 4 7)).
      extract_scan_type (path f) = ''PET_FDG''
      \<and> parse_xml_metadata dec_float (path f) (content f) \<notin> {None, Some []}"
    by code_simp
  have h4: "0 \<le> (2::int)
     \<and> (\<forall>fd \<in> set [fdg_folder ''ADNI_PET_metadata/ADNI1'' 1 4, fdg_folder ''ADNI_PET_metadata/ADNI2'' 4 7].
          folder_exists fd \<and> 2 \<le> int (length (xml_files fd))
          \<and> (\<forall>f \<in> set (xml_files fd). extract_scan_type (path f) = ''PET_FDG''
                \<and> parse_xml_metadata dec_float (path f) (content f) \<notin> {None, Some []}))"
    by code_simp
  note T = per_folder_cap_run_ceiling [where pf = dec_float and c = 2 and t = "''PET_FDG''"
      and fs = "xml_files (fdg_folder ''ADNI_PET_metadata/ADNI2'' 4 7)"
      and st = "(process_files dec_float (Some 2) (xml_files (fdg_folder ''ADNI_PET_metadata/ADNI1'' 1 4))
            (\<lambda>k. 0) \<lparr>scan_type_data = [], processed_count = 0\<rparr>)"
      and fds = "[fdg_folder ''ADNI_PET_metadata/ADNI1'' 1 4, fdg_folder ''ADNI_PET_metadata/ADNI2'' 4 7]"]
  from T h2 have e2: "int (length (bucket (scan_type_data
       (process_files dec_float (Some 2) (xml_files (fdg_folder ''ADNI_PET_metadata/ADNI2'' 4 7)) (\<lambda>k. 0)
         (process_files dec_float (Some 2) (xml_files (fdg_folder ''ADNI_PET_metadata/ADNI1'' 1 4))
            (\<lambda>k. 0) \<lparr>scan_type_data = [], processed_count = 0\<rparr>))) ''PET_FDG''))
     = int (length (bucket (scan_type_data
       (process_files dec_float (Some 2) (xml_files (fdg_folder ''ADNI_PET_metadata/ADNI1'' 1 4))
            (\<lambda>k. 0) \<lparr>scan_type_data = [], processed_count = 0\<rparr>)) ''PET_FDG''))
       + max 0 (min (int (length (xml_files (fdg_folder ''ADNI_PET_metadata/ADNI2'' 4 7))))
                  (min 2 (2 * 10 - processed_count
       (process_files dec_float (Some 2) (xml_files (fdg_folder ''ADNI_PET_metadata/ADNI1'' 1 4))
            (\<lambda>k. 0) \<lparr>scan_type_data = [], processed_count = 0\<rparr>))))"
    by blast
  from T h4 have e4: "int (length (bucket (scan_type_data
       (process_metadata_folders dec_float (Some 2)
         [fdg_folder ''ADNI_PET_metadata/ADNI1'' 1 4, fdg_folder ''ADNI_PET_metadata/ADNI2'' 4 7])) ''PET_FDG''))
     = min (int (length [fdg_folder ''ADNI_PET_metadata/ADNI1'' 1 4, fdg_folder ''ADNI_PET_metadata/ADNI2'' 4 7])) 10 * 2"
    by blast
  from e2 have b: "length (bucket (scan_type_data
       (process_files dec_float (Some 2) (xml_files (fdg_folder ''ADNI_PET_metadata/ADNI2'' 4 7)) (\<lambda>k. 0)
         (process_files dec_float (Some 2) (xml_files (fdg_folder ''ADNI_PET_metadata/ADNI1'' 1 4))
            (\<lambda>k. 0) \<lparr>scan_type_data = [], processed_count = 0\<rparr>))) ''PET_FDG'') = 4"
    unfolding a p n by simp
  from e4 have r: "length (bucket (scan_type_data
       (process_metadata_folders dec_float (Some 2)
         [fdg_folder ''ADNI_PET_metadata/ADNI1'' 1 4, fdg_folder ''ADNI_PET_metadata/ADNI2'' 4 7])) ''PET_FDG'') = 4"
    by simp
  from n a p b r show ?thesis by blast
qed

theorem eleven_folders_counterexample:
  "length (filter folder_exists eleven_folders) = 11
   \<and> list_all (\<lambda>fd. length (xml_files fd) = 2
         \<and> list_all (\<lambda>f. extract_scan_type (path f) = ''PET_FDG''
                \<and> parse_xml_metadata dec_float (path f) (content f) \<notin> {None, Some []})
             (xml_files fd)) eleven_folders
   \<and> length (bucket (scan_type_data (process_metadata_folders dec_float (Some 1) eleven_folders))
        ''PET_FDG'') = 10
   \<and> length (bucket (scan_type_data (process_metadata_folders dec_float (Some 1) eleven_folders))
        ''PET_FDG'') < 11 * 1"
  by code_simp

text \<open>
  Claim C4. Twelve parseable \<^verbatim>\<open>PET_FDG\<close> files and a cap of 5: when the files lie in
  one folder the bucket ends with 5 records; when they lie in two folders of six files
  each it ends with 10, five from each folder.
\<close>

theorem per_type_cap_across_folders:
  "list_all (\<lambda>f. extract_scan_type (path f) = ''PET_FDG''
                \<and> parse_xml_metadata dec_float (path f) (content f) \<noteq> None)
     (xml_files (fdg_folder ''ADNI_PET_metadata/ADNI1'' 1 7)
        @ xml_files (fdg_folder ''ADNI_PET_metadata/ADNI2'' 7 13))
   \<and> length (xml_files (fdg_folder ''ADNI_PET_metadata/ADNI1'' 1 7)
        @ xml_files (fdg_folder ''ADNI_PET_metadata/ADNI2'' 7 13)) = 12
   \<and> length (bucket (scan_type_data
         (process_metadata_folders dec_float (Some 5)
            [fdg_folder ''ADNI_PET_metadata/ADNI1'' 1 7, fdg_folder ''ADNI_PET_metadata/ADNI2'' 7 13]))
         ''PET_FDG'') = 10
   \<and> length (bucket (scan_type_data
         (process_metadata_folders dec_float (Some 5) [fdg_folder ''ADNI_PET_metadata/ADNI1'' 1 13]))
         ''PET_FDG'') = 5"
  by code_simp

lemma process_files_skip:
  "parse_xml_metadata pf (path f) (content f) = None \<Longrightarrow>
   process_files pf cap (f # rest) tc st = process_files pf cap rest tc st"
  by (cases rest) (auto simp: Let_def split: option.splits)

section \<open>Properties of record failure and absence markers\<close>

lemma converts_iff: "converts pf t \<longleftrightarrow> (\<exists>q. py_float pf t = Inr q)"
  by (cases "py_float pf t") (simp_all add: converts_def)

lemma bind_err_ok:
  assumes "\<And>m. (\<exists>m'. g m = Inr m') \<longleftrightarrow> Q"
  shows "(\<exists>y. bind_err r g = Inr y) \<longleftrightarrow> (\<exists>v. r = Inr v) \<and> Q"
proof (cases r)
  case (Inl e)
  then show ?thesis by (simp add: bind_err_def)
next
  case (Inr v)
  then show ?thesis using assms [of v] by (simp add: bind_err_def)
qed

lemma ball_map_filter: "(\<forall>t \<in> set (map f (filter P xs)). R t) \<longleftrightarrow> (\<forall>x \<in> set xs. P x \<longrightarrow> R (f x))"
  by auto

lemma ball_map_concat_opt:
  "(\<forall>t \<in> set (map f (concat (map (\<lambda>a. opt_list (g a)) xs))). R t) \<longleftrightarrow>
     (\<forall>a \<in> set xs. \<forall>t \<in> set (map f (opt_list (g a))). R t)"
  by auto

lemma set_float_field_ok:
  "(\<exists>m'. set_float_field pf k el m = Inr m') \<longleftrightarrow>
     (\<forall>t \<in> set (map etext (opt_list el)). converts pf t)"
  by (cases el; cases "py_float pf (etext (the el))")
     (auto simp: set_float_field_def opt_list_def bind_err_def converts_iff)

lemma extract_subject_bind:
  "extract_subject pf p xroot =
     bind_err
       (set_float_field pf ''age'' (find_desc ''subjectAge'' xroot)
          (set_text_field ''gender'' (find_desc ''subjectSex'' xroot)
            (set_text_field ''research_group'' (find_desc ''researchGroup'' xroot)
              (set_text_field ''subject_id'' (find_desc ''subjectIdentifier'' xroot)
                (AList.update ''scan_type'' (PyStr (extract_scan_type p))
                  (AList.update ''filename'' (PyStr (basename p)) []))))))
       (set_float_field pf ''weight_kg'' (find_desc ''weightKg'' xroot))"
  by (simp add: extract_subject_def Let_def)

lemma extract_subject_ok:
  "(\<exists>m. extract_subject pf p xroot = Inr m) \<longleftrightarrow>
     (\<forall>t \<in> set (map etext (opt_list (find_desc ''subjectAge'' xroot)
                            @ opt_list (find_desc ''weightKg'' xroot))).
        converts pf t)"
  unfolding extract_subject_bind
  by (subst bind_err_ok [OF set_float_field_ok]) (simp add: set_float_field_ok ball_Un)

lemma extract_apoe_ok:
  "\<forall>e \<in> set es. map_of (attrib e) ''item'' \<noteq> None \<Longrightarrow> \<exists>m'. extract_apoe es m = Inr m'"
  by (induction es arbitrary: m) auto

lemma extract_apoe_doc_ok:
  "(\<exists>m'. extract_apoe (findall_has_attr ''subjectInfo'' ''item'' xroot) m = Inr m') \<longleftrightarrow> True"
  using extract_apoe_ok [of "findall_has_attr ''subjectInfo'' ''item'' xroot" m]
  by (simp add: findall_has_attr_def)

lemma for_each_ok_iff:
  assumes "\<And>x m. (\<exists>m'. body x m = Inr m') \<longleftrightarrow> okp x"
  shows "(\<exists>md'. for_each body xs md = Inr md') \<longleftrightarrow> (\<forall>x \<in> set xs. okp x)"
proof (induction xs arbitrary: md)
  case Nil
  then show ?case by simp
next
  case (Cons x xs)
  have "(\<exists>md'. for_each body (x # xs) md = Inr md') \<longleftrightarrow>
        (\<exists>v. body x md = Inr v) \<and> (\<forall>x \<in> set xs. okp x)"
    unfolding for_each.simps by (rule bind_err_ok) (rule Cons.IH)
  then show ?case by (simp add: assms)
qed

lemma clinical_step_ok:
  "(\<exists>m'. clinical_step pf a m = Inr m') \<longleftrightarrow>
     (\<forall>t \<in> set (map etext (opt_list (clinical_target a))). converts pf t)"
  unfolding clinical_step_def clinical_target_def Let_def
  by (simp add: set_float_field_ok opt_list_def)

lemma set_float_text_ok:
  "(\<exists>m'. set_float_text pf k t m = Inr m') \<longleftrightarrow> (text_truthy t \<longrightarrow> converts pf t)"
  by (cases "py_float pf t") (auto simp: set_float_text_def bind_err_def converts_iff)

lemma set_int_text_ok:
  "(\<exists>m'. set_int_text pf k t m = Inr m') \<longleftrightarrow> (text_truthy t \<longrightarrow> converts pf t)"
  by (cases "py_float pf t") (auto simp: set_int_text_def bind_err_def converts_iff)

lemma mri_protocol_step_ok:
  "(\<exists>m'. mri_protocol_step pf p m = Inr m') \<longleftrightarrow>
     (numeric_term mri_numeric_fields p \<and> text_truthy (etext p) \<longrightarrow> converts pf (etext p))"
  unfolding mri_protocol_step_def numeric_term_def mri_numeric_fields_def Let_def
  by (simp add: set_float_text_ok)

lemma pet_protocol_step_ok:
  "(\<exists>m'. pet_protocol_step pf p m = Inr m') \<longleftrightarrow>
     (numeric_term pet_numeric_fields p \<and> text_truthy (etext p) \<longrightarrow> converts pf (etext p))"
  unfolding pet_protocol_step_def numeric_term_def pet_numeric_fields_def Let_def
  by (simp add: set_float_text_ok set_int_text_ok)

lemma extract_clinical_scores_ok:
  "(\<exists>m'. extract_clinical_scores pf xroot m = Inr m') \<longleftrightarrow>
     (\<forall>t \<in> set (map etext (concat (map (\<lambda>a. opt_list (clinical_target a))
                                  (findall_desc ''assessment'' xroot)))).
        converts pf t)"
  unfolding extract_clinical_scores_def ball_map_concat_opt
  by (rule for_each_ok_iff) (rule clinical_step_ok)

lemma extract_imaging_protocol_ok:
  "(\<exists>m'. extract_imaging_protocol pf xroot m = Inr m') \<longleftrightarrow>
     (\<forall>t \<in> set (map etext
          (filter (\<lambda>p. numeric_term mri_numeric_fields p \<and> text_truthy (etext p))
             (findall_child ''protocolTerm'' ''protocol'' xroot))). converts pf t)
     \<and> (\<forall>t \<in> set (map etext
          (filter (\<lambda>p. numeric_term pet_numeric_fields p \<and> text_truthy (etext p))
               (findall_nested ''imagingProtocol'' ''protocol'' xroot))). converts pf t)"
  unfolding extract_imaging_protocol_def ball_map_filter
  by (subst bind_err_ok [OF for_each_ok_iff [OF pet_protocol_step_ok]])
     (simp only: for_each_ok_iff [OF mri_protocol_step_ok])

lemma build_metadata_ok:
  "(\<exists>md. build_metadata pf p xroot = Inr md) \<longleftrightarrow>
     (\<forall>t \<in> set (float_targets xroot). converts pf t)"
proof -
  have 4: "(\<exists>y. bind_err (extract_imaging_protocol pf xroot m3)
                  (\<lambda>metadata. Inr (extract_processing_info xroot metadata)) = Inr y)
           \<longleftrightarrow> (\<exists>m4. extract_imaging_protocol pf xroot m3 = Inr m4)" for m3
    by (subst bind_err_ok [where Q = True]) simp_all
  have 3: "(\<exists>y. bind_err (extract_clinical_scores pf xroot (extract_visit_scan xroot m2))
             (\<lambda>metadata. bind_err (extract_imaging_protocol pf xroot metadata)
                  (\<lambda>metadata. Inr (extract_processing_info xroot metadata))) = Inr y)
           \<longleftrightarrow> (\<exists>m3. extract_clinical_scores pf xroot (extract_visit_scan xroot m2) = Inr m3)
              \<and> (\<exists>m4. extract_imaging_protocol pf xroot [] = Inr m4)" for m2
    by (rule bind_err_ok) (simp only: 4 extract_imaging_protocol_ok)
  have 2: "(\<exists>y. bind_err (extract_apoe (findall_has_attr ''subjectInfo'' ''item'' xroot) m1)
             (\<lambda>metadata. bind_err (extract_clinical_scores pf xroot (extract_visit_scan xroot metadata))
               (\<lambda>metadata. bind_err (extract_imaging_protocol pf xroot metadata)
                  (\<lambda>metadata. Inr (extract_processing_info xroot metadata)))) = Inr y)
           \<longleftrightarrow> (\<exists>m3. extract_clinical_scores pf xroot [] = Inr m3)
              \<and> (\<exists>m4. extract_imaging_protocol pf xroot [] = Inr m4)" for m1
    by (subst bind_err_ok [where Q = "(\<exists>m3. extract_clinical_scores pf xroot [] = Inr m3)
              \<and> (\<exists>m4. extract_imaging_protocol pf xroot [] = Inr m4)"])
       (simp_all only: 3 extract_clinical_scores_ok extract_apoe_doc_ok simp_thms)
  have "(\<exists>md. build_metadata pf p xroot = Inr md) \<longleftrightarrow>
          (\<exists>m1. extract_subject pf p xroot = Inr m1)
          \<and> (\<exists>m3. extract_clinical_scores pf xroot [] = Inr m3)
          \<and> (\<exists>m4. extract_imaging_protocol pf xroot [] = Inr m4)"
    unfolding build_metadata_def by (rule bind_err_ok) (rule 2)
  then show ?thesis
    unfolding extract_subject_ok extract_clinical_scores_ok extract_imaging_protocol_ok
      float_targets_def
    by (simp only: map_append set_append ball_Un conj_assoc)
qed

lemma parse_None_iff:
  "parse_xml_metadata pf p (Some xroot) = None \<longleftrightarrow>
     (\<exists>t \<in> set (float_targets xroot). \<not> converts pf t)"
proof -
  have "parse_xml_metadata pf p (Some xroot) = None \<longleftrightarrow> \<not> (\<exists>md. build_metadata pf p xroot = Inr md)"
    by (cases "build_metadata pf p xroot") (simp_all add: parse_xml_metadata_def)
  then show ?thesis unfolding build_metadata_ok by blast
qed

lemma mri_protocol_step_writes:
  assumes "mri_protocol_step pf p m = Inr m'"
    and "map_of (mri_numeric_fields @ mri_text_fields) (attr_get p ''term'' []) \<noteq> Some k"
  shows "map_of m' k = map_of m k"
  using assms
  unfolding mri_protocol_step_def mri_numeric_fields_def mri_text_fields_def Let_def
  by (auto simp: map_of_update_other dest: set_float_text_other [where k = k] split: if_splits)

lemma pet_protocol_step_writes:
  assumes "pet_protocol_step pf p m = Inr m'"
    and "map_of (pet_numeric_fields @ pet_text_fields) (attr_get p ''term'' []) \<noteq> Some k"
  shows "map_of m' k = map_of m k"
  using assms
  unfolding pet_protocol_step_def pet_numeric_fields_def pet_text_fields_def Let_def
  by (auto simp: map_of_update_other
      dest: set_float_text_other [where k = k] set_int_text_other [where k = k]
      split: if_splits)

lemma set_float_text_empty:
  "\<not> text_truthy t \<Longrightarrow> set_float_text pf k t m = Inr (AList.update k PyNone m)"
  by (simp add: set_float_text_def)

lemma set_int_text_empty:
  "\<not> text_truthy t \<Longrightarrow> set_int_text pf k t m = Inr (AList.update k PyNone m)"
  by (simp add: set_int_text_def)

lemma mri_protocol_step_empty:
  assumes "map_of mri_numeric_fields (attr_get p ''term'' []) = Some k"
    and "\<not> text_truthy (etext p)"
  shows "mri_protocol_step pf p m = Inr (AList.update k PyNone m)"
  using assms
  unfolding mri_protocol_step_def mri_numeric_fields_def Let_def
  by (auto simp: set_float_text_empty split: if_splits)

lemma pet_protocol_step_empty:
  assumes "map_of pet_numeric_fields (attr_get p ''term'' []) = Some k"
    and "\<not> text_truthy (etext p)"
  shows "pet_protocol_step pf p m = Inr (AList.update k PyNone m)"
  using assms
  unfolding pet_protocol_step_def pet_numeric_fields_def Let_def
  by (auto simp: set_float_text_empty set_int_text_empty split: if_splits)

lemma for_each_sets:
  assumes "\<And>x m m'. x \<in> set xs \<Longrightarrow> body x m = Inr m' \<Longrightarrow>
             map_of m' k = (if hit x then Some v else map_of m k)"
    and "for_each body xs md = Inr md'"
  shows "map_of md' k = (if \<exists>x \<in> set xs. hit x then Some v else map_of md k)"
  using assms
proof (induction xs arbitrary: md)
  case Nil
  then show ?case by simp
next
  case (Cons x xs)
  from Cons.prems(2) obtain m1 where s: "body x md = Inr m1" and r: "for_each body xs m1 = Inr md'"
    by (auto simp: bind_err_Inr_iff)
  have h: "map_of m1 k = (if hit x then Some v else map_of md k)"
    using Cons.prems(1) [of x md m1] s by simp
  have "map_of md' k = (if \<exists>x \<in> set xs. hit x then Some v else map_of m1 k)"
    by (rule Cons.IH [OF _ r]) (use Cons.prems(1) in auto)
  with h show ?case by simp
qed

lemma set_text_field_same:
  "map_of (set_text_field key el m) key =
     Some (case el of None \<Rightarrow> PyStr ''N/A'' | Some x \<Rightarrow> text_val (etext x))"
  by (simp add: set_text_field_def map_of_update_same)

lemma set_float_field_value:
  assumes "set_float_field pf key el m = Inr m'"
  shows "(el = None \<longrightarrow> map_of m' key = Some PyNone)
       \<and> (\<forall>x q. el = Some x \<and> py_float pf (etext x) = Inr q \<longrightarrow> map_of m' key = Some (PyFloat q))"
  using assms
  by (auto simp: set_float_field_def bind_err_Inr_iff map_of_update_same split: option.splits)

lemma extract_subject_values:
  assumes "extract_subject pf p xroot = Inr m1"
  shows "map_of m1 ''filename'' = Some (PyStr (basename p))"
    and "map_of m1 ''scan_type'' = Some (PyStr (extract_scan_type p))"
    and "map_of m1 ''subject_id'' =
           Some (case find_desc ''subjectIdentifier'' xroot of
                   None \<Rightarrow> PyStr ''N/A'' | Some x \<Rightarrow> text_val (etext x))"
    and "map_of m1 ''research_group'' =
           Some (case find_desc ''researchGroup'' xroot of
                   None \<Rightarrow> PyStr ''N/A'' | Some x \<Rightarrow> text_val (etext x))"
    and "map_of m1 ''gender'' =
           Some (case find_desc ''subjectSex'' xroot of
                   None \<Rightarrow> PyStr ''N/A'' | Some x \<Rightarrow> text_val (etext x))"
    and "find_desc ''subjectAge'' xroot = None \<longrightarrow> map_of m1 ''age'' = Some PyNone"
    and "\<forall>x q. find_desc ''subjectAge'' xroot = Some x \<and> py_float pf (etext x) = Inr q \<longrightarrow>
           map_of m1 ''age'' = Some (PyFloat q)"
    and "find_desc ''weightKg'' xroot = None \<longrightarrow> map_of m1 ''weight_kg'' = Some PyNone"
    and "\<forall>x q. find_desc ''weightKg'' xroot = Some x \<and> py_float pf (etext x) = Inr q \<longrightarrow>
           map_of m1 ''weight_kg'' = Some (PyFloat q)"
proof -
  let ?m0 = "set_text_field ''gender'' (find_desc ''subjectSex'' xroot)
            (set_text_field ''research_group'' (find_desc ''researchGroup'' xroot)
              (set_text_field ''subject_id'' (find_desc ''subjectIdentifier'' xroot)
                (AList.update ''scan_type'' (PyStr (extract_scan_type p))
                  (AList.update ''filename'' (PyStr (basename p)) []))))"
  from assms obtain ma where
    a: "set_float_field pf ''age'' (find_desc ''subjectAge'' xroot) ?m0 = Inr ma"
    and w: "set_float_field pf ''weight_kg'' (find_desc ''weightKg'' xroot) ma = Inr m1"
    unfolding extract_subject_bind bind_err_Inr_iff by blast
  have keep: "map_of m1 k = map_of ?m0 k" if "k \<noteq> ''age''" "k \<noteq> ''weight_kg''" for k
    using set_float_field_other [OF w, of k] set_float_field_other [OF a, of k] that by simp
  show "map_of m1 ''filename'' = Some (PyStr (basename p))"
    by (simp add: keep set_text_field_other map_of_update_other map_of_update_same)
  show "map_of m1 ''scan_type'' = Some (PyStr (extract_scan_type p))"
    by (simp add: keep set_text_field_other map_of_update_other map_of_update_same)
  show "map_of m1 ''subject_id'' =
           Some (case find_desc ''subjectIdentifier'' xroot of
                   None \<Rightarrow> PyStr ''N/A'' | Some x \<Rightarrow> text_val (etext x))"
    by (simp add: keep set_text_field_other set_text_field_same)
  show "map_of m1 ''research_group'' =
           Some (case find_desc ''researchGroup'' xroot of
                   None \<Rightarrow> PyStr ''N/A'' | Some x \<Rightarrow> text_val (etext x))"
    by (simp add: keep set_text_field_other set_text_field_same)
  show "map_of m1 ''gender'' =
           Some (case find_desc ''subjectSex'' xroot of
                   None \<Rightarrow> PyStr ''N/A'' | Some x \<Rightarrow> text_val (etext x))"
    by (simp add: keep set_text_field_same)
  have age: "map_of m1 ''age'' = map_of ma ''age''"
    using set_float_field_other [OF w, of "''age''"] by simp
  show "find_desc ''subjectAge'' xroot = None \<longrightarrow> map_of m1 ''age'' = Some PyNone"
    using set_float_field_value [OF a] age by metis
  show "\<forall>x q. find_desc ''subjectAge'' xroot = Some x \<and> py_float pf (etext x) = Inr q \<longrightarrow>
           map_of m1 ''age'' = Some (PyFloat q)"
    using set_float_field_value [OF a] age by metis
  show "find_desc ''weightKg'' xroot = None \<longrightarrow> map_of m1 ''weight_kg'' = Some PyNone"
    using set_float_field_value [OF w] by metis
  show "\<forall>x q. find_desc ''weightKg'' xroot = Some x \<and> py_float pf (etext x) = Inr q \<longrightarrow>
           map_of m1 ''weight_kg'' = Some (PyFloat q)"
    using set_float_field_value [OF w] by metis
qed

lemma extract_visit_scan_values:
  "map_of (extract_visit_scan xroot m) ''visit_type'' =
     Some (case find_desc ''visitIdentifier'' xroot of
             None \<Rightarrow> PyStr ''N/A'' | Some x \<Rightarrow> text_val (etext x))"
  "map_of (extract_visit_scan xroot m) ''modality'' =
     Some (case find_desc ''modality'' xroot of
             None \<Rightarrow> PyStr ''N/A'' | Some x \<Rightarrow> text_val (etext x))"
  "map_of (extract_visit_scan xroot m) ''scan_date'' =
     Some (case find_desc ''dateAcquired'' xroot of
             None \<Rightarrow> PyStr ''N/A'' | Some x \<Rightarrow> text_val (etext x))"
  "map_of (extract_visit_scan xroot m) ''series_id'' =
     Some (case find_desc ''seriesIdentifier'' xroot of
             None \<Rightarrow> PyStr ''N/A'' | Some x \<Rightarrow> text_val (etext x))"
  by (simp_all add: extract_visit_scan_def Let_def set_text_field_other set_text_field_same)

text \<open>The stages of a successful build, and which keys each later stage leaves alone.\<close>

lemma build_stages:
  assumes "build_metadata pf p xroot = Inr md"
  obtains m1 m2 m3 mm m4 where
    "extract_subject pf p xroot = Inr m1"
    "extract_apoe (findall_has_attr ''subjectInfo'' ''item'' xroot) m1 = Inr m2"
    "extract_clinical_scores pf xroot (extract_visit_scan xroot m2) = Inr m3"
    "for_each (mri_protocol_step pf) (findall_child ''protocolTerm'' ''protocol'' xroot) m3 = Inr mm"
    "for_each (pet_protocol_step pf) (findall_nested ''imagingProtocol'' ''protocol'' xroot) mm
       = Inr m4"
    "md = extract_processing_info xroot m4"
proof -
  from assms obtain m1 m2 m3 m4 where
    s: "extract_subject pf p xroot = Inr m1"
    and a: "extract_apoe (findall_has_attr ''subjectInfo'' ''item'' xroot) m1 = Inr m2"
    and c: "extract_clinical_scores pf xroot (extract_visit_scan xroot m2) = Inr m3"
    and i: "extract_imaging_protocol pf xroot m3 = Inr m4"
    and f: "md = extract_processing_info xroot m4"
    by (rule build_metadata_Inr)
  from i obtain mm where
    "for_each (mri_protocol_step pf) (findall_child ''protocolTerm'' ''protocol'' xroot) m3 = Inr mm"
    "for_each (pet_protocol_step pf) (findall_nested ''imagingProtocol'' ''protocol'' xroot) mm
       = Inr m4"
    unfolding extract_imaging_protocol_def bind_err_Inr_iff by blast
  with s a c f show ?thesis using that by blast
qed

lemma build_chain:
  assumes "extract_subject pf p xroot = Inr m1"
    and "extract_apoe (findall_has_attr ''subjectInfo'' ''item'' xroot) m1 = Inr m2"
    and "extract_clinical_scores pf xroot (extract_visit_scan xroot m2) = Inr m3"
    and "for_each (mri_protocol_step pf) (findall_child ''protocolTerm'' ''protocol'' xroot) m3
           = Inr mm"
    and "for_each (pet_protocol_step pf) (findall_nested ''imagingProtocol'' ''protocol'' xroot) mm
           = Inr m4"
  shows "k \<notin> subject_keys \<Longrightarrow> map_of m1 k = None"
    and "k \<notin> apoe_keys \<Longrightarrow> map_of m2 k = map_of m1 k"
    and "k \<notin> visit_keys \<Longrightarrow> map_of (extract_visit_scan xroot m2) k = map_of m2 k"
    and "k \<notin> clinical_keys \<Longrightarrow> map_of m3 k = map_of (extract_visit_scan xroot m2) k"
    and "k \<notin> mri_keys \<Longrightarrow> map_of mm k = map_of m3 k"
    and "k \<notin> pet_keys \<Longrightarrow> map_of m4 k = map_of mm k"
    and "k \<notin> processing_keys \<Longrightarrow> map_of (extract_processing_info xroot m4) k = map_of m4 k"
proof -
  show "k \<notin> subject_keys \<Longrightarrow> map_of m1 k = None"
    unfolding subject_keys_def by (rule extract_subject_keys [OF assms(1)])
  show "k \<notin> apoe_keys \<Longrightarrow> map_of m2 k = map_of m1 k"
    unfolding apoe_keys_def by (rule extract_apoe_frame [OF assms(2)]) simp_all
  show "k \<notin> visit_keys \<Longrightarrow> map_of (extract_visit_scan xroot m2) k = map_of m2 k"
    unfolding visit_keys_def by (rule extract_visit_scan_frame)
  show "k \<notin> clinical_keys \<Longrightarrow> map_of m3 k = map_of (extract_visit_scan xroot m2) k"
    unfolding clinical_keys_def by (rule extract_clinical_scores_frame [OF assms(3)])
  show "k \<notin> mri_keys \<Longrightarrow> map_of mm k = map_of m3 k"
    unfolding mri_keys_def
    by (rule for_each_frame [OF _ assms(4)]) (rule mri_protocol_step_frame)
  show "k \<notin> pet_keys \<Longrightarrow> map_of m4 k = map_of mm k"
    unfolding pet_keys_def
    by (rule for_each_frame [OF _ assms(5)]) (rule pet_protocol_step_frame)
  show "k \<notin> processing_keys \<Longrightarrow> map_of (extract_processing_info xroot m4) k = map_of m4 k"
    unfolding processing_keys_def by (rule extract_processing_info_frame) simp_all
qed

lemma keys_notin:
  "k \<in> subject_keys \<Longrightarrow> k \<notin> apoe_keys \<and> k \<notin> visit_keys \<and> k \<notin> clinical_keys \<and> k \<notin> mri_keys \<and> k \<notin> pet_keys \<and> k \<notin> processing_keys"
  "k \<in> apoe_keys \<Longrightarrow> k \<notin> subject_keys \<and> k \<notin> visit_keys \<and> k \<notin> clinical_keys \<and> k \<notin> mri_keys \<and> k \<notin> pet_keys \<and> k \<notin> processing_keys"
  "k \<in> visit_keys \<Longrightarrow> k \<notin> subject_keys \<and> k \<notin> apoe_keys \<and> k \<notin> clinical_keys \<and> k \<notin> mri_keys \<and> k \<notin> pet_keys \<and> k \<notin> processing_keys"
  "k \<in> clinical_keys \<Longrightarrow> k \<notin> subject_keys \<and> k \<notin> apoe_keys \<and> k \<notin> visit_keys \<and> k \<notin> mri_keys \<and> k \<notin> pet_keys \<and> k \<notin> processing_keys"
  "k \<in> mri_keys \<Longrightarrow> k \<notin> subject_keys \<and> k \<notin> apoe_keys \<and> k \<notin> visit_keys \<and> k \<notin> clinical_keys \<and> k \<notin> pet_keys \<and> k \<notin> processing_keys"
  "k \<in> pet_keys \<Longrightarrow> k \<notin> subject_keys \<and> k \<notin> apoe_keys \<and> k \<notin> visit_keys \<and> k \<notin> clinical_keys \<and> k \<notin> mri_keys \<and> k \<notin> processing_keys"
  "k \<in> processing_keys \<Longrightarrow> k \<notin> subject_keys \<and> k \<notin> apoe_keys \<and> k \<notin> visit_keys \<and> k \<notin> clinical_keys \<and> k \<notin> mri_keys \<and> k \<notin> pet_keys"
  unfolding subject_keys_def apoe_keys_def visit_keys_def clinical_keys_def mri_keys_def
    pet_keys_def processing_keys_def
  by auto

lemma build_values:
  assumes "extract_subject pf p xroot = Inr m1"
    and "extract_apoe (findall_has_attr ''subjectInfo'' ''item'' xroot) m1 = Inr m2"
    and "extract_clinical_scores pf xroot (extract_visit_scan xroot m2) = Inr m3"
    and "for_each (mri_protocol_step pf) (findall_child ''protocolTerm'' ''protocol'' xroot) m3
           = Inr mm"
    and "for_each (pet_protocol_step pf) (findall_nested ''imagingProtocol'' ''protocol'' xroot) mm
           = Inr m4"
    and "md = extract_processing_info xroot m4"
  shows "k \<in> subject_keys \<Longrightarrow> map_of md k = map_of m1 k"
    and "k \<in> apoe_keys \<Longrightarrow> map_of md k = map_of m2 k \<and> map_of m1 k = None"
    and "k \<in> visit_keys \<Longrightarrow> map_of md k = map_of (extract_visit_scan xroot m2) k"
    and "k \<in> clinical_keys \<Longrightarrow>
           map_of md k = map_of m3 k \<and> map_of (extract_visit_scan xroot m2) k = None"
    and "k \<in> mri_keys \<Longrightarrow> map_of md k = map_of mm k \<and> map_of m3 k = None"
    and "k \<in> pet_keys \<Longrightarrow> map_of md k = map_of m4 k \<and> map_of mm k = None"
    and "k \<in> processing_keys \<Longrightarrow> map_of m4 k = None"
proof -
  note ch = build_chain [OF assms(1-5)]
  have last: "k \<notin> processing_keys \<Longrightarrow> map_of md k = map_of m4 k"
    unfolding assms(6) by (rule ch(7))
  show "k \<in> subject_keys \<Longrightarrow> map_of md k = map_of m1 k"
  proof -
    assume k: "k \<in> subject_keys"
    from keys_notin(1) [OF k] have n: "k \<notin> apoe_keys" "k \<notin> visit_keys" "k \<notin> clinical_keys" "k \<notin> mri_keys" "k \<notin> pet_keys" "k \<notin> processing_keys"
      by simp_all
    have fwd: "map_of md k = map_of m1 k"
    proof -
      have "map_of md k = map_of m4 k" by (rule last [OF n(6)])
      also have "\<dots> = map_of mm k" by (rule ch(6) [OF n(5)])
      also have "\<dots> = map_of m3 k" by (rule ch(5) [OF n(4)])
      also have "\<dots> = map_of (extract_visit_scan xroot m2) k" by (rule ch(4) [OF n(3)])
      also have "\<dots> = map_of m2 k" by (rule ch(3) [OF n(2)])
      also have "\<dots> = map_of m1 k" by (rule ch(2) [OF n(1)])
      finally show ?thesis .
    qed
    from fwd show ?thesis .
  qed
  show "k \<in> apoe_keys \<Longrightarrow> map_of md k = map_of m2 k \<and> map_of m1 k = None"
  proof -
    assume k: "k \<in> apoe_keys"
    from keys_notin(2) [OF k] have n: "k \<notin> subject_keys" "k \<notin> visit_keys" "k \<notin> clinical_keys" "k \<notin> mri_keys" "k \<notin> pet_keys" "k \<notin> processing_keys"
      by simp_all
    have fwd: "map_of md k = map_of m2 k"
    proof -
      have "map_of md k = map_of m4 k" by (rule last [OF n(6)])
      also have "\<dots> = map_of mm k" by (rule ch(6) [OF n(5)])
      also have "\<dots> = map_of m3 k" by (rule ch(5) [OF n(4)])
      also have "\<dots> = map_of (extract_visit_scan xroot m2) k" by (rule ch(4) [OF n(3)])
      also have "\<dots> = map_of m2 k" by (rule ch(3) [OF n(2)])
      finally show ?thesis .
    qed
    have bwd: "map_of m1 k = None"
    proof -
      have "map_of m1 k = None" by (rule ch(1) [OF n(1)])
      then show ?thesis .
    qed
    from fwd bwd show ?thesis by (rule conjI)
  qed
  show "k \<in> visit_keys \<Longrightarrow> map_of md k = map_of (extract_visit_scan xroot m2) k"
  proof -
    assume k: "k \<in> visit_keys"
    from keys_notin(3) [OF k] have n: "k \<notin> subject_keys" "k \<notin> apoe_keys" "k \<notin> clinical_keys" "k \<notin> mri_keys" "k \<notin> pet_keys" "k \<notin> processing_keys"
      by simp_all
    have fwd: "map_of md k = map_of (extract_visit_scan xroot m2) k"
    proof -
      have "map_of md k = map_of m4 k" by (rule last [OF n(6)])
      also have "\<dots> = map_of mm k" by (rule ch(6) [OF n(5)])
      also have "\<dots> = map_of m3 k" by (rule ch(5) [OF n(4)])
      also have "\<dots> = map_of (extract_visit_scan xroot m2) k" by (rule ch(4) [OF n(3)])
      finally show ?thesis .
    qed
    have bwd: "map_of m2 k = None"
    proof -
      have "map_of m2 k = map_of m1 k" by (rule ch(2) [OF n(2)])
      also have "\<dots> = None" by (rule ch(1) [OF n(1)])
      finally show ?thesis .
    qed
    from fwd show ?thesis .
  qed
  show "k \<in> clinical_keys \<Longrightarrow> map_of md k = map_of m3 k \<and> map_of (extract_visit_scan xroot m2) k = None"
  proof -
    assume k: "k \<in> clinical_keys"
    from keys_notin(4) [OF k] have n: "k \<notin> subject_keys" "k \<notin> apoe_keys" "k \<notin> visit_keys" "k \<notin> mri_keys" "k \<notin> pet_keys" "k \<notin> processing_keys"
      by simp_all
    have fwd: "map_of md k = map_of m3 k"
    proof -
      have "map_of md k = map_of m4 k" by (rule last [OF n(6)])
      also have "\<dots> = map_of mm k" by (rule ch(6) [OF n(5)])
      also have "\<dots> = map_of m3 k" by (rule ch(5) [OF n(4)])
      finally show ?thesis .
    qed
    have bwd: "map_of (extract_visit_scan xroot m2) k = None"
    proof -
      have "map_of (extract_visit_scan xroot m2) k = map_of m2 k" by (rule ch(3) [OF n(3)])
      also have "\<dots> = map_of m1 k" by (rule ch(2) [OF n(2)])
      also have "\<dots> = None" by (rule ch(1) [OF n(1)])
      finally show ?thesis .
    qed
    from fwd bwd show ?thesis by (rule conjI)
  qed
  show "k \<in> mri_keys \<Longrightarrow> map_of md k = map_of mm k \<and> map_of m3 k = None"
  proof -
    assume k: "k \<in> mri_keys"
    from keys_notin(5) [OF k] have n: "k \<notin> subject_keys" "k \<notin> apoe_keys" "k \<notin> visit_keys" "k \<notin> clinical_keys" "k \<notin> pet_keys" "k \<notin> processing_keys"
      by simp_all
    have fwd: "map_of md k = map_of mm k"
    proof -
      have "map_of md k = map_of m4 k" by (rule last [OF n(6)])
      also have "\<dots> = map_of mm k" by (rule ch(6) [OF n(5)])
      finally show ?thesis .
    qed
    have bwd: "map_of m3 k = None"
    proof -
      have "map_of m3 k = map_of (extract_visit_scan xroot m2) k" by (rule ch(4) [OF n(4)])
      also have "\<dots> = map_of m2 k" by (rule ch(3) [OF n(3)])
      also have "\<dots> = map_of m1 k" by (rule ch(2) [OF n(2)])
      also have "\<dots> = None" by (rule ch(1) [OF n(1)])
      finally show ?thesis .
    qed
    from fwd bwd show ?thesis by (rule conjI)
  qed
  show "k \<in> pet_keys \<Longrightarrow> map_of md k = map_of m4 k \<and> map_of mm k = None"
  proof -
    assume k: "k \<in> pet_keys"
    from keys_notin(6) [OF k] have n: "k \<notin> subject_keys" "k \<notin> apoe_keys" "k \<notin> visit_keys" "k \<notin> clinical_keys" "k \<notin> mri_keys" "k \<notin> processing_keys"
      by simp_all
    have fwd: "map_of md k = map_of m4 k"
    proof -
      have "map_of md k = map_of m4 k" by (rule last [OF n(6)])
      then show ?thesis .
    qed
    have bwd: "map_of mm k = None"
    proof -
      have "map_of mm k = map_of m3 k" by (rule ch(5) [OF n(5)])
      also have "\<dots> = map_of (extract_visit_scan xroot m2) k" by (rule ch(4) [OF n(4)])
      also have "\<dots> = map_of m2 k" by (rule ch(3) [OF n(3)])
      also have "\<dots> = map_of m1 k" by (rule ch(2) [OF n(2)])
      also have "\<dots> = None" by (rule ch(1) [OF n(1)])
      finally show ?thesis .
    qed
    from fwd bwd show ?thesis by (rule conjI)
  qed
  show "k \<in> processing_keys \<Longrightarrow> map_of m4 k = None"
  proof -
    assume k: "k \<in> processing_keys"
    from keys_notin(7) [OF k] have n: "k \<notin> subject_keys" "k \<notin> apoe_keys" "k \<notin> visit_keys" "k \<notin> clinical_keys" "k \<notin> mri_keys" "k \<notin> pet_keys"
      by simp_all
    have bwd: "map_of m4 k = None"
    proof -
      have "map_of m4 k = map_of mm k" by (rule ch(6) [OF n(6)])
      also have "\<dots> = map_of m3 k" by (rule ch(5) [OF n(5)])
      also have "\<dots> = map_of (extract_visit_scan xroot m2) k" by (rule ch(4) [OF n(4)])
      also have "\<dots> = map_of m2 k" by (rule ch(3) [OF n(3)])
      also have "\<dots> = map_of m1 k" by (rule ch(2) [OF n(2)])
      also have "\<dots> = None" by (rule ch(1) [OF n(1)])
      finally show ?thesis .
    qed
    from bwd show ?thesis .
  qed
qed

lemma mri_numeric_key:
  "map_of mri_numeric_fields t = Some k \<Longrightarrow>
     k \<in> mri_keys \<and> map_of (mri_numeric_fields @ mri_text_fields) t = Some k"
  unfolding mri_numeric_fields_def mri_text_fields_def mri_keys_def
  by (auto split: if_splits)

lemma pet_numeric_key:
  "map_of pet_numeric_fields t = Some k \<Longrightarrow>
     k \<in> pet_keys \<and> map_of (pet_numeric_fields @ pet_text_fields) t = Some k"
  unfolding pet_numeric_fields_def pet_text_fields_def pet_keys_def
  by (auto split: if_splits)

lemma mri_numeric_other:
  "map_of mri_numeric_fields t = Some k \<Longrightarrow> map_of mri_numeric_fields t' \<noteq> Some k \<Longrightarrow>
     map_of (mri_numeric_fields @ mri_text_fields) t' \<noteq> Some k"
  unfolding mri_numeric_fields_def mri_text_fields_def
  by (auto split: if_splits)

lemma pet_numeric_other:
  "map_of pet_numeric_fields t = Some k \<Longrightarrow> map_of pet_numeric_fields t' \<noteq> Some k \<Longrightarrow>
     map_of (pet_numeric_fields @ pet_text_fields) t' \<noteq> Some k"
  unfolding pet_numeric_fields_def pet_text_fields_def
  by (auto split: if_splits)

lemma empty_text_not_converts:
  "\<not> text_truthy t \<Longrightarrow> pf [] = None \<Longrightarrow> \<not> converts pf t"
  by (cases t) (auto simp: text_truthy_def converts_iff py_float_def)

lemma age_in_targets:
  "find_desc ''subjectAge'' xroot = Some e \<Longrightarrow> etext e \<in> set (float_targets xroot)"
  by (simp add: float_targets_def opt_list_def)

lemma weight_in_targets:
  "find_desc ''weightKg'' xroot = Some e \<Longrightarrow> etext e \<in> set (float_targets xroot)"
  by (simp add: float_targets_def opt_list_def)

lemma mri_loop_empty_value:
  assumes loop: "for_each (mri_protocol_step pf) xs m = Inr m'"
    and ex: "\<exists>x \<in> set xs. map_of mri_numeric_fields (attr_get x ''term'' []) = Some k"
    and emp: "\<forall>x \<in> set xs. map_of mri_numeric_fields (attr_get x ''term'' []) = Some k \<longrightarrow>
               \<not> text_truthy (etext x)"
  shows "map_of m' k = Some PyNone"
proof -
  from ex obtain y where y: "map_of mri_numeric_fields (attr_get y ''term'' []) = Some k"
    by blast
  have "map_of m' k =
      (if \<exists>x \<in> set xs. map_of mri_numeric_fields (attr_get x ''term'' []) = Some k
       then Some PyNone else map_of m k)"
  proof (rule for_each_sets [OF _ loop])
    fix x a b
    assume x: "x \<in> set xs" and s: "mri_protocol_step pf x a = Inr b"
    show "map_of b k =
        (if map_of mri_numeric_fields (attr_get x ''term'' []) = Some k
         then Some PyNone else map_of a k)"
    proof (cases "map_of mri_numeric_fields (attr_get x ''term'' []) = Some k")
      case True
      with emp x have "\<not> text_truthy (etext x)" by blast
      from mri_protocol_step_empty [OF True this, of pf a] s True show ?thesis
        by (simp add: map_of_update_same)
    next
      case False
      from mri_protocol_step_writes [OF s mri_numeric_other [OF y False]] False
      show ?thesis by simp
    qed
  qed
  with ex show ?thesis by simp
qed

lemma pet_loop_empty_value:
  assumes loop: "for_each (pet_protocol_step pf) xs m = Inr m'"
    and ex: "\<exists>x \<in> set xs. map_of pet_numeric_fields (attr_get x ''term'' []) = Some k"
    and emp: "\<forall>x \<in> set xs. map_of pet_numeric_fields (attr_get x ''term'' []) = Some k \<longrightarrow>
               \<not> text_truthy (etext x)"
  shows "map_of m' k = Some PyNone"
proof -
  from ex obtain y where y: "map_of pet_numeric_fields (attr_get y ''term'' []) = Some k"
    by blast
  have "map_of m' k =
      (if \<exists>x \<in> set xs. map_of pet_numeric_fields (attr_get x ''term'' []) = Some k
       then Some PyNone else map_of m k)"
  proof (rule for_each_sets [OF _ loop])
    fix x a b
    assume x: "x \<in> set xs" and s: "pet_protocol_step pf x a = Inr b"
    show "map_of b k =
        (if map_of pet_numeric_fields (attr_get x ''term'' []) = Some k
         then Some PyNone else map_of a k)"
    proof (cases "map_of pet_numeric_fields (attr_get x ''term'' []) = Some k")
      case True
      with emp x have "\<not> text_truthy (etext x)" by blast
      from pet_protocol_step_empty [OF True this, of pf a] s True show ?thesis
        by (simp add: map_of_update_same)
    next
      case False
      from pet_protocol_step_writes [OF s pet_numeric_other [OF y False]] False
      show ?thesis by simp
    qed
  qed
  with ex show ?thesis by simp
qed

lemma parse_Some_conditions:
  "(\<exists>md. parse_xml_metadata pf fp (Some xroot) = Some md) \<longleftrightarrow>
        (\<forall>y \<in> set (opt_list (find_desc ''subjectAge'' xroot)). converts pf (etext y))
        \<and> (\<forall>y \<in> set (opt_list (find_desc ''weightKg'' xroot)). converts pf (etext y))
        \<and> (\<forall>a \<in> set (findall_desc ''assessment'' xroot).
             \<forall>y \<in> set (opt_list (clinical_target a)). converts pf (etext y))
        \<and> (\<forall>y \<in> set (findall_child ''protocolTerm'' ''protocol'' xroot).
             numeric_term mri_numeric_fields y \<and> text_truthy (etext y) \<longrightarrow> converts pf (etext y))
        \<and> (\<forall>y \<in> set (findall_nested ''imagingProtocol'' ''protocol'' xroot).
             numeric_term pet_numeric_fields y \<and> text_truthy (etext y) \<longrightarrow> converts pf (etext y))"
proof -
  have "(\<exists>md. parse_xml_metadata pf fp (Some xroot) = Some md) \<longleftrightarrow>
          parse_xml_metadata pf fp (Some xroot) \<noteq> None"
    by auto
  also have "\<dots> \<longleftrightarrow> (\<forall>t \<in> set (float_targets xroot). converts pf t)"
    unfolding parse_None_iff by blast
  also have "\<dots> \<longleftrightarrow>
        (\<forall>y \<in> set (opt_list (find_desc ''subjectAge'' xroot)). converts pf (etext y))
        \<and> (\<forall>y \<in> set (opt_list (find_desc ''weightKg'' xroot)). converts pf (etext y))
        \<and> (\<forall>a \<in> set (findall_desc ''assessment'' xroot).
             \<forall>y \<in> set (opt_list (clinical_target a)). converts pf (etext y))
        \<and> (\<forall>y \<in> set (findall_child ''protocolTerm'' ''protocol'' xroot).
             numeric_term mri_numeric_fields y \<and> text_truthy (etext y) \<longrightarrow> converts pf (etext y))
        \<and> (\<forall>y \<in> set (findall_nested ''imagingProtocol'' ''protocol'' xroot).
             numeric_term pet_numeric_fields y \<and> text_truthy (etext y) \<longrightarrow> converts pf (etext y))"
    unfolding float_targets_def by (simp add: ball_Un) blast
  finally show ?thesis .
qed

text \<open>
  Claim C9. A protocol element with a numeric term and an empty text is stored as
  \<^verbatim>\<open>None\<close> by its loop step, on the MRI path and on the PET path, and takes no part in
  whether the record is built: the imaging stage returns, and the record is built, exactly
  when the converted texts convert, and of the protocol elements only those with a
  numeric term and a non-empty text are converted. When every element of a numeric term
  has an empty text, the built record holds \<^verbatim>\<open>None\<close> under the term's key. An empty text
  in \<^verbatim>\<open>subjectAge\<close> or \<^verbatim>\<open>weightKg\<close> fails the whole record.
\<close>

theorem empty_protocol_text_is_none:
  "(map_of mri_numeric_fields (attr_get x ''term'' []) = Some k \<and> \<not> text_truthy (etext x) \<longrightarrow>
      mri_protocol_step pf x m = Inr (AList.update k PyNone m))
   \<and> (map_of pet_numeric_fields (attr_get x ''term'' []) = Some k \<and> \<not> text_truthy (etext x) \<longrightarrow>
      pet_protocol_step pf x m = Inr (AList.update k PyNone m))
   \<and> ((\<exists>m'. extract_imaging_protocol pf xroot m = Inr m') \<longleftrightarrow>
        (\<forall>y \<in> set (findall_child ''protocolTerm'' ''protocol'' xroot).
           numeric_term mri_numeric_fields y \<and> text_truthy (etext y) \<longrightarrow> converts pf (etext y))
        \<and> (\<forall>y \<in> set (findall_nested ''imagingProtocol'' ''protocol'' xroot).
           numeric_term pet_numeric_fields y \<and> text_truthy (etext y) \<longrightarrow> converts pf (etext y)))
   \<and> ((\<exists>md'. parse_xml_metadata pf fp (Some xroot) = Some md') \<longleftrightarrow>
        (\<forall>y \<in> set (opt_list (find_desc ''subjectAge'' xroot)). converts pf (etext y))
        \<and> (\<forall>y \<in> set (opt_list (find_desc ''weightKg'' xroot)). converts pf (etext y))
        \<and> (\<forall>a \<in> set (findall_desc ''assessment'' xroot).
             \<forall>y \<in> set (opt_list (clinical_target a)). converts pf (etext y))
        \<and> (\<forall>y \<in> set (findall_child ''protocolTerm'' ''protocol'' xroot).
             numeric_term mri_numeric_fields y \<and> text_truthy (etext y) \<longrightarrow> converts pf (etext y))
        \<and> (\<forall>y \<in> set (findall_nested ''imagingProtocol'' ''protocol'' xroot).
             numeric_term pet_numeric_fields y \<and> text_truthy (etext y) \<longrightarrow> converts pf (etext y)))
   \<and> (parse_xml_metadata pf fp (Some xroot) = Some md
       \<and> (\<exists>y \<in> set (findall_child ''protocolTerm'' ''protocol'' xroot).
            map_of mri_numeric_fields (attr_get y ''term'' []) = Some k)
       \<and> (\<forall>y \<in> set (findall_child ''protocolTerm'' ''protocol'' xroot).
            map_of mri_numeric_fields (attr_get y ''term'' []) = Some k \<longrightarrow>
              \<not> text_truthy (etext y)) \<longrightarrow>
      map_of md k = Some PyNone)
   \<and> (parse_xml_metadata pf fp (Some xroot) = Some md
       \<and> (\<exists>y \<in> set (findall_nested ''imagingProtocol'' ''protocol'' xroot).
            map_of pet_numeric_fields (attr_get y ''term'' []) = Some k)
       \<and> (\<forall>y \<in> set (findall_nested ''imagingProtocol'' ''protocol'' xroot).
            map_of pet_numeric_fields (attr_get y ''term'' []) = Some k \<longrightarrow>
              \<not> text_truthy (etext y)) \<longrightarrow>
      map_of md k = Some PyNone)
   \<and> (find_desc ''subjectAge'' xroot = Some e \<and> \<not> text_truthy (etext e) \<and> pf [] = None \<longrightarrow>
      parse_xml_metadata pf fp (Some xroot) = None)
   \<and> (find_desc ''weightKg'' xroot = Some e \<and> \<not> text_truthy (etext e) \<and> pf [] = None \<longrightarrow>
      parse_xml_metadata pf fp (Some xroot) = None)"
proof (intro conjI impI; (elim conjE)?)
  assume "map_of mri_numeric_fields (attr_get x ''term'' []) = Some k" "\<not> text_truthy (etext x)"
  then show "mri_protocol_step pf x m = Inr (AList.update k PyNone m)"
    by (rule mri_protocol_step_empty)
next
  assume "map_of pet_numeric_fields (attr_get x ''term'' []) = Some k" "\<not> text_truthy (etext x)"
  then show "pet_protocol_step pf x m = Inr (AList.update k PyNone m)"
    by (rule pet_protocol_step_empty)
next
  show "(\<exists>m'. extract_imaging_protocol pf xroot m = Inr m') \<longleftrightarrow>
        (\<forall>y \<in> set (findall_child ''protocolTerm'' ''protocol'' xroot).
           numeric_term mri_numeric_fields y \<and> text_truthy (etext y) \<longrightarrow> converts pf (etext y))
        \<and> (\<forall>y \<in> set (findall_nested ''imagingProtocol'' ''protocol'' xroot).
           numeric_term pet_numeric_fields y \<and> text_truthy (etext y) \<longrightarrow> converts pf (etext y))"
    unfolding extract_imaging_protocol_ok ball_map_filter by blast
next
  show "(\<exists>md'. parse_xml_metadata pf fp (Some xroot) = Some md') \<longleftrightarrow>
        (\<forall>y \<in> set (opt_list (find_desc ''subjectAge'' xroot)). converts pf (etext y))
        \<and> (\<forall>y \<in> set (opt_list (find_desc ''weightKg'' xroot)). converts pf (etext y))
        \<and> (\<forall>a \<in> set (findall_desc ''assessment'' xroot).
             \<forall>y \<in> set (opt_list (clinical_target a)). converts pf (etext y))
        \<and> (\<forall>y \<in> set (findall_child ''protocolTerm'' ''protocol'' xroot).
             numeric_term mri_numeric_fields y \<and> text_truthy (etext y) \<longrightarrow> converts pf (etext y))
        \<and> (\<forall>y \<in> set (findall_nested ''imagingProtocol'' ''protocol'' xroot).
             numeric_term pet_numeric_fields y \<and> text_truthy (etext y) \<longrightarrow> converts pf (etext y))"
    by (rule parse_Some_conditions)
next
  assume b: "parse_xml_metadata pf fp (Some xroot) = Some md"
    and ex: "\<exists>y \<in> set (findall_child ''protocolTerm'' ''protocol'' xroot).
            map_of mri_numeric_fields (attr_get y ''term'' []) = Some k"
    and emp: "\<forall>y \<in> set (findall_child ''protocolTerm'' ''protocol'' xroot).
            map_of mri_numeric_fields (attr_get y ''term'' []) = Some k \<longrightarrow>
              \<not> text_truthy (etext y)"
  from b have "build_metadata pf fp xroot = Inr md" by (simp add: parse_Some_iff)
  then obtain m1 m2 m3 mm m4 where st:
    "extract_subject pf fp xroot = Inr m1"
    "extract_apoe (findall_has_attr ''subjectInfo'' ''item'' xroot) m1 = Inr m2"
    "extract_clinical_scores pf xroot (extract_visit_scan xroot m2) = Inr m3"
    "for_each (mri_protocol_step pf) (findall_child ''protocolTerm'' ''protocol'' xroot) m3 = Inr mm"
    "for_each (pet_protocol_step pf) (findall_nested ''imagingProtocol'' ''protocol'' xroot) mm
       = Inr m4"
    "md = extract_processing_info xroot m4"
    by (rule build_stages)
  from ex have "k \<in> mri_keys" using mri_numeric_key by blast
  then have "map_of md k = map_of mm k" using build_values(5) [OF st] by blast
  also have "\<dots> = Some PyNone" by (rule mri_loop_empty_value [OF st(4) ex emp])
  finally show "map_of md k = Some PyNone" .
next
  assume b: "parse_xml_metadata pf fp (Some xroot) = Some md"
    and ex: "\<exists>y \<in> set (findall_nested ''imagingProtocol'' ''protocol'' xroot).
            map_of pet_numeric_fields (attr_get y ''term'' []) = Some k"
    and emp: "\<forall>y \<in> set (findall_nested ''imagingProtocol'' ''protocol'' xroot).
            map_of pet_numeric_fields (attr_get y ''term'' []) = Some k \<longrightarrow>
              \<not> text_truthy (etext y)"
  from b have "build_metadata pf fp xroot = Inr md" by (simp add: parse_Some_iff)
  then obtain m1 m2 m3 mm m4 where st:
    "extract_subject pf fp xroot = Inr m1"
    "extract_apoe (findall_has_attr ''subjectInfo'' ''item'' xroot) m1 = Inr m2"
    "extract_clinical_scores pf xroot (extract_visit_scan xroot m2) = Inr m3"
    "for_each (mri_protocol_step pf) (findall_child ''protocolTerm'' ''protocol'' xroot) m3 = Inr mm"
    "for_each (pet_protocol_step pf) (findall_nested ''imagingProtocol'' ''protocol'' xroot) mm
       = Inr m4"
    "md = extract_processing_info xroot m4"
    by (rule build_stages)
  from ex have "k \<in> pet_keys" using pet_numeric_key by blast
  then have "map_of md k = map_of m4 k" using build_values(6) [OF st] by blast
  also have "\<dots> = Some PyNone" by (rule pet_loop_empty_value [OF st(5) ex emp])
  finally show "map_of md k = Some PyNone" .
next
  assume "find_desc ''subjectAge'' xroot = Some e" "\<not> text_truthy (etext e)" "pf [] = None"
  then show "parse_xml_metadata pf fp (Some xroot) = None"
    unfolding parse_None_iff using age_in_targets empty_text_not_converts by blast
next
  assume "find_desc ''weightKg'' xroot = Some e" "\<not> text_truthy (etext e)" "pf [] = None"
  then show "parse_xml_metadata pf fp (Some xroot) = None"
    unfolding parse_None_iff using weight_in_targets empty_text_not_converts by blast
qed

theorem empty_protocol_text_is_none_witness:
  "mri_protocol_step dec_float (Element ''protocol'' [(''term'', ''TE'')] None []) [] =
     Inr [(''te_ms'', PyNone)]
   \<and> pet_protocol_step dec_float (Element ''protocol'' [(''term'', ''Number of Rows'')] None []) [] =
     Inr [(''num_rows'', PyNone)]
   \<and> (\<exists>m'. extract_imaging_protocol dec_float doc_empty_protocol [] = Inr m')
   \<and> (\<exists>md'. parse_xml_metadata dec_float ''ADNI/ADNI_002_S_0295_MPR_S13408.xml''
        (Some doc_empty_protocol) = Some md')
   \<and> parse_xml_metadata dec_float ''ADNI/ADNI_002_S_0295_MPR_S13408.xml''
        (Some doc_empty_protocol) =
      Some [(''filename'', PyStr ''ADNI_002_S_0295_MPR_S13408.xml''),
            (''scan_type'', PyStr ''MRI_MPRAGE''), (''subject_id'', PyStr ''002_S_0295''),
            (''research_group'', PyStr ''N/A''), (''gender'', PyStr ''N/A''),
            (''age'', PyFloat (145 / 2)), (''weight_kg'', PyNone),
            (''visit_type'', PyStr ''N/A''), (''modality'', PyStr ''N/A''),
            (''scan_date'', PyStr ''N/A''), (''series_id'', PyStr ''N/A''),
            (''te_ms'', PyNone), (''manufacturer'', PyStr ''SIEMENS''),
            (''num_rows'', PyNone), (''processing_steps'', PyStr ''N/A'')]
   \<and> map_of [(''filename'', PyStr ''ADNI_002_S_0295_MPR_S13408.xml''),
            (''scan_type'', PyStr ''MRI_MPRAGE''), (''subject_id'', PyStr ''002_S_0295''),
            (''research_group'', PyStr ''N/A''), (''gender'', PyStr ''N/A''),
            (''age'', PyFloat (145 / 2)), (''weight_kg'', PyNone),
            (''visit_type'', PyStr ''N/A''), (''modality'', PyStr ''N/A''),
            (''scan_date'', PyStr ''N/A''), (''series_id'', PyStr ''N/A''),
            (''te_ms'', PyNone), (''manufacturer'', PyStr ''SIEMENS''),
            (''num_rows'', PyNone), (''processing_steps'', PyStr ''N/A'')] ''te_ms'' = Some PyNone
   \<and> map_of [(''filename'', PyStr ''ADNI_002_S_0295_MPR_S13408.xml''),
            (''scan_type'', PyStr ''MRI_MPRAGE''), (''subject_id'', PyStr ''002_S_0295''),
            (''research_group'', PyStr ''N/A''), (''gender'', PyStr ''N/A''),
            (''age'', PyFloat (145 / 2)), (''weight_kg'', PyNone),
            (''visit_type'', PyStr ''N/A''), (''modality'', PyStr ''N/A''),
            (''scan_date'', PyStr ''N/A''), (''series_id'', PyStr ''N/A''),
            (''te_ms'', PyNone), (''manufacturer'', PyStr ''SIEMENS''),
            (''num_rows'', PyNone), (''processing_steps'', PyStr ''N/A'')] ''num_rows'' = Some PyNone
   \<and> find_desc ''subjectAge'' doc_empty_age = Some (Element ''subjectAge'' [] None [])
   \<and> find_desc ''weightKg'' doc_empty_weight = Some (Element ''weightKg'' [] None [])
   \<and> dec_float [] = None
   \<and> parse_xml_metadata dec_float ''ADNI/ADNI_002_S_0295_MPR_S13408.xml'' (Some doc_empty_age) = None
   \<and> parse_xml_metadata dec_float ''ADNI/ADNI_002_S_0295_MPR_S13408.xml'' (Some doc_empty_weight) = None"
proof -
  have t1: "map_of mri_numeric_fields (attr_get (Element ''protocol'' [(''term'', ''TE'')] None []) ''term'' []) = Some ''te_ms''
            \<and> \<not> text_truthy (etext (Element ''protocol'' [(''term'', ''TE'')] None []))"
    by code_simp
  have r1: "map_of pet_numeric_fields (attr_get (Element ''protocol'' [(''term'', ''Number of Rows'')] None []) ''term'' []) = Some ''num_rows''
            \<and> \<not> text_truthy (etext (Element ''protocol'' [(''term'', ''Number of Rows'')] None []))"
    by code_simp
  have rec: "parse_xml_metadata dec_float ''ADNI/ADNI_002_S_0295_MPR_S13408.xml'' (Some doc_empty_protocol) =
      Some [(''filename'', PyStr ''ADNI_002_S_0295_MPR_S13408.xml''),
            (''scan_type'', PyStr ''MRI_MPRAGE''), (''subject_id'', PyStr ''002_S_0295''),
            (''research_group'', PyStr ''N/A''), (''gender'', PyStr ''N/A''),
            (''age'', PyFloat (145 / 2)), (''weight_kg'', PyNone),
            (''visit_type'', PyStr ''N/A''), (''modality'', PyStr ''N/A''),
            (''scan_date'', PyStr ''N/A''), (''series_id'', PyStr ''N/A''),
            (''te_ms'', PyNone), (''manufacturer'', PyStr ''SIEMENS''),
            (''num_rows'', PyNone), (''processing_steps'', PyStr ''N/A'')]"
    by code_simp
  have all: "(\<forall>y \<in> set (findall_child ''protocolTerm'' ''protocol'' doc_empty_protocol).
          numeric_term mri_numeric_fields y \<and> text_truthy (etext y) \<longrightarrow>
            converts dec_float (etext y))
       \<and> (\<forall>y \<in> set (findall_nested ''imagingProtocol'' ''protocol'' doc_empty_protocol).
          numeric_term pet_numeric_fields y \<and> text_truthy (etext y) \<longrightarrow>
            converts dec_float (etext y))"
    by code_simp
  have oth: "(\<forall>y \<in> set (opt_list (find_desc ''subjectAge'' doc_empty_protocol)).
          converts dec_float (etext y))
       \<and> (\<forall>y \<in> set (opt_list (find_desc ''weightKg'' doc_empty_protocol)).
          converts dec_float (etext y))
       \<and> (\<forall>a \<in> set (findall_desc ''assessment'' doc_empty_protocol).
          \<forall>y \<in> set (opt_list (clinical_target a)). converts dec_float (etext y))"
    by code_simp
  have mri: "(\<exists>y \<in> set (findall_child ''protocolTerm'' ''protocol'' doc_empty_protocol).
            map_of mri_numeric_fields (attr_get y ''term'' []) = Some ''te_ms'')
       \<and> (\<forall>y \<in> set (findall_child ''protocolTerm'' ''protocol'' doc_empty_protocol).
            map_of mri_numeric_fields (attr_get y ''term'' []) = Some ''te_ms'' \<longrightarrow>
              \<not> text_truthy (etext y))"
    by code_simp
  have pet: "(\<exists>y \<in> set (findall_nested ''imagingProtocol'' ''protocol'' doc_empty_protocol).
            map_of pet_numeric_fields (attr_get y ''term'' []) = Some ''num_rows'')
       \<and> (\<forall>y \<in> set (findall_nested ''imagingProtocol'' ''protocol'' doc_empty_protocol).
            map_of pet_numeric_fields (attr_get y ''term'' []) = Some ''num_rows'' \<longrightarrow>
              \<not> text_truthy (etext y))"
    by code_simp
  have age: "find_desc ''subjectAge'' doc_empty_age = Some (Element ''subjectAge'' [] None [])"
    by code_simp
  have age2: "\<not> text_truthy (etext (Element ''subjectAge'' [] None []))"
    by code_simp
  have wt: "find_desc ''weightKg'' doc_empty_weight = Some (Element ''weightKg'' [] None [])"
    by code_simp
  have wt2: "\<not> text_truthy (etext (Element ''weightKg'' [] None []))"
    by code_simp
  have emp: "dec_float [] = None"
    by code_simp
  note T1 = empty_protocol_text_is_none [where x = "(Element ''protocol'' [(''term'', ''TE'')] None [])" and k = "''te_ms''" and pf = dec_float
      and m = "[]" and xroot = doc_empty_protocol and fp = "''ADNI/ADNI_002_S_0295_MPR_S13408.xml''"
      and md = "[(''filename'', PyStr ''ADNI_002_S_0295_MPR_S13408.xml''),
            (''scan_type'', PyStr ''MRI_MPRAGE''), (''subject_id'', PyStr ''002_S_0295''),
            (''research_group'', PyStr ''N/A''), (''gender'', PyStr ''N/A''),
            (''age'', PyFloat (145 / 2)), (''weight_kg'', PyNone),
            (''visit_type'', PyStr ''N/A''), (''modality'', PyStr ''N/A''),
            (''scan_date'', PyStr ''N/A''), (''series_id'', PyStr ''N/A''),
            (''te_ms'', PyNone), (''manufacturer'', PyStr ''SIEMENS''),
            (''num_rows'', PyNone), (''processing_steps'', PyStr ''N/A'')]"
      and e = "(Element ''subjectAge'' [] None [])"]
  note T2 = empty_protocol_text_is_none [where x = "(Element ''protocol'' [(''term'', ''Number of Rows'')] None [])" and k = "''num_rows''"
      and pf = dec_float
      and m = "[]" and xroot = doc_empty_protocol and fp = "''ADNI/ADNI_002_S_0295_MPR_S13408.xml''"
      and md = "[(''filename'', PyStr ''ADNI_002_S_0295_MPR_S13408.xml''),
            (''scan_type'', PyStr ''MRI_MPRAGE''), (''subject_id'', PyStr ''002_S_0295''),
            (''research_group'', PyStr ''N/A''), (''gender'', PyStr ''N/A''),
            (''age'', PyFloat (145 / 2)), (''weight_kg'', PyNone),
            (''visit_type'', PyStr ''N/A''), (''modality'', PyStr ''N/A''),
            (''scan_date'', PyStr ''N/A''), (''series_id'', PyStr ''N/A''),
            (''te_ms'', PyNone), (''manufacturer'', PyStr ''SIEMENS''),
            (''num_rows'', PyNone), (''processing_steps'', PyStr ''N/A'')]"
      and e = "(Element ''subjectAge'' [] None [])"]
  note T3 = empty_protocol_text_is_none [where x = "(Element ''protocol'' [(''term'', ''TE'')] None [])" and k = "''te_ms''" and pf = dec_float
      and m = "[]" and xroot = doc_empty_age and fp = "''ADNI/ADNI_002_S_0295_MPR_S13408.xml''"
      and md = "[(''filename'', PyStr ''ADNI_002_S_0295_MPR_S13408.xml''),
            (''scan_type'', PyStr ''MRI_MPRAGE''), (''subject_id'', PyStr ''002_S_0295''),
            (''research_group'', PyStr ''N/A''), (''gender'', PyStr ''N/A''),
            (''age'', PyFloat (145 / 2)), (''weight_kg'', PyNone),
            (''visit_type'', PyStr ''N/A''), (''modality'', PyStr ''N/A''),
            (''scan_date'', PyStr ''N/A''), (''series_id'', PyStr ''N/A''),
            (''te_ms'', PyNone), (''manufacturer'', PyStr ''SIEMENS''),
            (''num_rows'', PyNone), (''processing_steps'', PyStr ''N/A'')]"
      and e = "(Element ''subjectAge'' [] None [])"]
  note T4 = empty_protocol_text_is_none [where x = "(Element ''protocol'' [(''term'', ''TE'')] None [])" and k = "''te_ms''" and pf = dec_float
      and m = "[]" and xroot = doc_empty_weight and fp = "''ADNI/ADNI_002_S_0295_MPR_S13408.xml''"
      and md = "[(''filename'', PyStr ''ADNI_002_S_0295_MPR_S13408.xml''),
            (''scan_type'', PyStr ''MRI_MPRAGE''), (''subject_id'', PyStr ''002_S_0295''),
            (''research_group'', PyStr ''N/A''), (''gender'', PyStr ''N/A''),
            (''age'', PyFloat (145 / 2)), (''weight_kg'', PyNone),
            (''visit_type'', PyStr ''N/A''), (''modality'', PyStr ''N/A''),
            (''scan_date'', PyStr ''N/A''), (''series_id'', PyStr ''N/A''),
            (''te_ms'', PyNone), (''manufacturer'', PyStr ''SIEMENS''),
            (''num_rows'', PyNone), (''processing_steps'', PyStr ''N/A'')]"
      and e = "(Element ''weightKg'' [] None [])"]
  from T1 t1 have "mri_protocol_step dec_float (Element ''protocol'' [(''term'', ''TE'')] None []) [] = Inr (AList.update ''te_ms'' PyNone [])"
    by blast
  then have c1: "mri_protocol_step dec_float (Element ''protocol'' [(''term'', ''TE'')] None []) [] = Inr [(''te_ms'', PyNone)]"
    by simp
  from T2 r1 have "pet_protocol_step dec_float (Element ''protocol'' [(''term'', ''Number of Rows'')] None []) [] = Inr (AList.update ''num_rows'' PyNone [])"
    by blast
  then have c2: "pet_protocol_step dec_float (Element ''protocol'' [(''term'', ''Number of Rows'')] None []) [] = Inr [(''num_rows'', PyNone)]"
    by simp
  from T1 all have c3: "\<exists>m'. extract_imaging_protocol dec_float doc_empty_protocol [] = Inr m'"
    by blast
  from T1 all oth
  have c3': "\<exists>md'. parse_xml_metadata dec_float ''ADNI/ADNI_002_S_0295_MPR_S13408.xml''
        (Some doc_empty_protocol) = Some md'"
    by blast
  from T1 rec mri have c4: "map_of [(''filename'', PyStr ''ADNI_002_S_0295_MPR_S13408.xml''),
            (''scan_type'', PyStr ''MRI_MPRAGE''), (''subject_id'', PyStr ''002_S_0295''),
            (''research_group'', PyStr ''N/A''), (''gender'', PyStr ''N/A''),
            (''age'', PyFloat (145 / 2)), (''weight_kg'', PyNone),
            (''visit_type'', PyStr ''N/A''), (''modality'', PyStr ''N/A''),
            (''scan_date'', PyStr ''N/A''), (''series_id'', PyStr ''N/A''),
            (''te_ms'', PyNone), (''manufacturer'', PyStr ''SIEMENS''),
            (''num_rows'', PyNone), (''processing_steps'', PyStr ''N/A'')] ''te_ms'' = Some PyNone"
    by blast
  from T2 rec pet have c5: "map_of [(''filename'', PyStr ''ADNI_002_S_0295_MPR_S13408.xml''),
            (''scan_type'', PyStr ''MRI_MPRAGE''), (''subject_id'', PyStr ''002_S_0295''),
            (''research_group'', PyStr ''N/A''), (''gender'', PyStr ''N/A''),
            (''age'', PyFloat (145 / 2)), (''weight_kg'', PyNone),
            (''visit_type'', PyStr ''N/A''), (''modality'', PyStr ''N/A''),
            (''scan_date'', PyStr ''N/A''), (''series_id'', PyStr ''N/A''),
            (''te_ms'', PyNone), (''manufacturer'', PyStr ''SIEMENS''),
            (''num_rows'', PyNone), (''processing_steps'', PyStr ''N/A'')] ''num_rows'' = Some PyNone"
    by blast
  from T3 age age2 emp
  have c6: "parse_xml_metadata dec_float ''ADNI/ADNI_002_S_0295_MPR_S13408.xml'' (Some doc_empty_age) = None"
    by blast
  from T4 wt wt2 emp
  have c7: "parse_xml_metadata dec_float ''ADNI/ADNI_002_S_0295_MPR_S13408.xml'' (Some doc_empty_weight) = None"
    by blast
  from c1 c2 c3 c3' rec c4 c5 age wt emp c6 c7 show ?thesis by blast
qed

lemma string_fields_cases:
  assumes "(tg, k) \<in> set string_fields"
  obtains "tg = ''subjectIdentifier''" "k = ''subject_id''"
    | "tg = ''researchGroup''" "k = ''research_group''"
    | "tg = ''subjectSex''" "k = ''gender''"
    | "tg = ''visitIdentifier''" "k = ''visit_type''"
    | "tg = ''modality''" "k = ''modality''"
    | "tg = ''dateAcquired''" "k = ''scan_date''"
    | "tg = ''seriesIdentifier''" "k = ''series_id''"
proof -
  from assms have
    "(tg = ''subjectIdentifier'' \<and> k = ''subject_id'')
     \<or> (tg = ''researchGroup'' \<and> k = ''research_group'')
     \<or> (tg = ''subjectSex'' \<and> k = ''gender'')
     \<or> (tg = ''visitIdentifier'' \<and> k = ''visit_type'')
     \<or> (tg = ''modality'' \<and> k = ''modality'')
     \<or> (tg = ''dateAcquired'' \<and> k = ''scan_date'')
     \<or> (tg = ''seriesIdentifier'' \<and> k = ''series_id'')"
    unfolding string_fields_def by simp
  then show ?thesis
    by (elim disjE conjE) (erule (1) that)+
qed

lemma build_string_field:
  assumes b: "build_metadata pf fp xroot = Inr md" and f: "(tg, k) \<in> set string_fields"
  shows "map_of md k =
     Some (case find_desc tg xroot of None \<Rightarrow> PyStr ''N/A'' | Some x \<Rightarrow> text_val (etext x))"
proof -
  from b obtain m1 m2 m3 mm m4 where st:
    "extract_subject pf fp xroot = Inr m1"
    "extract_apoe (findall_has_attr ''subjectInfo'' ''item'' xroot) m1 = Inr m2"
    "extract_clinical_scores pf xroot (extract_visit_scan xroot m2) = Inr m3"
    "for_each (mri_protocol_step pf) (findall_child ''protocolTerm'' ''protocol'' xroot) m3 = Inr mm"
    "for_each (pet_protocol_step pf) (findall_nested ''imagingProtocol'' ''protocol'' xroot) mm
       = Inr m4"
    "md = extract_processing_info xroot m4"
    by (rule build_stages)
  have sub: "k \<in> subject_keys \<Longrightarrow> map_of md k = map_of m1 k" for k
    by (rule build_values(1) [OF st])
  have vis: "k \<in> visit_keys \<Longrightarrow> map_of md k = map_of (extract_visit_scan xroot m2) k" for k
    by (rule build_values(3) [OF st])
  from f show ?thesis
  proof (cases rule: string_fields_cases)
    case 1
    then show ?thesis
      using sub [of "''subject_id''"] extract_subject_values(3) [OF st(1)]
      by (simp add: subject_keys_def)
  next
    case 2
    then show ?thesis
      using sub [of "''research_group''"] extract_subject_values(4) [OF st(1)]
      by (simp add: subject_keys_def)
  next
    case 3
    then show ?thesis
      using sub [of "''gender''"] extract_subject_values(5) [OF st(1)]
      by (simp add: subject_keys_def)
  next
    case 4
    then show ?thesis
      using vis [of "''visit_type''"] extract_visit_scan_values(1) [of xroot m2]
      by (simp add: visit_keys_def)
  next
    case 5
    then show ?thesis
      using vis [of "''modality''"] extract_visit_scan_values(2) [of xroot m2]
      by (simp add: visit_keys_def)
  next
    case 6
    then show ?thesis
      using vis [of "''scan_date''"] extract_visit_scan_values(3) [of xroot m2]
      by (simp add: visit_keys_def)
  next
    case 7
    then show ?thesis
      using vis [of "''series_id''"] extract_visit_scan_values(4) [of xroot m2]
      by (simp add: visit_keys_def)
  qed
qed

lemma build_number_field:
  assumes b: "build_metadata pf fp xroot = Inr md" and f: "(tg, k) \<in> set number_fields"
  shows "(find_desc tg xroot = None \<longrightarrow> map_of md k = Some PyNone)
       \<and> (\<forall>x q. find_desc tg xroot = Some x \<and> py_float pf (etext x) = Inr q \<longrightarrow>
             map_of md k = Some (PyFloat q))"
proof -
  from b obtain m1 m2 m3 mm m4 where st:
    "extract_subject pf fp xroot = Inr m1"
    "extract_apoe (findall_has_attr ''subjectInfo'' ''item'' xroot) m1 = Inr m2"
    "extract_clinical_scores pf xroot (extract_visit_scan xroot m2) = Inr m3"
    "for_each (mri_protocol_step pf) (findall_child ''protocolTerm'' ''protocol'' xroot) m3 = Inr mm"
    "for_each (pet_protocol_step pf) (findall_nested ''imagingProtocol'' ''protocol'' xroot) mm
       = Inr m4"
    "md = extract_processing_info xroot m4"
    by (rule build_stages)
  have sub: "k \<in> subject_keys \<Longrightarrow> map_of md k = map_of m1 k" for k
    by (rule build_values(1) [OF st])
  from f have "(tg = ''subjectAge'' \<and> k = ''age'') \<or> (tg = ''weightKg'' \<and> k = ''weight_kg'')"
    unfolding number_fields_def by simp
  then consider "tg = ''subjectAge''" "k = ''age''" | "tg = ''weightKg''" "k = ''weight_kg''"
    by blast
  then show ?thesis
  proof cases
    case 1
    have "map_of md ''age'' = map_of m1 ''age''"
      by (rule sub) (simp add: subject_keys_def)
    with 1 extract_subject_values(6,7) [OF st(1)] show ?thesis by simp
  next
    case 2
    have "map_of md ''weight_kg'' = map_of m1 ''weight_kg''"
      by (rule sub) (simp add: subject_keys_def)
    with 2 extract_subject_values(8,9) [OF st(1)] show ?thesis by simp
  qed
qed

lemma build_missing_keys:
  assumes b: "build_metadata pf fp xroot = Inr md"
  shows "map_of md ''processing_steps'' =
           Some (if provenance_steps (findall_desc ''provenanceDetail'' xroot) \<noteq> []
                 then PyStr (join ''; '' (provenance_steps (findall_desc ''provenanceDetail'' xroot)))
                 else PyStr ''N/A'')"
    and "find_desc ''processedDataLabel'' xroot = None \<Longrightarrow> map_of md ''processing_label'' = None"
    and "k \<in> apoe_keys \<Longrightarrow> findall_has_attr ''subjectInfo'' ''item'' xroot = [] \<Longrightarrow>
           map_of md k = None"
    and "k \<in> clinical_keys \<Longrightarrow> findall_desc ''assessment'' xroot = [] \<Longrightarrow> map_of md k = None"
    and "k \<in> mri_keys \<Longrightarrow>
           \<forall>y \<in> set (findall_child ''protocolTerm'' ''protocol'' xroot).
             map_of (mri_numeric_fields @ mri_text_fields) (attr_get y ''term'' []) \<noteq> Some k \<Longrightarrow>
           map_of md k = None"
    and "k \<in> pet_keys \<Longrightarrow>
           \<forall>y \<in> set (findall_nested ''imagingProtocol'' ''protocol'' xroot).
             map_of (pet_numeric_fields @ pet_text_fields) (attr_get y ''term'' []) \<noteq> Some k \<Longrightarrow>
           map_of md k = None"
proof -
  from b obtain m1 m2 m3 mm m4 where st:
    "extract_subject pf fp xroot = Inr m1"
    "extract_apoe (findall_has_attr ''subjectInfo'' ''item'' xroot) m1 = Inr m2"
    "extract_clinical_scores pf xroot (extract_visit_scan xroot m2) = Inr m3"
    "for_each (mri_protocol_step pf) (findall_child ''protocolTerm'' ''protocol'' xroot) m3 = Inr mm"
    "for_each (pet_protocol_step pf) (findall_nested ''imagingProtocol'' ''protocol'' xroot) mm
       = Inr m4"
    "md = extract_processing_info xroot m4"
    by (rule build_stages)
  note bv = build_values [OF st]
  show "map_of md ''processing_steps'' =
           Some (if provenance_steps (findall_desc ''provenanceDetail'' xroot) \<noteq> []
                 then PyStr (join ''; '' (provenance_steps (findall_desc ''provenanceDetail'' xroot)))
                 else PyStr ''N/A'')"
    unfolding st(6) by (simp add: extract_processing_info_def Let_def map_of_update_same)
  show "map_of md ''processing_label'' = None" if "find_desc ''processedDataLabel'' xroot = None"
  proof -
    have "map_of md ''processing_label'' = map_of m4 ''processing_label''"
      unfolding st(6) using that
      by (simp add: extract_processing_info_def Let_def map_of_update_other)
    also have "\<dots> = None" by (rule bv(7)) (simp add: processing_keys_def)
    finally show ?thesis .
  qed
  show "map_of md k = None"
    if "k \<in> apoe_keys" "findall_has_attr ''subjectInfo'' ''item'' xroot = []"
  proof -
    from st(2) that(2) have "m2 = m1" by simp
    with bv(2) [OF that(1)] show ?thesis by simp
  qed
  show "map_of md k = None" if "k \<in> clinical_keys" "findall_desc ''assessment'' xroot = []"
  proof -
    from st(3) that(2) have "m3 = extract_visit_scan xroot m2"
      by (simp add: extract_clinical_scores_def)
    with bv(4) [OF that(1)] show ?thesis by simp
  qed
  show "map_of md k = None"
    if "k \<in> mri_keys"
      "\<forall>y \<in> set (findall_child ''protocolTerm'' ''protocol'' xroot).
         map_of (mri_numeric_fields @ mri_text_fields) (attr_get y ''term'' []) \<noteq> Some k"
  proof -
    have "map_of mm k = map_of m3 k"
    proof (rule for_each_frame [OF _ st(4)])
      fix x a c
      assume "x \<in> set (findall_child ''protocolTerm'' ''protocol'' xroot)"
        "mri_protocol_step pf x a = Inr c"
      with that(2) show "map_of c k = map_of a k"
        using mri_protocol_step_writes by blast
    qed
    with bv(5) [OF that(1)] show ?thesis by simp
  qed
  show "map_of md k = None"
    if "k \<in> pet_keys"
      "\<forall>y \<in> set (findall_nested ''imagingProtocol'' ''protocol'' xroot).
         map_of (pet_numeric_fields @ pet_text_fields) (attr_get y ''term'' []) \<noteq> Some k"
  proof -
    have "map_of m4 k = map_of mm k"
    proof (rule for_each_frame [OF _ st(5)])
      fix x a c
      assume "x \<in> set (findall_nested ''imagingProtocol'' ''protocol'' xroot)"
        "pet_protocol_step pf x a = Inr c"
      with that(2) show "map_of c k = map_of a k"
        using pet_protocol_step_writes by blast
    qed
    with bv(6) [OF that(1)] show ?thesis by simp
  qed
qed

text \<open>
  Claim C2. Building a record fails exactly when the file is not well-formed or one of the
  texts passed to \<^verbatim>\<open>float\<close> does not convert; an absent \<^verbatim>\<open>subjectAge\<close> or
  \<^verbatim>\<open>weightKg\<close> element gives \<^verbatim>\<open>None\<close> and does not fail. A \<^verbatim>\<open>subjectAge\<close> text that
  converts to a number gives that number as the age; one that does not convert fails the
  record. The processing loop skips a file whose record fails and goes on with the
  remaining files.
\<close>

theorem record_build_fails_on_bad_number:
  "(parse_xml_metadata pf fp (Some xroot) = None \<longleftrightarrow>
      (\<exists>t \<in> set (float_targets xroot). \<not> converts pf t))
   \<and> (parse_xml_metadata pf fp (Some xroot) = Some md \<and> (tg, k) \<in> set number_fields
        \<and> find_desc tg xroot = None \<longrightarrow> map_of md k = Some PyNone)
   \<and> (parse_xml_metadata pf fp (Some xroot) = Some md
        \<and> find_desc ''subjectAge'' xroot = Some e \<and> etext e = Some t \<and> pf t = Some v \<longrightarrow>
        map_of md ''age'' = Some (PyFloat v))
   \<and> (find_desc ''subjectAge'' xroot = Some e \<and> etext e = Some t \<and> pf t = None \<longrightarrow>
        parse_xml_metadata pf fp (Some xroot) = None)
   \<and> parse_xml_metadata pf fp None = None
   \<and> (parse_xml_metadata pf (path f) (content f) = None \<longrightarrow>
        process_files pf cap (f # rest) tc st = process_files pf cap rest tc st)"
proof (intro conjI impI; (elim conjE)?)
  show "parse_xml_metadata pf fp None = None"
    by (simp add: parse_xml_metadata_def)
next
  show "parse_xml_metadata pf fp (Some xroot) = None \<longleftrightarrow>
      (\<exists>t \<in> set (float_targets xroot). \<not> converts pf t)"
    by (rule parse_None_iff)
next
  assume "parse_xml_metadata pf fp (Some xroot) = Some md" "(tg, k) \<in> set number_fields"
    "find_desc tg xroot = None"
  then show "map_of md k = Some PyNone"
    using build_number_field [of pf fp xroot md tg k] by (simp add: parse_Some_iff)
next
  assume "parse_xml_metadata pf fp (Some xroot) = Some md"
    and e: "find_desc ''subjectAge'' xroot = Some e" "etext e = Some t" "pf t = Some v"
  then have b: "build_metadata pf fp xroot = Inr md" by (simp add: parse_Some_iff)
  have "(''subjectAge'', ''age'') \<in> set number_fields" by (simp add: number_fields_def)
  from build_number_field [OF b this] e show "map_of md ''age'' = Some (PyFloat v)"
    by (simp add: py_float_def)
next
  assume e: "find_desc ''subjectAge'' xroot = Some e" "etext e = Some t" "pf t = None"
  then have "\<not> converts pf (etext e)" by (simp add: converts_iff py_float_def)
  with age_in_targets [OF e(1)] show "parse_xml_metadata pf fp (Some xroot) = None"
    unfolding parse_None_iff by blast
next
  assume "parse_xml_metadata pf (path f) (content f) = None"
  then show "process_files pf cap (f # rest) tc st = process_files pf cap rest tc st"
    by (rule process_files_skip)
qed

theorem record_build_fails_on_bad_number_witness:
  "dec_float ''72.5'' = Some (145 / 2)
   \<and> find_desc ''subjectAge'' doc_minimal = Some (Element ''subjectAge'' [] (Some ''72.5'') [])
   \<and> find_desc ''weightKg'' doc_minimal = None
   \<and> parse_xml_metadata dec_float ''ADNI/ADNI_002_S_0295_MPR_S13408.xml'' (Some doc_minimal) =
      Some [(''filename'', PyStr ''ADNI_002_S_0295_MPR_S13408.xml''),
            (''scan_type'', PyStr ''MRI_MPRAGE''), (''subject_id'', PyStr ''002_S_0295''),
            (''research_group'', PyStr ''CN''), (''gender'', PyStr ''M''),
            (''age'', PyFloat (145 / 2)), (''weight_kg'', PyNone),
            (''visit_type'', PyStr ''N/A''), (''modality'', PyStr ''N/A''),
            (''scan_date'', PyStr ''N/A''), (''series_id'', PyStr ''N/A''),
            (''processing_steps'', PyStr ''N/A'')]
   \<and> map_of [(''filename'', PyStr ''ADNI_002_S_0295_MPR_S13408.xml''),
            (''scan_type'', PyStr ''MRI_MPRAGE''), (''subject_id'', PyStr ''002_S_0295''),
            (''research_group'', PyStr ''CN''), (''gender'', PyStr ''M''),
            (''age'', PyFloat (145 / 2)), (''weight_kg'', PyNone),
            (''visit_type'', PyStr ''N/A''), (''modality'', PyStr ''N/A''),
            (''scan_date'', PyStr ''N/A''), (''series_id'', PyStr ''N/A''),
            (''processing_steps'', PyStr ''N/A'')] ''age'' = Some (PyFloat (145 / 2))
   \<and> map_of [(''filename'', PyStr ''ADNI_002_S_0295_MPR_S13408.xml''),
            (''scan_type'', PyStr ''MRI_MPRAGE''), (''subject_id'', PyStr ''002_S_0295''),
            (''research_group'', PyStr ''CN''), (''gender'', PyStr ''M''),
            (''age'', PyFloat (145 / 2)), (''weight_kg'', PyNone),
            (''visit_type'', PyStr ''N/A''), (''modality'', PyStr ''N/A''),
            (''scan_date'', PyStr ''N/A''), (''series_id'', PyStr ''N/A''),
            (''processing_steps'', PyStr ''N/A'')] ''weight_kg'' = Some PyNone
   \<and> dec_float ''abc'' = None
   \<and> find_desc ''subjectAge'' doc_bad_age = Some (Element ''subjectAge'' [] (Some ''abc'') [])
   \<and> float_targets doc_bad_age = [Some ''abc'']
   \<and> parse_xml_metadata dec_float (path bad_age_file) (Some doc_bad_age) = None
   \<and> content bad_age_file = Some doc_bad_age
   \<and> process_files dec_float (Some 5) [bad_age_file, good_age_file] (\<lambda>k. 0)
        \<lparr>scan_type_data = [], processed_count = 0\<rparr> =
      process_files dec_float (Some 5) [good_age_file] (\<lambda>k. 0)
        \<lparr>scan_type_data = [], processed_count = 0\<rparr>
   \<and> map (map (\<lambda>md. dict_get md ''filename'') \<circ> snd)
        (scan_type_data (process_files dec_float (Some 5) [good_age_file] (\<lambda>k. 0)
           \<lparr>scan_type_data = [], processed_count = 0\<rparr>)) =
      [[PyStr ''ADNI_002_S_0295_MPR_S13408.xml'']]"
proof -
  have a: "dec_float ''72.5'' = Some (145 / 2)"
    by code_simp
  have b: "find_desc ''subjectAge'' doc_minimal = Some (Element ''subjectAge'' [] (Some ''72.5'') [])"
    by code_simp
  have b2: "etext (Element ''subjectAge'' [] (Some ''72.5'') []) = Some ''72.5''"
    by simp
  have c: "find_desc ''weightKg'' doc_minimal = None"
    by code_simp
  have d: "dec_float ''abc'' = None"
    by code_simp
  have e: "find_desc ''subjectAge'' doc_bad_age = Some (Element ''subjectAge'' [] (Some ''abc'') [])"
    by code_simp
  have e2: "etext (Element ''subjectAge'' [] (Some ''abc'') []) = Some ''abc''"
    by simp
  have g: "float_targets doc_bad_age = [Some ''abc'']"
    by code_simp
  have rec: "parse_xml_metadata dec_float ''ADNI/ADNI_002_S_0295_MPR_S13408.xml'' (Some doc_minimal) =
      Some [(''filename'', PyStr ''ADNI_002_S_0295_MPR_S13408.xml''),
            (''scan_type'', PyStr ''MRI_MPRAGE''), (''subject_id'', PyStr ''002_S_0295''),
            (''research_group'', PyStr ''CN''), (''gender'', PyStr ''M''),
            (''age'', PyFloat (145 / 2)), (''weight_kg'', PyNone),
            (''visit_type'', PyStr ''N/A''), (''modality'', PyStr ''N/A''),
            (''scan_date'', PyStr ''N/A''), (''series_id'', PyStr ''N/A''),
            (''processing_steps'', PyStr ''N/A'')]"
    by code_simp
  have cont: "content bad_age_file = Some doc_bad_age"
    by (simp add: bad_age_file_def)
  have run: "map (map (\<lambda>md. dict_get md ''filename'') \<circ> snd)
        (scan_type_data (process_files dec_float (Some 5) [good_age_file] (\<lambda>k. 0)
           \<lparr>scan_type_data = [], processed_count = 0\<rparr>)) =
      [[PyStr ''ADNI_002_S_0295_MPR_S13408.xml'']]"
    by code_simp
  have nf: "(''weightKg'', ''weight_kg'') \<in> set number_fields"
    by (simp add: number_fields_def)
  note T1 = record_build_fails_on_bad_number [where pf = dec_float and fp = "''ADNI/ADNI_002_S_0295_MPR_S13408.xml''"
      and xroot = doc_minimal
      and md = "[(''filename'', PyStr ''ADNI_002_S_0295_MPR_S13408.xml''),
            (''scan_type'', PyStr ''MRI_MPRAGE''), (''subject_id'', PyStr ''002_S_0295''),
            (''research_group'', PyStr ''CN''), (''gender'', PyStr ''M''),
            (''age'', PyFloat (145 / 2)), (''weight_kg'', PyNone),
            (''visit_type'', PyStr ''N/A''), (''modality'', PyStr ''N/A''),
            (''scan_date'', PyStr ''N/A''), (''series_id'', PyStr ''N/A''),
            (''processing_steps'', PyStr ''N/A'')]"
      and tg = "''weightKg''" and k = "''weight_kg''"
      and e = "(Element ''subjectAge'' [] (Some ''72.5'') [])" and t = "''72.5''" and v = "145 / 2"
      and f = bad_age_file and cap = "Some 5" and rest = "[good_age_file]"
      and tc = "\<lambda>k. 0" and st = "\<lparr>scan_type_data = [], processed_count = 0\<rparr>"]
  note T2 = record_build_fails_on_bad_number [where pf = dec_float and fp = "path bad_age_file"
      and xroot = doc_bad_age
      and md = "[(''filename'', PyStr ''ADNI_002_S_0295_MPR_S13408.xml''),
            (''scan_type'', PyStr ''MRI_MPRAGE''), (''subject_id'', PyStr ''002_S_0295''),
            (''research_group'', PyStr ''CN''), (''gender'', PyStr ''M''),
            (''age'', PyFloat (145 / 2)), (''weight_kg'', PyNone),
            (''visit_type'', PyStr ''N/A''), (''modality'', PyStr ''N/A''),
            (''scan_date'', PyStr ''N/A''), (''series_id'', PyStr ''N/A''),
            (''processing_steps'', PyStr ''N/A'')]"
      and tg = "''weightKg''" and k = "''weight_kg''"
      and e = "(Element ''subjectAge'' [] (Some ''abc'') [])" and t = "''abc''" and v = "145 / 2"
      and f = bad_age_file and cap = "Some 5" and rest = "[good_age_file]"
      and tc = "\<lambda>k. 0" and st = "\<lparr>scan_type_data = [], processed_count = 0\<rparr>"]
  from T1 rec nf c have w: "map_of [(''filename'', PyStr ''ADNI_002_S_0295_MPR_S13408.xml''),
            (''scan_type'', PyStr ''MRI_MPRAGE''), (''subject_id'', PyStr ''002_S_0295''),
            (''research_group'', PyStr ''CN''), (''gender'', PyStr ''M''),
            (''age'', PyFloat (145 / 2)), (''weight_kg'', PyNone),
            (''visit_type'', PyStr ''N/A''), (''modality'', PyStr ''N/A''),
            (''scan_date'', PyStr ''N/A''), (''series_id'', PyStr ''N/A''),
            (''processing_steps'', PyStr ''N/A'')] ''weight_kg'' = Some PyNone"
    by blast
  from T1 rec b b2 a have ag: "map_of [(''filename'', PyStr ''ADNI_002_S_0295_MPR_S13408.xml''),
            (''scan_type'', PyStr ''MRI_MPRAGE''), (''subject_id'', PyStr ''002_S_0295''),
            (''research_group'', PyStr ''CN''), (''gender'', PyStr ''M''),
            (''age'', PyFloat (145 / 2)), (''weight_kg'', PyNone),
            (''visit_type'', PyStr ''N/A''), (''modality'', PyStr ''N/A''),
            (''scan_date'', PyStr ''N/A''), (''series_id'', PyStr ''N/A''),
            (''processing_steps'', PyStr ''N/A'')] ''age'' = Some (PyFloat (145 / 2))"
    by blast
  from T2 e e2 d have bad: "parse_xml_metadata dec_float (path bad_age_file) (Some doc_bad_age) = None"
    by blast
  then have bad': "parse_xml_metadata dec_float (path bad_age_file) (content bad_age_file) = None"
    unfolding cont .
  from T1 bad' have skip: "process_files dec_float (Some 5) (bad_age_file # [good_age_file])
        (\<lambda>k. 0) \<lparr>scan_type_data = [], processed_count = 0\<rparr> =
      process_files dec_float (Some 5) [good_age_file] (\<lambda>k. 0)
        \<lparr>scan_type_data = [], processed_count = 0\<rparr>"
    by blast
  from a b c rec ag w d e g bad cont skip run show ?thesis by blast
qed

theorem empty_numeric_text_builds_counterexample:
  "findall_child ''protocolTerm'' ''protocol'' doc_empty_protocol =
     [Element ''protocol'' [(''term'', ''TE'')] None [],
      Element ''protocol'' [(''term'', ''Number of Rows'')] None [],
      Element ''protocol'' [(''term'', ''Manufacturer'')] (Some ''SIEMENS'') []]
   \<and> map_of mri_numeric_fields ''TE'' = Some ''te_ms''
   \<and> py_float dec_float None = Inl TypeError
   \<and> dec_float [] = None
   \<and> parse_xml_metadata dec_float ''ADNI/ADNI_002_S_0295_MPR_S13408.xml''
        (Some doc_empty_protocol) =
      Some [(''filename'', PyStr ''ADNI_002_S_0295_MPR_S13408.xml''),
            (''scan_type'', PyStr ''MRI_MPRAGE''), (''subject_id'', PyStr ''002_S_0295''),
            (''research_group'', PyStr ''N/A''), (''gender'', PyStr ''N/A''),
            (''age'', PyFloat (145 / 2)), (''weight_kg'', PyNone),
            (''visit_type'', PyStr ''N/A''), (''modality'', PyStr ''N/A''),
            (''scan_date'', PyStr ''N/A''), (''series_id'', PyStr ''N/A''),
            (''te_ms'', PyNone), (''manufacturer'', PyStr ''SIEMENS''),
            (''num_rows'', PyNone), (''processing_steps'', PyStr ''N/A'')]"
  by code_simp

text \<open>
  Claim C3. In a built record an absent element is marked according to the kind of its
  field: the string \<^verbatim>\<open>N/A\<close> for the seven string fields and for
  \<^verbatim>\<open>processing_steps\<close>, \<^verbatim>\<open>None\<close> for \<^verbatim>\<open>age\<close> and \<^verbatim>\<open>weight_kg\<close>, and no key at
  all for \<^verbatim>\<open>processing_label\<close>, the APOE fields, the clinical scores and the protocol
  fields.
\<close>

theorem absence_markers_by_field_kind:
  assumes "parse_xml_metadata pf fp (Some xroot) = Some md"
  shows "((tg, k) \<in> set string_fields \<and> find_desc tg xroot = None \<longrightarrow>
            map_of md k = Some (PyStr ''N/A''))
       \<and> ((tg, k) \<in> set number_fields \<and> find_desc tg xroot = None \<longrightarrow>
            map_of md k = Some PyNone)
       \<and> (provenance_steps (findall_desc ''provenanceDetail'' xroot) = [] \<longrightarrow>
            map_of md ''processing_steps'' = Some (PyStr ''N/A''))
       \<and> (find_desc ''processedDataLabel'' xroot = None \<longrightarrow>
            map_of md ''processing_label'' = None)
       \<and> (k \<in> apoe_keys \<and> findall_has_attr ''subjectInfo'' ''item'' xroot = [] \<longrightarrow>
            map_of md k = None)
       \<and> (k \<in> clinical_keys \<and> findall_desc ''assessment'' xroot = [] \<longrightarrow>
            map_of md k = None)
       \<and> (k \<in> mri_keys
            \<and> (\<forall>y \<in> set (findall_child ''protocolTerm'' ''protocol'' xroot).
                 map_of (mri_numeric_fields @ mri_text_fields) (attr_get y ''term'' []) \<noteq> Some k)
            \<longrightarrow> map_of md k = None)
       \<and> (k \<in> pet_keys
            \<and> (\<forall>y \<in> set (findall_nested ''imagingProtocol'' ''protocol'' xroot).
                 map_of (pet_numeric_fields @ pet_text_fields) (attr_get y ''term'' []) \<noteq> Some k)
            \<longrightarrow> map_of md k = None)"
proof -
  from assms have b: "build_metadata pf fp xroot = Inr md" by (simp add: parse_Some_iff)
  note mk = build_missing_keys [OF b]
  show ?thesis
  proof (intro conjI impI; (elim conjE)?)
    assume "(tg, k) \<in> set string_fields" "find_desc tg xroot = None"
    then show "map_of md k = Some (PyStr ''N/A'')"
      using build_string_field [OF b, of tg k] by simp
  next
    assume "(tg, k) \<in> set number_fields" "find_desc tg xroot = None"
    then show "map_of md k = Some PyNone"
      using build_number_field [OF b, of tg k] by simp
  next
    assume "provenance_steps (findall_desc ''provenanceDetail'' xroot) = []"
    then show "map_of md ''processing_steps'' = Some (PyStr ''N/A'')"
      using mk(1) by simp
  next
    assume "find_desc ''processedDataLabel'' xroot = None"
    then show "map_of md ''processing_label'' = None" by (rule mk(2))
  next
    assume "k \<in> apoe_keys" "findall_has_attr ''subjectInfo'' ''item'' xroot = []"
    then show "map_of md k = None" by (rule mk(3))
  next
    assume "k \<in> clinical_keys" "findall_desc ''assessment'' xroot = []"
    then show "map_of md k = None" by (rule mk(4))
  next
    assume "k \<in> mri_keys"
      "\<forall>y \<in> set (findall_child ''protocolTerm'' ''protocol'' xroot).
         map_of (mri_numeric_fields @ mri_text_fields) (attr_get y ''term'' []) \<noteq> Some k"
    then show "map_of md k = None" by (rule mk(5))
  next
    assume "k \<in> pet_keys"
      "\<forall>y \<in> set (findall_nested ''imagingProtocol'' ''protocol'' xroot).
         map_of (pet_numeric_fields @ pet_text_fields) (attr_get y ''term'' []) \<noteq> Some k"
    then show "map_of md k = None" by (rule mk(6))
  qed
qed

theorem absence_markers_by_field_kind_witness:
  "parse_xml_metadata dec_float ''ADNI/ADNI_002_S_0295_MPR_S13408.xml'' (Some doc_root_only) =
      Some [(''filename'', PyStr ''ADNI_002_S_0295_MPR_S13408.xml''),
            (''scan_type'', PyStr ''MRI_MPRAGE''), (''subject_id'', PyStr ''N/A''),
            (''research_group'', PyStr ''N/A''), (''gender'', PyStr ''N/A''),
            (''age'', PyNone), (''weight_kg'', PyNone), (''visit_type'', PyStr ''N/A''),
            (''modality'', PyStr ''N/A''), (''scan_date'', PyStr ''N/A''),
            (''series_id'', PyStr ''N/A''), (''processing_steps'', PyStr ''N/A'')]
   \<and> find_desc ''seriesIdentifier'' doc_root_only = None
   \<and> find_desc ''weightKg'' doc_root_only = None
   \<and> find_desc ''processedDataLabel'' doc_root_only = None
   \<and> provenance_steps (findall_desc ''provenanceDetail'' doc_root_only) = []
   \<and> findall_has_attr ''subjectInfo'' ''item'' doc_root_only = []
   \<and> findall_desc ''assessment'' doc_root_only = []
   \<and> findall_child ''protocolTerm'' ''protocol'' doc_root_only = []
   \<and> findall_nested ''imagingProtocol'' ''protocol'' doc_root_only = []
   \<and> map_of [(''filename'', PyStr ''ADNI_002_S_0295_MPR_S13408.xml''),
            (''scan_type'', PyStr ''MRI_MPRAGE''), (''subject_id'', PyStr ''N/A''),
            (''research_group'', PyStr ''N/A''), (''gender'', PyStr ''N/A''),
            (''age'', PyNone), (''weight_kg'', PyNone), (''visit_type'', PyStr ''N/A''),
            (''modality'', PyStr ''N/A''), (''scan_date'', PyStr ''N/A''),
            (''series_id'', PyStr ''N/A''), (''processing_steps'', PyStr ''N/A'')] ''series_id'' = Some (PyStr ''N/A'')
   \<and> map_of [(''filename'', PyStr ''ADNI_002_S_0295_MPR_S13408.xml''),
            (''scan_type'', PyStr ''MRI_MPRAGE''), (''subject_id'', PyStr ''N/A''),
            (''research_group'', PyStr ''N/A''), (''gender'', PyStr ''N/A''),
            (''age'', PyNone), (''weight_kg'', PyNone), (''visit_type'', PyStr ''N/A''),
            (''modality'', PyStr ''N/A''), (''scan_date'', PyStr ''N/A''),
            (''series_id'', PyStr ''N/A''), (''processing_steps'', PyStr ''N/A'')] ''weight_kg'' = Some PyNone
   \<and> map_of [(''filename'', PyStr ''ADNI_002_S_0295_MPR_S13408.xml''),
            (''scan_type'', PyStr ''MRI_MPRAGE''), (''subject_id'', PyStr ''N/A''),
            (''research_group'', PyStr ''N/A''), (''gender'', PyStr ''N/A''),
            (''age'', PyNone), (''weight_kg'', PyNone), (''visit_type'', PyStr ''N/A''),
            (''modality'', PyStr ''N/A''), (''scan_date'', PyStr ''N/A''),
            (''series_id'', PyStr ''N/A''), (''processing_steps'', PyStr ''N/A'')] ''processing_steps'' = Some (PyStr ''N/A'')
   \<and> map_of [(''filename'', PyStr ''ADNI_002_S_0295_MPR_S13408.xml''),
            (''scan_type'', PyStr ''MRI_MPRAGE''), (''subject_id'', PyStr ''N/A''),
            (''research_group'', PyStr ''N/A''), (''gender'', PyStr ''N/A''),
            (''age'', PyNone), (''weight_kg'', PyNone), (''visit_type'', PyStr ''N/A''),
            (''modality'', PyStr ''N/A''), (''scan_date'', PyStr ''N/A''),
            (''series_id'', PyStr ''N/A''), (''processing_steps'', PyStr ''N/A'')] ''processing_label'' = None
   \<and> map_of [(''filename'', PyStr ''ADNI_002_S_0295_MPR_S13408.xml''),
            (''scan_type'', PyStr ''MRI_MPRAGE''), (''subject_id'', PyStr ''N/A''),
            (''research_group'', PyStr ''N/A''), (''gender'', PyStr ''N/A''),
            (''age'', PyNone), (''weight_kg'', PyNone), (''visit_type'', PyStr ''N/A''),
            (''modality'', PyStr ''N/A''), (''scan_date'', PyStr ''N/A''),
            (''series_id'', PyStr ''N/A''), (''processing_steps'', PyStr ''N/A'')] ''apoe_a2'' = None
   \<and> map_of [(''filename'', PyStr ''ADNI_002_S_0295_MPR_S13408.xml''),
            (''scan_type'', PyStr ''MRI_MPRAGE''), (''subject_id'', PyStr ''N/A''),
            (''research_group'', PyStr ''N/A''), (''gender'', PyStr ''N/A''),
            (''age'', PyNone), (''weight_kg'', PyNone), (''visit_type'', PyStr ''N/A''),
            (''modality'', PyStr ''N/A''), (''scan_date'', PyStr ''N/A''),
            (''series_id'', PyStr ''N/A''), (''processing_steps'', PyStr ''N/A'')] ''faq_score'' = None
   \<and> map_of [(''filename'', PyStr ''ADNI_002_S_0295_MPR_S13408.xml''),
            (''scan_type'', PyStr ''MRI_MPRAGE''), (''subject_id'', PyStr ''N/A''),
            (''research_group'', PyStr ''N/A''), (''gender'', PyStr ''N/A''),
            (''age'', PyNone), (''weight_kg'', PyNone), (''visit_type'', PyStr ''N/A''),
            (''modality'', PyStr ''N/A''), (''scan_date'', PyStr ''N/A''),
            (''series_id'', PyStr ''N/A''), (''processing_steps'', PyStr ''N/A'')] ''te_ms'' = None
   \<and> map_of [(''filename'', PyStr ''ADNI_002_S_0295_MPR_S13408.xml''),
            (''scan_type'', PyStr ''MRI_MPRAGE''), (''subject_id'', PyStr ''N/A''),
            (''research_group'', PyStr ''N/A''), (''gender'', PyStr ''N/A''),
            (''age'', PyNone), (''weight_kg'', PyNone), (''visit_type'', PyStr ''N/A''),
            (''modality'', PyStr ''N/A''), (''scan_date'', PyStr ''N/A''),
            (''series_id'', PyStr ''N/A''), (''processing_steps'', PyStr ''N/A'')] ''num_rows'' = None"
proof -
  have rec: "parse_xml_metadata dec_float ''ADNI/ADNI_002_S_0295_MPR_S13408.xml'' (Some doc_root_only) =
      Some [(''filename'', PyStr ''ADNI_002_S_0295_MPR_S13408.xml''),
            (''scan_type'', PyStr ''MRI_MPRAGE''), (''subject_id'', PyStr ''N/A''),
            (''research_group'', PyStr ''N/A''), (''gender'', PyStr ''N/A''),
            (''age'', PyNone), (''weight_kg'', PyNone), (''visit_type'', PyStr ''N/A''),
            (''modality'', PyStr ''N/A''), (''scan_date'', PyStr ''N/A''),
            (''series_id'', PyStr ''N/A''), (''processing_steps'', PyStr ''N/A'')]"
    by code_simp
  have e1: "find_desc ''seriesIdentifier'' doc_root_only = None"
    by code_simp
  have e2: "find_desc ''weightKg'' doc_root_only = None"
    by code_simp
  have e3: "find_desc ''processedDataLabel'' doc_root_only = None"
    by code_simp
  have e4: "provenance_steps (findall_desc ''provenanceDetail'' doc_root_only) = []"
    by code_simp
  have e5: "findall_has_attr ''subjectInfo'' ''item'' doc_root_only = []"
    by code_simp
  have e6: "findall_desc ''assessment'' doc_root_only = []"
    by code_simp
  have e7: "findall_child ''protocolTerm'' ''protocol'' doc_root_only = []"
    by code_simp
  have e8: "findall_nested ''imagingProtocol'' ''protocol'' doc_root_only = []"
    by code_simp
  have a7: "\<forall>y \<in> set (findall_child ''protocolTerm'' ''protocol'' doc_root_only).
       map_of (mri_numeric_fields @ mri_text_fields) (attr_get y ''term'' []) \<noteq> Some ''te_ms''"
    unfolding e7 by simp
  have a8: "\<forall>y \<in> set (findall_nested ''imagingProtocol'' ''protocol'' doc_root_only).
       map_of (pet_numeric_fields @ pet_text_fields) (attr_get y ''term'' []) \<noteq> Some ''num_rows''"
    unfolding e8 by simp
  have m1: "(''seriesIdentifier'', ''series_id'') \<in> set string_fields"
    by (simp add: string_fields_def)
  have m2: "(''weightKg'', ''weight_kg'') \<in> set number_fields"
    by (simp add: number_fields_def)
  have m3: "''apoe_a2'' \<in> apoe_keys"
    by (simp add: apoe_keys_def)
  have m4: "''faq_score'' \<in> clinical_keys"
    by (simp add: clinical_keys_def)
  have m5: "''te_ms'' \<in> mri_keys"
    by (simp add: mri_keys_def)
  have m6: "''num_rows'' \<in> pet_keys"
    by (simp add: pet_keys_def)
  note T = absence_markers_by_field_kind [OF rec]
  from T [where tg = "''seriesIdentifier''" and k = "''series_id''"] m1 e1
  have c1: "map_of [(''filename'', PyStr ''ADNI_002_S_0295_MPR_S13408.xml''),
            (''scan_type'', PyStr ''MRI_MPRAGE''), (''subject_id'', PyStr ''N/A''),
            (''research_group'', PyStr ''N/A''), (''gender'', PyStr ''N/A''),
            (''age'', PyNone), (''weight_kg'', PyNone), (''visit_type'', PyStr ''N/A''),
            (''modality'', PyStr ''N/A''), (''scan_date'', PyStr ''N/A''),
            (''series_id'', PyStr ''N/A''), (''processing_steps'', PyStr ''N/A'')] ''series_id'' = Some (PyStr ''N/A'')"
    by blast
  from T [where tg = "''weightKg''" and k = "''weight_kg''"] m2 e2
  have c2: "map_of [(''filename'', PyStr ''ADNI_002_S_0295_MPR_S13408.xml''),
            (''scan_type'', PyStr ''MRI_MPRAGE''), (''subject_id'', PyStr ''N/A''),
            (''research_group'', PyStr ''N/A''), (''gender'', PyStr ''N/A''),
            (''age'', PyNone), (''weight_kg'', PyNone), (''visit_type'', PyStr ''N/A''),
            (''modality'', PyStr ''N/A''), (''scan_date'', PyStr ''N/A''),
            (''series_id'', PyStr ''N/A''), (''processing_steps'', PyStr ''N/A'')] ''weight_kg'' = Some PyNone"
    by blast
  from T [where tg = "''weightKg''" and k = "''weight_kg''"] e4
  have c3: "map_of [(''filename'', PyStr ''ADNI_002_S_0295_MPR_S13408.xml''),
            (''scan_type'', PyStr ''MRI_MPRAGE''), (''subject_id'', PyStr ''N/A''),
            (''research_group'', PyStr ''N/A''), (''gender'', PyStr ''N/A''),
            (''age'', PyNone), (''weight_kg'', PyNone), (''visit_type'', PyStr ''N/A''),
            (''modality'', PyStr ''N/A''), (''scan_date'', PyStr ''N/A''),
            (''series_id'', PyStr ''N/A''), (''processing_steps'', PyStr ''N/A'')] ''processing_steps'' = Some (PyStr ''N/A'')"
    by blast
  from T [where tg = "''weightKg''" and k = "''weight_kg''"] e3
  have c4: "map_of [(''filename'', PyStr ''ADNI_002_S_0295_MPR_S13408.xml''),
            (''scan_type'', PyStr ''MRI_MPRAGE''), (''subject_id'', PyStr ''N/A''),
            (''research_group'', PyStr ''N/A''), (''gender'', PyStr ''N/A''),
            (''age'', PyNone), (''weight_kg'', PyNone), (''visit_type'', PyStr ''N/A''),
            (''modality'', PyStr ''N/A''), (''scan_date'', PyStr ''N/A''),
            (''series_id'', PyStr ''N/A''), (''processing_steps'', PyStr ''N/A'')] ''processing_label'' = None"
    by blast
  from T [where tg = "''weightKg''" and k = "''apoe_a2''"] m3 e5
  have c5: "map_of [(''filename'', PyStr ''ADNI_002_S_0295_MPR_S13408.xml''),
            (''scan_type'', PyStr ''MRI_MPRAGE''), (''subject_id'', PyStr ''N/A''),
            (''research_group'', PyStr ''N/A''), (''gender'', PyStr ''N/A''),
            (''age'', PyNone), (''weight_kg'', PyNone), (''visit_type'', PyStr ''N/A''),
            (''modality'', PyStr ''N/A''), (''scan_date'', PyStr ''N/A''),
            (''series_id'', PyStr ''N/A''), (''processing_steps'', PyStr ''N/A'')] ''apoe_a2'' = None"
    by blast
  from T [where tg = "''weightKg''" and k = "''faq_score''"] m4 e6
  have c6: "map_of [(''filename'', PyStr ''ADNI_002_S_0295_MPR_S13408.xml''),
            (''scan_type'', PyStr ''MRI_MPRAGE''), (''subject_id'', PyStr ''N/A''),
            (''research_group'', PyStr ''N/A''), (''gender'', PyStr ''N/A''),
            (''age'', PyNone), (''weight_kg'', PyNone), (''visit_type'', PyStr ''N/A''),
            (''modality'', PyStr ''N/A''), (''scan_date'', PyStr ''N/A''),
            (''series_id'', PyStr ''N/A''), (''processing_steps'', PyStr ''N/A'')] ''faq_score'' = None"
    by blast
  from T [where tg = "''weightKg''" and k = "''te_ms''"] m5 a7
  have c7: "map_of [(''filename'', PyStr ''ADNI_002_S_0295_MPR_S13408.xml''),
            (''scan_type'', PyStr ''MRI_MPRAGE''), (''subject_id'', PyStr ''N/A''),
            (''research_group'', PyStr ''N/A''), (''gender'', PyStr ''N/A''),
            (''age'', PyNone), (''weight_kg'', PyNone), (''visit_type'', PyStr ''N/A''),
            (''modality'', PyStr ''N/A''), (''scan_date'', PyStr ''N/A''),
            (''series_id'', PyStr ''N/A''), (''processing_steps'', PyStr ''N/A'')] ''te_ms'' = None"
    by blast
  from T [where tg = "''weightKg''" and k = "''num_rows''"] m6 a8
  have c8: "map_of [(''filename'', PyStr ''ADNI_002_S_0295_MPR_S13408.xml''),
            (''scan_type'', PyStr ''MRI_MPRAGE''), (''subject_id'', PyStr ''N/A''),
            (''research_group'', PyStr ''N/A''), (''gender'', PyStr ''N/A''),
            (''age'', PyNone), (''weight_kg'', PyNone), (''visit_type'', PyStr ''N/A''),
            (''modality'', PyStr ''N/A''), (''scan_date'', PyStr ''N/A''),
            (''series_id'', PyStr ''N/A''), (''processing_steps'', PyStr ''N/A'')] ''num_rows'' = None"
    by blast
  from rec e1 e2 e3 e4 e5 e6 e7 e8 c1 c2 c3 c4 c5 c6 c7 c8 show ?thesis by blast
qed

theorem absence_marker_mix_counterexample:
  "find_desc ''subjectIdentifier'' doc_root_only = None
   \<and> find_desc ''subjectAge'' doc_root_only = None
   \<and> findall_has_attr ''subjectInfo'' ''item'' doc_root_only = []
   \<and> parse_xml_metadata dec_float ''ADNI/ADNI_002_S_0295_MPR_S13408.xml'' (Some doc_root_only) =
      Some [(''filename'', PyStr ''ADNI_002_S_0295_MPR_S13408.xml''),
            (''scan_type'', PyStr ''MRI_MPRAGE''), (''subject_id'', PyStr ''N/A''),
            (''research_group'', PyStr ''N/A''), (''gender'', PyStr ''N/A''),
            (''age'', PyNone), (''weight_kg'', PyNone), (''visit_type'', PyStr ''N/A''),
            (''modality'', PyStr ''N/A''), (''scan_date'', PyStr ''N/A''),
            (''series_id'', PyStr ''N/A''), (''processing_steps'', PyStr ''N/A'')]
   \<and> map_option (\<lambda>md. (map_of md ''subject_id'', map_of md ''age'', map_of md ''apoe_a1''))
        (parse_xml_metadata dec_float ''ADNI/ADNI_002_S_0295_MPR_S13408.xml''
           (Some doc_root_only)) =
      Some (Some (PyStr ''N/A''), Some PyNone, None)
   \<and> PyStr ''N/A'' \<noteq> PyNone"
  by code_simp

end
